theory Spec2Isabelle
  imports Main "HOL-Library.Word"
begin

unbundle bit_operations_syntax

section \<open>Strings\<close>

text \<open>
  Go strings are byte sequences; they are modelled as \<open>string\<close> (a list of 8-bit
  characters).  The helpers below follow the functions of Go's \<open>strings\<close> package that the
  SDK calls.  The backslash is written \<open>CHR 0x5C\<close>.
\<close>

fun HasPrefix :: "string \<Rightarrow> string \<Rightarrow> bool" where
  "HasPrefix s [] = True"
| "HasPrefix [] (p # ps) = False"
| "HasPrefix (c # cs) (p # ps) = (c = p \<and> HasPrefix cs ps)"

definition HasSuffix :: "string \<Rightarrow> string \<Rightarrow> bool" where
  "HasSuffix s suf = HasPrefix (rev s) (rev suf)"

fun Contains :: "string \<Rightarrow> string \<Rightarrow> bool" where
  "Contains [] sub = (sub = [])"
| "Contains (c # cs) sub = (HasPrefix (c # cs) sub \<or> Contains cs sub)"

text \<open>
  \<open>strings.ReplaceAll\<close>: non-overlapping occurrences of \<open>old\<close>, left to right.  The
  SDK only calls it with a non-empty \<open>old\<close>; for an empty \<open>old\<close> (where Go inserts \<open>new\<close>
  between the runes) the model returns \<open>s\<close>.
\<close>

function ReplaceAll :: "string \<Rightarrow> string \<Rightarrow> string \<Rightarrow> string" where
  "ReplaceAll s old new =
     (if old = [] \<or> s = [] then s
      else if HasPrefix s old then new @ ReplaceAll (drop (length old) s) old new
      else hd s # ReplaceAll (tl s) old new)"
  by pat_completeness auto
termination
  by (relation "measure (\<lambda>(s, old, new). length s)") auto

declare ReplaceAll.simps [simp del]

definition TrimSuffix :: "string \<Rightarrow> string \<Rightarrow> string" where
  "TrimSuffix s suf = (if HasSuffix s suf then take (length s - length suf) s else s)"

lemma ReplaceAll_Nil [simp]: "ReplaceAll [] old new = []"
  by (simp add: ReplaceAll.simps)

lemma ReplaceAll_Cons:
  "old \<noteq> [] \<Longrightarrow> ReplaceAll (c # cs) old new =
     (if HasPrefix (c # cs) old then new @ ReplaceAll (drop (length old) (c # cs)) old new
      else c # ReplaceAll cs old new)"
  by (subst ReplaceAll.simps) simp

lemma HasPrefix_iff: "HasPrefix s p \<longleftrightarrow> take (length p) s = p"
  by (induction s p rule: HasPrefix.induct) auto

lemma HasPrefix_length: "HasPrefix s p \<Longrightarrow> length p \<le> length s"
  by (induction s p rule: HasPrefix.induct) auto

lemma Contains_single: "Contains s [c] \<longleftrightarrow> c \<in> set s"
proof (induction s)
  case Nil
  then show ?case by simp
next
  case (Cons a s)
  then show ?case by (cases s) auto
qed

lemma ReplaceAll_absent: "\<not> Contains s old \<Longrightarrow> ReplaceAll s old new = s"
proof (induction s)
  case Nil
  then show ?case by simp
next
  case (Cons a s)
  then show ?case by (cases "old = []") (auto simp: ReplaceAll_Cons ReplaceAll.simps)
qed

lemma ReplaceAll_le:
  "old \<noteq> [] \<Longrightarrow> length new \<le> length old \<Longrightarrow> length (ReplaceAll s old new) \<le> length s"
proof (induction s old new rule: ReplaceAll.induct)
  case (1 s old new)
  show ?case
  proof (cases "s = []")
    case True
    then show ?thesis by simp
  next
    case False
    note ne = this
    show ?thesis
    proof (cases "HasPrefix s old")
      case True
      have n: "length old \<le> length s"
        by (rule HasPrefix_length [OF True])
      have "\<not> (old = [] \<or> s = [])" using ne 1(3) by simp
      then have "length (ReplaceAll (drop (length old) s) old new) \<le> length (drop (length old) s)"
        using 1(1) True 1(3,4) by blast
      then show ?thesis
        using True ne 1(3,4) n by (subst ReplaceAll.simps) simp
    next
      case False
      have "\<not> (old = [] \<or> s = [])" using ne 1(3) by simp
      then have "length (ReplaceAll (tl s) old new) \<le> length (tl s)"
        using 1(2) False 1(3,4) by blast
      then show ?thesis
        using False ne 1(3) by (subst ReplaceAll.simps) (cases s, auto)
    qed
  qed
qed

lemma ReplaceAll_shorter:
  "old \<noteq> [] \<Longrightarrow> length new < length old \<Longrightarrow> Contains s old \<Longrightarrow>
   length (ReplaceAll s old new) < length s"
proof (induction s)
  case Nil
  then show ?case by simp
next
  case (Cons c cs)
  show ?case
  proof (cases "HasPrefix (c # cs) old")
    case True
    have n: "length old \<le> length (c # cs)"
      by (rule HasPrefix_length [OF True])
    have "length (ReplaceAll (drop (length old) (c # cs)) old new)
            \<le> length (drop (length old) (c # cs))"
      using ReplaceAll_le [of old new "drop (length old) (c # cs)"] Cons.prems by simp
    then have "length (ReplaceAll (drop (length old) (c # cs)) old new)
            \<le> length (c # cs) - length old"
      by simp
    then have "length (new @ ReplaceAll (drop (length old) (c # cs)) old new) < length (c # cs)"
      using Cons.prems(1,2) n by (simp del: drop_Suc_Cons)
    then show ?thesis
      using True Cons.prems(1) by (simp add: ReplaceAll_Cons del: drop_Suc_Cons)
  next
    case False
    then show ?thesis
      using Cons by (simp add: ReplaceAll_Cons)
  qed
qed

subsection \<open>UTF-8 (package utf8)\<close>

text \<open>
  \<open>utf8.DecodeRuneInString\<close>, as far as a loop over the runes of a string and the JSON
  encoder and decoder need it: \<open>runeLen s\<close> is the number of bytes of the encoding at the head of \<open>s\<close>, and 0 when the head is
  not a valid encoding (the rune error of width 1).
\<close>

definition byteIn :: "nat \<Rightarrow> nat \<Rightarrow> char \<Rightarrow> bool" where
  "byteIn lo hi c \<longleftrightarrow> lo \<le> of_char c \<and> (of_char c :: nat) \<le> hi"

text \<open>The bytes that follow the first byte \<open>b\<close> of an encoding of two, three and four bytes
  (the table of accepted ranges of package utf8).\<close>

definition tail2 :: "string \<Rightarrow> bool" where
  "tail2 cs = (case cs of c1 # r \<Rightarrow> byteIn 0x80 0xBF c1 | _ \<Rightarrow> False)"

definition tail3 :: "nat \<Rightarrow> string \<Rightarrow> bool" where
  "tail3 b cs =
     (case cs of
        c1 # c2 # r \<Rightarrow>
          byteIn (if b = 0xE0 then 0xA0 else 0x80) (if b = 0xED then 0x9F else 0xBF) c1
          \<and> byteIn 0x80 0xBF c2
      | _ \<Rightarrow> False)"

definition tail4 :: "nat \<Rightarrow> string \<Rightarrow> bool" where
  "tail4 b cs =
     (case cs of
        c1 # c2 # c3 # r \<Rightarrow>
          byteIn (if b = 0xF0 then 0x90 else 0x80) (if b = 0xF4 then 0x8F else 0xBF) c1
          \<and> byteIn 0x80 0xBF c2 \<and> byteIn 0x80 0xBF c3
      | _ \<Rightarrow> False)"

definition runeLenFrom :: "nat \<Rightarrow> string \<Rightarrow> nat" where
  "runeLenFrom b cs =
     (if b < 0x80 then 1
      else if 0xC2 \<le> b \<and> b \<le> 0xDF then (if tail2 cs then 2 else 0)
      else if 0xE0 \<le> b \<and> b \<le> 0xEF then (if tail3 b cs then 3 else 0)
      else if 0xF0 \<le> b \<and> b \<le> 0xF4 then (if tail4 b cs then 4 else 0)
      else 0)"

definition runeLen :: "string \<Rightarrow> nat" where
  "runeLen s = (case s of [] \<Rightarrow> 0 | c # cs \<Rightarrow> runeLenFrom (of_char c) cs)"

text \<open>
  A byte that is not part of a valid encoding is read as the rune U+FFFD, whose encoding is
  \<open>replacementChar\<close>.  \<open>toValidUTF8\<close> is the string with every such byte replaced by it:
  what \<open>json.Marshal\<close> writes for a string, and what the decoder makes of the bytes of a
  string literal.
\<close>

definition replacementChar :: string where
  "replacementChar = [CHR 0xEF, CHR 0xBF, CHR 0xBD]"

function toValidUTF8 :: "string \<Rightarrow> string" where
  "toValidUTF8 s =
     (if s = [] then []
      else if runeLen s = 0 then replacementChar @ toValidUTF8 (tl s)
      else take (runeLen s) s @ toValidUTF8 (drop (runeLen s) s))"
  by pat_completeness auto
termination
  by (relation "measure length") auto

declare toValidUTF8.simps [simp del]




section \<open>Path normalisation (file.go: normalizePath, normalizeRootDir)\<close>

text \<open>
  The loop \<open>for strings.Contains(path, "//") { path = strings.ReplaceAll(path, "//", "/") }\<close>.
  Every pass shortens the path, which is the termination argument.
\<close>

function collapseSlashes :: "string \<Rightarrow> string" where
  "collapseSlashes path =
     (if Contains path ''//'' then collapseSlashes (ReplaceAll path ''//'' ''/'') else path)"
  by pat_completeness auto
termination
  by (relation "measure length") (auto intro: ReplaceAll_shorter)

declare collapseSlashes.simps [simp del]

definition normalizePath :: "string \<Rightarrow> string" where
  "normalizePath path =
     (let path = ReplaceAll path [CHR 0x5C] ''/'';
          path = collapseSlashes path
      in if length path > 1 \<and> HasSuffix path ''/'' then TrimSuffix path ''/'' else path)"

definition normalizeRootDir :: "string \<Rightarrow> string" where
  "normalizeRootDir path =
     (let path = normalizePath path
      in if path = [] \<or> path = ''/'' \<or> path = ''.'' then ''0'' else path)"

subsection \<open>Facts about normalisation\<close>

lemma Contains_iff: "Contains s sub \<longleftrightarrow> (\<exists>a b. s = a @ sub @ b)"
proof (induction s)
  case Nil
  then show ?case by auto
next
  case (Cons c cs)
  show ?case
  proof
    assume "Contains (c # cs) sub"
    then consider "HasPrefix (c # cs) sub" | "Contains cs sub" by auto
    then show "\<exists>a b. c # cs = a @ sub @ b"
    proof cases
      case 1
      then have "c # cs = [] @ sub @ drop (length sub) (c # cs)"
        by (metis HasPrefix_iff append_Nil append_take_drop_id)
      then show ?thesis by blast
    next
      case 2
      then obtain a b where "cs = a @ sub @ b" using Cons.IH by blast
      then have "c # cs = (c # a) @ sub @ b" by simp
      then show ?thesis by blast
    qed
  next
    assume "\<exists>a b. c # cs = a @ sub @ b"
    then obtain a b where ab: "c # cs = a @ sub @ b" by blast
    show "Contains (c # cs) sub"
    proof (cases a)
      case Nil
      then have "take (length sub) (c # cs) = sub" using ab by simp
      then have "HasPrefix (c # cs) sub" by (simp only: HasPrefix_iff)
      then show ?thesis by simp
    next
      case (Cons x a')
      then have "cs = a' @ sub @ b" using ab by simp
      then show ?thesis using Cons.IH by auto
    qed
  qed
qed

lemma HasSuffix_iff: "HasSuffix s suf \<longleftrightarrow> (\<exists>a. s = a @ suf)"
proof -
  have "HasSuffix s suf \<longleftrightarrow> take (length suf) (rev s) = rev suf"
    by (simp add: HasSuffix_def HasPrefix_iff)
  also have "\<dots> \<longleftrightarrow> (\<exists>a. s = a @ suf)"
  proof
    assume h: "take (length suf) (rev s) = rev suf"
    have "rev s = rev suf @ drop (length suf) (rev s)"
      using h by (metis append_take_drop_id)
    then have "s = rev (drop (length suf) (rev s)) @ suf"
      by (metis rev_append rev_rev_ident)
    then show "\<exists>a. s = a @ suf" by blast
  next
    assume "\<exists>a. s = a @ suf"
    then show "take (length suf) (rev s) = rev suf" by auto
  qed
  finally show ?thesis .
qed

lemma ReplaceAll_single_fresh: "b \<noteq> n \<Longrightarrow> b \<notin> set (ReplaceAll s [b] [n])"
  by (induction s) (auto simp: ReplaceAll_Cons)

lemma set_ReplaceAll_slashes: "set (ReplaceAll s ''//'' ''/'') \<subseteq> set s"
proof (induction s "''//''" "''/''" rule: ReplaceAll.induct)
  case (1 s)
  show ?case
  proof (cases "s = []")
    case True
    then show ?thesis by simp
  next
    case False
    then obtain c cs where s: "s = c # cs" by (cases s) auto
    show ?thesis
    proof (cases "HasPrefix s ''//''")
      case True
      have "\<not> (''//'' = [] \<or> s = [])" using False by simp
      then have "set (ReplaceAll (drop (length ''//'') s) ''//'' ''/'')
                   \<subseteq> set (drop (length ''//'') s)"
        using 1(1) True by blast
      moreover have "set (drop (length ''//'') s) \<subseteq> set s" by (rule set_drop_subset)
      moreover have "CHR ''/'' \<in> set s" using True s by (cases cs) auto
      ultimately show ?thesis using True s
        by (subst ReplaceAll.simps) auto
    next
      case F: False
      have "\<not> (''//'' = [] \<or> s = [])" using False by simp
      then have "set (ReplaceAll (tl s) ''//'' ''/'') \<subseteq> set (tl s)"
        using 1(2) F by blast
      then show ?thesis using F s
        by (subst ReplaceAll.simps) auto
    qed
  qed
qed

lemma set_collapseSlashes: "set (collapseSlashes s) \<subseteq> set s"
proof (induction s rule: collapseSlashes.induct)
  case (1 path)
  show ?case
  proof (cases "Contains path ''//''")
    case True
    then show ?thesis
      using 1 set_ReplaceAll_slashes [of path] by (subst collapseSlashes.simps) auto
  next
    case False
    then show ?thesis by (subst collapseSlashes.simps) simp
  qed
qed

lemma collapseSlashes_clean: "\<not> Contains (collapseSlashes s) ''//''"
proof (induction s rule: collapseSlashes.induct)
  case (1 path)
  then show ?case by (subst collapseSlashes.simps) auto
qed

lemma collapseSlashes_id: "\<not> Contains s ''//'' \<Longrightarrow> collapseSlashes s = s"
  by (subst collapseSlashes.simps) simp

text \<open>The shape of a normalised path: no backslash, no doubled slash, no trailing slash
  except on the root.\<close>

definition clean_path :: "string \<Rightarrow> bool" where
  "clean_path p \<longleftrightarrow>
     CHR 0x5C \<notin> set p \<and> \<not> Contains p ''//'' \<and> \<not> (length p > 1 \<and> HasSuffix p ''/'')"

lemma normalizePath_clean: "clean_path (normalizePath p)"
proof -
  define q where "q = ReplaceAll p [CHR 0x5C] ''/''"
  define r where "r = collapseSlashes q"
  have bs: "CHR 0x5C \<notin> set r"
    using set_collapseSlashes [of q] ReplaceAll_single_fresh [of "CHR 0x5C" "CHR ''/''" p]
    by (auto simp: r_def q_def)
  have ns: "\<not> Contains r ''//''" by (simp add: r_def collapseSlashes_clean)
  show ?thesis
  proof (cases "length r > 1 \<and> HasSuffix r ''/''")
    case False
    then have "normalizePath p = r" by (auto simp: normalizePath_def Let_def q_def r_def)
    then show ?thesis using bs ns False by (simp add: clean_path_def)
  next
    case True
    then obtain a where a: "r = a @ ''/''" by (auto simp: HasSuffix_iff)
    have np: "normalizePath p = a"
      using True a
      by (simp add: normalizePath_def Let_def q_def [symmetric] r_def [symmetric] TrimSuffix_def)
    have 1: "CHR 0x5C \<notin> set a" using bs a by simp
    have 2: "\<not> Contains a ''//''"
    proof
      assume "Contains a ''//''"
      then obtain x y where "a = x @ ''//'' @ y" by (auto simp: Contains_iff)
      then have "r = x @ ''//'' @ (y @ ''/'')" using a by simp
      then show False using ns Contains_iff by blast
    qed
    have 3: "\<not> HasSuffix a ''/''"
    proof
      assume "HasSuffix a ''/''"
      then obtain x where "a = x @ ''/''" by (auto simp: HasSuffix_iff)
      then have "r = x @ ''//'' @ []" using a by simp
      then show False using ns Contains_iff by blast
    qed
    show ?thesis using np 1 2 3 by (simp add: clean_path_def)
  qed
qed

lemma normalizePath_fix: "clean_path p \<Longrightarrow> normalizePath p = p"
  by (auto simp: clean_path_def normalizePath_def Let_def ReplaceAll_absent Contains_single
      collapseSlashes_id)

lemma normalizePath_idem: "normalizePath (normalizePath p) = normalizePath p"
  by (rule normalizePath_fix [OF normalizePath_clean])

text \<open>
  C6.  Normalising twice is normalising once, for every path; the root path \<open>/\<close> is
  kept; the empty path and \<open>.\<close> are mapped by \<open>normalizeRootDir\<close> to the root identifier
  \<open>0\<close>.
\<close>

theorem normalize_idempotent_and_root:
  "normalizePath (normalizePath p) = normalizePath p
   \<and> normalizePath ''/'' = ''/''
   \<and> normalizeRootDir [] = ''0''
   \<and> normalizeRootDir ''.'' = ''0''"
proof -
  have a: "normalizePath (normalizePath p) = normalizePath p"
    by (rule normalizePath_fix [OF normalizePath_clean])
  have b: "normalizePath ''/'' = ''/''" by code_simp
  have c: "normalizeRootDir [] = ''0''" by code_simp
  have d: "normalizeRootDir ''.'' = ''0''" by code_simp
  show ?thesis using a b c d by simp
qed


section \<open>Credential pool (quark_client.go)\<close>

text \<open>
  \<open>strings.TrimSpace\<close> removes the leading and the trailing white space runes of
  \<open>unicode.IsSpace\<close>: the six of ASCII, U+0085, U+00A0, U+1680, U+2000 to U+200A, U+2028,
  U+2029, U+202F, U+205F and U+3000.  \<open>spaceRunes\<close> lists their encodings.  A string begins
  with a white space rune exactly when it begins with one of these encodings; it ends with one
  (\<open>utf8.DecodeLastRuneInString\<close>, which steps back to the last byte that starts a rune)
  exactly when it ends with one of them.
\<close>

definition spaceRunes :: "string list" where
  "spaceRunes =
     [[CHR 0x09], [CHR 0x0A], [CHR 0x0B], [CHR 0x0C], [CHR 0x0D], [CHR 0x20],
      [CHR 0xC2, CHR 0x85], [CHR 0xC2, CHR 0xA0], [CHR 0xE1, CHR 0x9A, CHR 0x80],
      [CHR 0xE2, CHR 0x80, CHR 0x80], [CHR 0xE2, CHR 0x80, CHR 0x81],
      [CHR 0xE2, CHR 0x80, CHR 0x82], [CHR 0xE2, CHR 0x80, CHR 0x83],
      [CHR 0xE2, CHR 0x80, CHR 0x84], [CHR 0xE2, CHR 0x80, CHR 0x85],
      [CHR 0xE2, CHR 0x80, CHR 0x86], [CHR 0xE2, CHR 0x80, CHR 0x87],
      [CHR 0xE2, CHR 0x80, CHR 0x88], [CHR 0xE2, CHR 0x80, CHR 0x89],
      [CHR 0xE2, CHR 0x80, CHR 0x8A], [CHR 0xE2, CHR 0x80, CHR 0xA8],
      [CHR 0xE2, CHR 0x80, CHR 0xA9], [CHR 0xE2, CHR 0x80, CHR 0xAF],
      [CHR 0xE2, CHR 0x81, CHR 0x9F], [CHR 0xE3, CHR 0x80, CHR 0x80]]"

text \<open>The number of bytes of the white space rune at the head, and at the end, of a string;
  0 when there is none.\<close>

definition leadingSpace :: "string \<Rightarrow> nat" where
  "leadingSpace s = (case find (HasPrefix s) spaceRunes of None \<Rightarrow> 0 | Some e \<Rightarrow> length e)"

definition trailingSpace :: "string \<Rightarrow> nat" where
  "trailingSpace s = (case find (HasSuffix s) spaceRunes of None \<Rightarrow> 0 | Some e \<Rightarrow> length e)"

lemma leadingSpace_Nil: "leadingSpace [] = 0"
  by (simp add: leadingSpace_def spaceRunes_def)

lemma trailingSpace_Nil: "trailingSpace [] = 0"
  by (simp add: trailingSpace_def spaceRunes_def HasSuffix_def)

function TrimLeftSpace :: "string \<Rightarrow> string" where
  "TrimLeftSpace s = (if leadingSpace s = 0 then s else TrimLeftSpace (drop (leadingSpace s) s))"
  by pat_completeness auto
termination
proof (relation "measure length")
  show "wf (measure length)" by simp
next
  fix s :: string
  assume a: "leadingSpace s \<noteq> 0"
  then have "s \<noteq> []" using leadingSpace_Nil by auto
  then show "(drop (leadingSpace s) s, s) \<in> measure length" using a by simp
qed

function TrimRightSpace :: "string \<Rightarrow> string" where
  "TrimRightSpace s =
     (if trailingSpace s = 0 then s else TrimRightSpace (take (length s - trailingSpace s) s))"
  by pat_completeness auto
termination
proof (relation "measure length")
  show "wf (measure length)" by simp
next
  fix s :: string
  assume a: "trailingSpace s \<noteq> 0"
  then have "s \<noteq> []" using trailingSpace_Nil by auto
  then show "(take (length s - trailingSpace s) s, s) \<in> measure length" using a by simp
qed

declare TrimLeftSpace.simps [simp del]
declare TrimRightSpace.simps [simp del]

definition trimSpace :: "string \<Rightarrow> string" where
  "trimSpace s = TrimRightSpace (TrimLeftSpace s)"

text \<open>
  \<open>splitCookieString\<close>: the loop over the runes of the string, with the builder \<open>current\<close>,
  the flag \<open>inQuotes\<close> and the parts collected so far.  \<open>char\<close> is the encoding of the rune
  that the loop reads, which \<open>WriteRune\<close> appends to the builder: a byte that is not part of a
  valid encoding is read, and so written, as U+FFFD.
\<close>

function splitCookieLoop :: "string \<Rightarrow> string \<Rightarrow> bool \<Rightarrow> string list \<Rightarrow> string list" where
  "splitCookieLoop s current inQuotes parts =
     (if s = [] then (if length current > 0 then parts @ [current] else parts)
      else
        let char = (if runeLen s = 0 then replacementChar else take (runeLen s) s);
            rest = drop (max 1 (runeLen s)) s
        in if char = [CHR 0x22] then splitCookieLoop rest (current @ char) (\<not> inQuotes) parts
           else if char = [CHR '';''] \<and> \<not> inQuotes
             then splitCookieLoop rest [] inQuotes (parts @ [current])
           else splitCookieLoop rest (current @ char) inQuotes parts)"
  by pat_completeness auto
termination
  by (relation "measure (\<lambda>(s, current, inQuotes, parts). length s)") auto

declare splitCookieLoop.simps [simp del]

definition splitCookieString :: "string \<Rightarrow> string list" where
  "splitCookieString s = splitCookieLoop s [] False []"

text \<open>
  The search for the first \<open>=\<close> of a part: \<open>None\<close> is the source's \<open>eqIndex == -1\<close>.  The
  source's loop runs over the runes and keeps the byte index of the rune; the byte of \<open>=\<close> is
  never part of the encoding of another rune, so this is the index of the first such byte.
\<close>

fun eqIndex :: "string \<Rightarrow> nat option" where
  "eqIndex [] = None"
| "eqIndex (c # cs) = (if c = CHR ''='' then Some 0 else map_option Suc (eqIndex cs))"

fun parseCookieLoop :: "string list \<Rightarrow> (string \<rightharpoonup> string) \<Rightarrow> (string \<rightharpoonup> string)" where
  "parseCookieLoop [] cookies = cookies"
| "parseCookieLoop (part # rest) cookies =
     (let part = trimSpace part in
      if part = [] then parseCookieLoop rest cookies
      else case eqIndex part of
        None \<Rightarrow> parseCookieLoop rest cookies
      | Some i \<Rightarrow>
          (let key = trimSpace (take i part);
               val = trimSpace (drop (i + 1) part)
           in if key \<noteq> [] then parseCookieLoop rest (cookies(key \<mapsto> val))
              else parseCookieLoop rest cookies))"

definition parseCookie :: "string \<Rightarrow> (string \<rightharpoonup> string)" where
  "parseCookie cookieStr = parseCookieLoop (splitCookieString cookieStr) Map.empty"

text \<open>
  The fields of \<open>QuarkClient\<close> that the credential pool reads and writes.  \<open>failedTokens\<close> is
  the Go \<open>map[int]bool\<close>, read with the zero value \<open>false\<close> for a missing key.
\<close>

record QuarkClient =
  accessToken :: string
  accessTokens :: "string list"
  currentTokenIdx :: nat
  cookies :: "string \<rightharpoonup> string"
  authCheckValid :: bool
  failedTokens :: "nat \<Rightarrow> bool"

text \<open>
  The search loop of \<open>switchToNextToken\<close>:
  \<open>for i := 0; i < len(qc.accessTokens); i++ { nextIdx := (cur + 1 + i) % len; ... }\<close>.
\<close>

function nextToken :: "(nat \<Rightarrow> bool) \<Rightarrow> nat \<Rightarrow> nat \<Rightarrow> nat \<Rightarrow> nat option" where
  "nextToken failed cur n i =
     (if i < n then
        (let nextIdx = (cur + 1 + i) mod n in
         if \<not> failed nextIdx then Some nextIdx else nextToken failed cur n (i + 1))
      else None)"
  by pat_completeness auto
termination
  by (relation "measure (\<lambda>(failed, cur, n, i). n - i)") auto

declare nextToken.simps [simp del]

text \<open>\<open>switchToNextToken\<close> returns the error (if any) and the client as it has left it.\<close>

definition switchToNextToken :: "QuarkClient \<Rightarrow> string option \<times> QuarkClient" where
  "switchToNextToken qc =
     (let qc = qc\<lparr>failedTokens := (failedTokens qc)(currentTokenIdx qc := True)\<rparr> in
      case nextToken (failedTokens qc) (currentTokenIdx qc) (length (accessTokens qc)) 0 of
        Some nextIdx \<Rightarrow>
          (let qc = qc\<lparr>currentTokenIdx := nextIdx\<rparr>;
               qc = qc\<lparr>accessToken := accessTokens qc ! nextIdx\<rparr>;
               qc = qc\<lparr>cookies := parseCookie (accessToken qc)\<rparr>;
               qc = qc\<lparr>authCheckValid := False\<rparr>
           in (None, qc))
      | None \<Rightarrow> (Some ''all access tokens have failed'', qc))"

text \<open>The client after \<open>k\<close> further failovers, whatever each of them returned.\<close>

fun failovers :: "nat \<Rightarrow> QuarkClient \<Rightarrow> QuarkClient" where
  "failovers 0 qc = qc"
| "failovers (Suc k) qc = failovers k (snd (switchToNextToken qc))"

subsection \<open>Facts about failover\<close>

lemma all_from_Suc:
  assumes "P (i::nat)"
  shows "(\<forall>k. i + 1 \<le> k \<and> k < n \<longrightarrow> P k) \<longleftrightarrow> (\<forall>k. i \<le> k \<and> k < n \<longrightarrow> P k)"
proof
  assume a: "\<forall>k. i + 1 \<le> k \<and> k < n \<longrightarrow> P k"
  show "\<forall>k. i \<le> k \<and> k < n \<longrightarrow> P k"
  proof (intro allI impI)
    fix k assume k: "i \<le> k \<and> k < n"
    show "P k"
    proof (cases "k = i")
      case True
      then show ?thesis using assms by simp
    next
      case False
      then have "i + 1 \<le> k" using k by simp
      then show ?thesis using a k by blast
    qed
  qed
next
  assume a: "\<forall>k. i \<le> k \<and> k < n \<longrightarrow> P k"
  show "\<forall>k. i + 1 \<le> k \<and> k < n \<longrightarrow> P k"
  proof (intro allI impI)
    fix k assume k: "i + 1 \<le> k \<and> k < n"
    then have "i \<le> k \<and> k < n" by simp
    then show "P k" using a by blast
  qed
qed

lemma nextToken_None:
  "nextToken failed cur n i = None \<longleftrightarrow> (\<forall>k. i \<le> k \<and> k < n \<longrightarrow> failed ((cur + 1 + k) mod n))"
proof (induction failed cur n i rule: nextToken.induct)
  case (1 failed cur n i)
  show ?case
  proof (cases "i < n")
    case False
    then show ?thesis by (subst nextToken.simps) auto
  next
    case True
    show ?thesis
    proof (cases "failed ((cur + 1 + i) mod n)")
      case False
      then show ?thesis using True by (subst nextToken.simps) auto
    next
      case f: True
      have "nextToken failed cur n i = nextToken failed cur n (i + 1)"
        using True f by (subst nextToken.simps) simp
      also have "\<dots> = None \<longleftrightarrow> (\<forall>k. i + 1 \<le> k \<and> k < n \<longrightarrow> failed ((cur + 1 + k) mod n))"
        using 1 True f by simp
      also have "\<dots> \<longleftrightarrow> (\<forall>k. i \<le> k \<and> k < n \<longrightarrow> failed ((cur + 1 + k) mod n))"
        by (rule all_from_Suc [of "\<lambda>k. failed ((cur + 1 + k) mod n)", OF f])
      finally show ?thesis .
    qed
  qed
qed

lemma nextToken_Some:
  "nextToken failed cur n i = Some j \<Longrightarrow>
   \<exists>k. i \<le> k \<and> k < n \<and> j = (cur + 1 + k) mod n \<and> \<not> failed j
       \<and> (\<forall>k'. i \<le> k' \<and> k' < k \<longrightarrow> failed ((cur + 1 + k') mod n))"
proof (induction failed cur n i rule: nextToken.induct)
  case (1 failed cur n i)
  have lt: "i < n" using 1(2) by (subst (asm) nextToken.simps) (auto split: if_splits)
  show ?case
  proof (cases "failed ((cur + 1 + i) mod n)")
    case False
    then have "j = (cur + 1 + i) mod n"
      using 1(2) lt by (subst (asm) nextToken.simps) simp
    then show ?thesis using False lt by (intro exI [of _ i]) auto
  next
    case True
    then have "nextToken failed cur n (i + 1) = Some j"
      using 1(2) lt by (subst (asm) nextToken.simps) simp
    then obtain k where k: "i + 1 \<le> k" "k < n" "j = (cur + 1 + k) mod n" "\<not> failed j"
        "\<forall>k'. i + 1 \<le> k' \<and> k' < k \<longrightarrow> failed ((cur + 1 + k') mod n)"
      using 1(1) lt True by auto
    have "\<forall>k'. i \<le> k' \<and> k' < k \<longrightarrow> failed ((cur + 1 + k') mod n)"
      using k(5) all_from_Suc [of "\<lambda>k. failed ((cur + 1 + k) mod n)", OF True, of k] by blast
    then show ?thesis using k by (intro exI [of _ k]) auto
  qed
qed

text \<open>The ring positions \<open>(cur + 1 + k) mod n\<close>, \<open>k < n\<close>, are all the indices below \<open>n\<close>.\<close>

lemma ring_covers:
  assumes "j < n"
  shows "\<exists>k < n. (cur + 1 + k) mod n = (j::nat)"
proof -
  define k where "k = (j + (n - (cur + 1) mod n)) mod n"
  have n: "0 < n" using assms by simp
  have "(cur + 1 + k) mod n = (cur + 1 + (j + (n - (cur + 1) mod n))) mod n"
    unfolding k_def by (rule mod_add_right_eq)
  also have "\<dots> = ((cur + 1) mod n + (j + (n - (cur + 1) mod n))) mod n"
    by (rule mod_add_left_eq [symmetric])
  also have "(cur + 1) mod n + (j + (n - (cur + 1) mod n)) = j + n"
    using mod_less_divisor [OF n, of "cur + 1"] by linarith
  also have "(j + n) mod n = j" using assms by simp
  finally have "(cur + 1 + k) mod n = j" .
  moreover have "k < n" using n by (simp add: k_def)
  ultimately show ?thesis by blast
qed

lemma ring_all: "(\<forall>k < n. failed ((cur + 1 + k) mod n)) \<longleftrightarrow> (\<forall>j < n. failed (j::nat))"
proof
  assume a: "\<forall>k < n. failed ((cur + 1 + k) mod n)"
  show "\<forall>j < n. failed j"
  proof (intro allI impI)
    fix j assume "j < n"
    then obtain k where "k < n" "(cur + 1 + k) mod n = j" using ring_covers by blast
    then show "failed j" using a by auto
  qed
next
  assume a: "\<forall>j < n. failed j"
  show "\<forall>k < n. failed ((cur + 1 + k) mod n)"
  proof (intro allI impI)
    fix k assume "k < n"
    then have "(cur + 1 + k) mod n < n" by simp
    then show "failed ((cur + 1 + k) mod n)" using a by blast
  qed
qed

lemma switch_error_iff:
  "fst (switchToNextToken qc) \<noteq> None \<longleftrightarrow>
   (\<forall>j < length (accessTokens qc). ((failedTokens qc)(currentTokenIdx qc := True)) j)"
proof -
  let ?f = "(failedTokens qc)(currentTokenIdx qc := True)"
  let ?n = "length (accessTokens qc)"
  have "fst (switchToNextToken qc) \<noteq> None \<longleftrightarrow> nextToken ?f (currentTokenIdx qc) ?n 0 = None"
    by (simp add: switchToNextToken_def Let_def split: option.splits)
  also have "\<dots> \<longleftrightarrow> (\<forall>k < ?n. ?f ((currentTokenIdx qc + 1 + k) mod ?n))"
    by (simp add: nextToken_None)
  also have "\<dots> \<longleftrightarrow> (\<forall>j < ?n. ?f j)"
    by (rule ring_all)
  finally show ?thesis .
qed

lemma switch_failed:
  "failedTokens (snd (switchToNextToken qc)) = (failedTokens qc)(currentTokenIdx qc := True)"
  by (simp add: switchToNextToken_def Let_def split: option.splits)

lemma switch_tokens: "accessTokens (snd (switchToNextToken qc)) = accessTokens qc"
  by (simp add: switchToNextToken_def Let_def split: option.splits)

lemma switch_Some:
  "nextToken ((failedTokens qc)(currentTokenIdx qc := True)) (currentTokenIdx qc)
      (length (accessTokens qc)) 0 = Some j \<Longrightarrow>
   switchToNextToken qc =
     (None, qc\<lparr>failedTokens := (failedTokens qc)(currentTokenIdx qc := True),
            currentTokenIdx := j, accessToken := accessTokens qc ! j,
            cookies := parseCookie (accessTokens qc ! j), authCheckValid := False\<rparr>)"
  by (simp add: switchToNextToken_def Let_def)

lemma switch_None:
  "nextToken ((failedTokens qc)(currentTokenIdx qc := True)) (currentTokenIdx qc)
      (length (accessTokens qc)) 0 = None \<Longrightarrow>
   switchToNextToken qc =
     (Some ''all access tokens have failed'',
      qc\<lparr>failedTokens := (failedTokens qc)(currentTokenIdx qc := True)\<rparr>)"
  by (simp add: switchToNextToken_def Let_def)

lemma switch_success:
  assumes "fst (switchToNextToken qc) = None"
  shows "\<exists>k < length (accessTokens qc).
           currentTokenIdx (snd (switchToNextToken qc))
             = (currentTokenIdx qc + 1 + k) mod length (accessTokens qc)
         \<and> \<not> ((failedTokens qc)(currentTokenIdx qc := True))
               (currentTokenIdx (snd (switchToNextToken qc)))
         \<and> (\<forall>k' < k. ((failedTokens qc)(currentTokenIdx qc := True))
               ((currentTokenIdx qc + 1 + k') mod length (accessTokens qc)))"
    and "accessToken (snd (switchToNextToken qc))
           = accessTokens qc ! currentTokenIdx (snd (switchToNextToken qc))"
    and "cookies (snd (switchToNextToken qc)) = parseCookie (accessToken (snd (switchToNextToken qc)))"
    and "\<not> authCheckValid (snd (switchToNextToken qc))"
proof -
  let ?f = "(failedTokens qc)(currentTokenIdx qc := True)"
  let ?n = "length (accessTokens qc)"
  define qc' where "qc' = snd (switchToNextToken qc)"
  have "nextToken ?f (currentTokenIdx qc) ?n 0 \<noteq> None"
  proof
    assume "nextToken ?f (currentTokenIdx qc) ?n 0 = None"
    then have "fst (switchToNextToken qc) = Some ''all access tokens have failed''"
      by (simp only: switch_None fst_conv)
    then show False using assms by simp
  qed
  then obtain j where j: "nextToken ?f (currentTokenIdx qc) ?n 0 = Some j"
    by blast
  have qc': "qc' = qc\<lparr>failedTokens := ?f, currentTokenIdx := j,
      accessToken := accessTokens qc ! j, cookies := parseCookie (accessTokens qc ! j),
      authCheckValid := False\<rparr>"
    unfolding qc'_def by (simp only: switch_Some [OF j] snd_conv)
  have idx: "currentTokenIdx qc' = j"
    and tok: "accessToken qc' = accessTokens qc ! j"
    and coo: "cookies qc' = parseCookie (accessTokens qc ! j)"
    and auth: "\<not> authCheckValid qc'"
    by (simp_all add: qc')
  obtain k where k: "k < ?n" "j = (currentTokenIdx qc + 1 + k) mod ?n" "\<not> ?f j"
      "\<forall>k'. 0 \<le> k' \<and> k' < k \<longrightarrow> ?f ((currentTokenIdx qc + 1 + k') mod ?n)"
    using nextToken_Some [OF j] by blast
  have k4: "\<forall>k' < k. ?f ((currentTokenIdx qc + 1 + k') mod ?n)"
    using k(4) by simp
  have "k < ?n \<and> currentTokenIdx qc' = (currentTokenIdx qc + 1 + k) mod ?n
         \<and> \<not> ?f (currentTokenIdx qc')
         \<and> (\<forall>k' < k. ?f ((currentTokenIdx qc + 1 + k') mod ?n))"
    by (intro conjI, rule k(1), simp only: idx k(2) [symmetric], simp only: idx k(3) not_False_eq_True,
        rule k4)
  then have "\<exists>k < ?n. currentTokenIdx qc' = (currentTokenIdx qc + 1 + k) mod ?n
         \<and> \<not> ?f (currentTokenIdx qc')
         \<and> (\<forall>k' < k. ?f ((currentTokenIdx qc + 1 + k') mod ?n))"
    by (rule exI)
  then show "\<exists>k < length (accessTokens qc).
           currentTokenIdx (snd (switchToNextToken qc))
             = (currentTokenIdx qc + 1 + k) mod length (accessTokens qc)
         \<and> \<not> ((failedTokens qc)(currentTokenIdx qc := True))
               (currentTokenIdx (snd (switchToNextToken qc)))
         \<and> (\<forall>k' < k. ((failedTokens qc)(currentTokenIdx qc := True))
               ((currentTokenIdx qc + 1 + k') mod length (accessTokens qc)))"
    unfolding qc'_def .
  show "accessToken (snd (switchToNextToken qc))
           = accessTokens qc ! currentTokenIdx (snd (switchToNextToken qc))"
    using tok idx unfolding qc'_def by simp
  show "cookies (snd (switchToNextToken qc)) = parseCookie (accessToken (snd (switchToNextToken qc)))"
    using coo tok unfolding qc'_def by simp
  show "\<not> authCheckValid (snd (switchToNextToken qc))"
    using auth unfolding qc'_def by simp
qed

lemma failovers_failed_mono:
  "failedTokens qc j \<Longrightarrow> failedTokens (failovers k qc) j"
  by (induction k arbitrary: qc) (auto simp: switch_failed)

text \<open>A pool of three credentials, the second already failed, the first in use.\<close>

definition pool3 :: QuarkClient where
  "pool3 = \<lparr>accessToken = ''a=1'', accessTokens = [''a=1'', ''b=2'', ''c=3''],
     currentTokenIdx = 0, cookies = parseCookie ''a=1'', authCheckValid = True,
     failedTokens = (\<lambda>i. i = 1)\<rparr>"

text \<open>
  C9.  \<open>switchToNextToken\<close> marks the current index as failed and keeps every earlier
  mark; it returns an error exactly when every configured index is then marked; otherwise
  it selects the first unmarked index in ring order after the current one and installs
  that token and its parsed cookies.  An index marked failed stays marked through any
  number of later failovers, and no later successful failover selects it.
\<close>

theorem failover_ring_order:
  "failedTokens (snd (switchToNextToken qc)) = (failedTokens qc)(currentTokenIdx qc := True)
   \<and> (fst (switchToNextToken qc) \<noteq> None \<longleftrightarrow>
        (\<forall>j < length (accessTokens qc). failedTokens (snd (switchToNextToken qc)) j))
   \<and> (fst (switchToNextToken qc) = None \<longrightarrow>
        (\<exists>k < length (accessTokens qc).
            currentTokenIdx (snd (switchToNextToken qc))
              = (currentTokenIdx qc + 1 + k) mod length (accessTokens qc)
          \<and> \<not> failedTokens (snd (switchToNextToken qc))
                (currentTokenIdx (snd (switchToNextToken qc)))
          \<and> (\<forall>k' < k. failedTokens (snd (switchToNextToken qc))
                ((currentTokenIdx qc + 1 + k') mod length (accessTokens qc))))
        \<and> accessToken (snd (switchToNextToken qc))
            = accessTokens qc ! currentTokenIdx (snd (switchToNextToken qc))
        \<and> cookies (snd (switchToNextToken qc))
            = parseCookie (accessToken (snd (switchToNextToken qc))))
   \<and> (failedTokens qc j \<longrightarrow>
        failedTokens (failovers m qc) j
        \<and> (fst (switchToNextToken (failovers m qc)) = None \<longrightarrow>
             currentTokenIdx (snd (switchToNextToken (failovers m qc))) \<noteq> j))"
proof (intro conjI impI)
  show "failedTokens (snd (switchToNextToken qc)) = (failedTokens qc)(currentTokenIdx qc := True)"
    by (rule switch_failed)
  show "fst (switchToNextToken qc) \<noteq> None \<longleftrightarrow>
        (\<forall>j < length (accessTokens qc). failedTokens (snd (switchToNextToken qc)) j)"
    by (simp only: switch_failed switch_error_iff)
next
  assume ok: "fst (switchToNextToken qc) = None"
  show "\<exists>k < length (accessTokens qc).
            currentTokenIdx (snd (switchToNextToken qc))
              = (currentTokenIdx qc + 1 + k) mod length (accessTokens qc)
          \<and> \<not> failedTokens (snd (switchToNextToken qc))
                (currentTokenIdx (snd (switchToNextToken qc)))
          \<and> (\<forall>k' < k. failedTokens (snd (switchToNextToken qc))
                ((currentTokenIdx qc + 1 + k') mod length (accessTokens qc)))"
    unfolding switch_failed by (rule switch_success(1) [OF ok])
  show "accessToken (snd (switchToNextToken qc))
            = accessTokens qc ! currentTokenIdx (snd (switchToNextToken qc))"
    by (rule switch_success(2) [OF ok])
  show "cookies (snd (switchToNextToken qc))
            = parseCookie (accessToken (snd (switchToNextToken qc)))"
    by (rule switch_success(3) [OF ok])
next
  assume f: "failedTokens qc j"
  show "failedTokens (failovers m qc) j"
    by (rule failovers_failed_mono [OF f])
next
  assume f: "failedTokens qc j"
    and ok: "fst (switchToNextToken (failovers m qc)) = None"
  let ?q = "failovers m qc"
  have fj: "failedTokens ?q j" by (rule failovers_failed_mono [OF f])
  obtain k where
    "\<not> ((failedTokens ?q)(currentTokenIdx ?q := True))
        (currentTokenIdx (snd (switchToNextToken ?q)))"
    using switch_success(1) [OF ok] by blast
  then have "\<not> failedTokens ?q (currentTokenIdx (snd (switchToNextToken ?q)))"
    by (simp split: if_splits)
  then show "currentTokenIdx (snd (switchToNextToken (failovers m qc))) \<noteq> j"
    using fj by auto
qed

lemma switch_pool3:
  "switchToNextToken pool3 =
     (None, pool3\<lparr>failedTokens := (\<lambda>i. i = 1)(0 := True), currentTokenIdx := 2,
        accessToken := ''c=3'', cookies := parseCookie ''c=3'', authCheckValid := False\<rparr>)"
proof -
  have "nextToken ((failedTokens pool3)(currentTokenIdx pool3 := True)) (currentTokenIdx pool3)
          (length (accessTokens pool3)) 0 = Some 2"
    by (simp add: pool3_def nextToken.simps)
  from switch_Some [OF this] show ?thesis by (simp add: pool3_def)
qed

theorem failover_ring_order_witness:
  "fst (switchToNextToken pool3) = None
   \<and> failedTokens pool3 1
   \<and> currentTokenIdx (snd (switchToNextToken pool3)) = 2
   \<and> \<not> failedTokens (snd (switchToNextToken pool3)) 2
   \<and> failedTokens (snd (switchToNextToken pool3)) 0
   \<and> accessToken (snd (switchToNextToken pool3)) = ''c=3''
   \<and> cookies (snd (switchToNextToken pool3)) = parseCookie ''c=3''
   \<and> failedTokens (failovers 2 pool3) 1
   \<and> fst (switchToNextToken (failovers 0 pool3)) = None
   \<and> currentTokenIdx (snd (switchToNextToken (failovers 0 pool3))) \<noteq> 1"
proof -
  have ok: "fst (switchToNextToken pool3) = None" by (simp add: switch_pool3)
  have f1: "failedTokens pool3 1" by (simp add: pool3_def)
  have idx: "currentTokenIdx (snd (switchToNextToken pool3)) = 2" by (simp add: switch_pool3)
  have toks: "accessTokens pool3 ! 2 = ''c=3''" by (simp add: pool3_def)
  have ok0: "fst (switchToNextToken (failovers 0 pool3)) = None" using ok by simp
  note T = failover_ring_order [of pool3 1 2]
  note T0 = failover_ring_order [of pool3 1 0]
  have a: "failedTokens (snd (switchToNextToken pool3)) = (failedTokens pool3)(currentTokenIdx pool3 := True)"
    using T by blast
  have b: "accessToken (snd (switchToNextToken pool3)) = ''c=3''"
    using T ok idx toks by simp
  have c: "cookies (snd (switchToNextToken pool3)) = parseCookie ''c=3''"
    using T ok b by simp
  have d: "failedTokens (failovers 2 pool3) 1"
    using T f1 by blast
  have e: "currentTokenIdx (snd (switchToNextToken (failovers 0 pool3))) \<noteq> 1"
    using T0 f1 ok0 by blast
  have g: "\<not> failedTokens (snd (switchToNextToken pool3)) 2"
    unfolding a by (simp add: pool3_def)
  have h: "failedTokens (snd (switchToNextToken pool3)) 0"
    unfolding a by (simp add: pool3_def)
  show ?thesis using ok f1 idx g h b c d ok0 e by blast
qed

section \<open>JSON values and decimal integers\<close>

text \<open>
  The SDK exchanges JSON with the remote service and keeps its resume records as JSON
  files.  A document is modelled by its value, an object by the list of its members in the
  order of the text.  Numbers are the integers: every number the SDK reads or writes is a
  size, a count, a code or a time stamp.  A string is the byte sequence that the string
  literal denotes.  The one part of a document that is kept as text is a member that the
  SDK writes from, or reads into, a \<open>json.RawMessage\<close>: \<open>JRaw\<close> holds the bytes of such a
  member as they stand in the document.
\<close>

datatype json =
    JNull
  | JBool bool
  | JNum int
  | JStr string
  | JArr "json list"
  | JObj "(string \<times> json) list"
  | JRaw string

text \<open>\<open>strconv.Itoa\<close> and \<open>strconv.Atoi\<close>; the model's integers are unbounded, so the
  range check of the 64-bit parser is not modelled.\<close>

definition digit_char :: "nat \<Rightarrow> char" where
  "digit_char d = char_of (48 + d)"

definition is_digit :: "char \<Rightarrow> bool" where
  "is_digit c \<longleftrightarrow> 48 \<le> (of_char c :: nat) \<and> (of_char c :: nat) \<le> 57"

definition digit_val :: "char \<Rightarrow> nat" where
  "digit_val c = of_char c - 48"

function digits :: "nat \<Rightarrow> string" where
  "digits n = (if n < 10 then [digit_char n] else digits (n div 10) @ [digit_char (n mod 10)])"
  by pat_completeness auto
termination
  by (relation "measure id") auto

declare digits.simps [simp del]

definition itoa :: "int \<Rightarrow> string" where
  "itoa i = (if i < 0 then CHR ''-'' # digits (nat (- i)) else digits (nat i))"

definition parseNat :: "string \<Rightarrow> nat option" where
  "parseNat s =
     (if s \<noteq> [] \<and> list_all is_digit s
      then Some (foldl (\<lambda>a c. 10 * a + digit_val c) 0 s) else None)"

definition atoi :: "string \<Rightarrow> int option" where
  "atoi s =
     (case s of
        [] \<Rightarrow> None
      | c # cs \<Rightarrow>
          if c = CHR ''-'' then map_option (\<lambda>n. - int n) (parseNat cs)
          else if c = CHR ''+'' then map_option int (parseNat cs)
          else map_option int (parseNat s))"

lemma digit_char_props:
  assumes "d < 10"
  shows "is_digit (digit_char d) \<and> digit_val (digit_char d) = d
     \<and> digit_char d \<noteq> CHR ''-'' \<and> digit_char d \<noteq> CHR ''+''"
proof -
  have v: "(of_char (digit_char d) :: nat) = 48 + d"
    using assms by (simp add: digit_char_def)
  have m: "(of_char (CHR ''-'') :: nat) = 45" and p: "(of_char (CHR ''+'') :: nat) = 43"
    by simp_all
  have a: "digit_char d \<noteq> CHR ''-''"
  proof
    assume "digit_char d = CHR ''-''"
    then have "(of_char (digit_char d) :: nat) = of_char (CHR ''-'')" by simp
    then show False unfolding v m by simp
  qed
  have b: "digit_char d \<noteq> CHR ''+''"
  proof
    assume "digit_char d = CHR ''+''"
    then have "(of_char (digit_char d) :: nat) = of_char (CHR ''+'')" by simp
    then show False unfolding v p by simp
  qed
  show ?thesis using a b v assms by (simp add: is_digit_def digit_val_def)
qed

lemma digits_nonempty: "digits n \<noteq> []"
  by (subst digits.simps) simp

lemma digits_all: "list_all is_digit (digits n)"
proof (induction n rule: digits.induct)
  case (1 n)
  show ?case
  proof (cases "n < 10")
    case True
    then show ?thesis by (subst digits.simps) (simp add: digit_char_props)
  next
    case False
    then show ?thesis using 1 by (subst digits.simps) (simp add: digit_char_props)
  qed
qed

lemma digits_value: "foldl (\<lambda>a c. 10 * a + digit_val c) 0 (digits n) = n"
proof (induction n rule: digits.induct)
  case (1 n)
  show ?case
  proof (cases "n < 10")
    case True
    then show ?thesis by (subst digits.simps) (simp add: digit_char_props)
  next
    case False
    then show ?thesis using 1 by (subst digits.simps) (simp add: digit_char_props)
  qed
qed

lemma parseNat_digits: "parseNat (digits n) = Some n"
  by (simp add: parseNat_def digits_nonempty digits_all digits_value)

lemma hd_digits: "hd (digits n) \<noteq> CHR ''-'' \<and> hd (digits n) \<noteq> CHR ''+''"
proof (induction n rule: digits.induct)
  case (1 n)
  show ?case
  proof (cases "n < 10")
    case True
    then show ?thesis by (subst digits.simps, subst (2) digits.simps) (simp add: digit_char_props)
  next
    case False
    then show ?thesis using 1 digits_nonempty [of "n div 10"]
      by (subst digits.simps, subst (2) digits.simps) simp
  qed
qed

lemma atoi_itoa: "atoi (itoa i) = Some i"
proof (cases "i < 0")
  case True
  then show ?thesis by (simp add: atoi_def itoa_def parseNat_digits)
next
  case False
  obtain c cs where d: "digits (nat i) = c # cs"
    using digits_nonempty [of "nat i"] by (cases "digits (nat i)") auto
  have "c \<noteq> CHR ''-'' \<and> c \<noteq> CHR ''+''" using hd_digits [of "nat i"] d by simp
  moreover have "parseNat (c # cs) = Some (nat i)" using parseNat_digits [of "nat i"] d by simp
  ultimately show ?thesis using False d by (simp add: atoi_def itoa_def)
qed

lemma itoa_inj: "itoa i = itoa j \<Longrightarrow> i = j"
  by (metis atoi_itoa option.inject)

section \<open>Resume store (types.go: UploadState, HashCtx; file.go: load, save, delete)\<close>

text \<open>
  A \<open>time.Time\<close> is identified with its RFC 3339 text, the form in which it is stored (the
  model takes the text of a record as it is; the decoder of the program fails on a text that
  is not a time).  A \<open>json.RawMessage\<close> is \<open>None\<close> when the slice is nil and otherwise its
  bytes.  A Go map is the list of its entries, with one entry for a key, and \<open>None\<close> when the
  map is nil.
\<close>

type_synonym time = string

definition zeroTime :: time where
  "zeroTime = ''0001-01-01T00:00:00Z''"

record HashCtx =
  HashType :: string
  H0 :: string
  H1 :: string
  H2 :: string
  H3 :: string
  H4 :: string
  Nl :: string
  Nh :: string
  ctx_Data :: string
  ctx_Num :: string

record UploadState =
  FilePath :: string
  DestPath :: string
  FileSize :: int
  UploadID :: string
  TaskID :: string
  Bucket :: string
  ObjKey :: string
  UploadURL :: string
  PartSize :: int
  UploadedParts :: "(int \<times> string) list option"
  MimeType :: string
  AuthInfo :: "string option"
  Callback :: "string option"
  HashCtx :: "HashCtx option"
  CreatedAt :: time

text \<open>Assignment \<open>m[k] = v\<close> on the entry list of a Go map.\<close>

fun mapassign :: "'k \<Rightarrow> 'v \<Rightarrow> ('k \<times> 'v) list \<Rightarrow> ('k \<times> 'v) list" where
  "mapassign k v [] = [(k, v)]"
| "mapassign k v ((k', v') # m) = (if k = k' then (k, v) # m else (k', v') # mapassign k v m)"

definition inInt64 :: "int \<Rightarrow> bool" where
  "inInt64 n \<longleftrightarrow> - (2 ^ 63) \<le> n \<and> n < 2 ^ 63"

subsection \<open>Strings in JSON\<close>

text \<open>The JSON string that \<open>json.Marshal\<close> writes for a Go string.\<close>

definition JString :: "string \<Rightarrow> json" where
  "JString s = JStr (toValidUTF8 s)"


subsection \<open>The library's layout of a raw message\<close>

text \<open>
  What \<open>json.Marshal\<close> and \<open>json.MarshalIndent\<close> do with the bytes of a \<open>json.RawMessage\<close> is
  the work of the scanner of the library: \<open>json_Compact\<close> is the compaction that \<open>Marshal\<close>
  applies to the bytes (white space outside strings removed, \<open><\<close>, \<open>>\<close>, \<open>&\<close>, U+2028 and U+2029
  escaped), \<open>None\<close> when the bytes are not a JSON text, in which case \<open>Marshal\<close> fails;
  \<open>json_Indent\<close> is the layout that \<open>MarshalIndent\<close> with the indent of two spaces gives a
  compacted value that is a member of the outermost object.
\<close>

record jsonlib =
  json_Compact :: "string \<Rightarrow> string option"
  json_Indent :: "string \<Rightarrow> string"

subsection \<open>Encoding (the struct tags of types.go)\<close>

definition encodeHashCtx :: "HashCtx \<Rightarrow> json" where
  "encodeHashCtx c = JObj
     [(''hash_type'', JString (HashType c)), (''h0'', JString (H0 c)), (''h1'', JString (H1 c)),
      (''h2'', JString (H2 c)), (''h3'', JString (H3 c)), (''h4'', JString (H4 c)),
      (''Nl'', JString (Nl c)), (''Nh'', JString (Nh c)), (''data'', JString (ctx_Data c)),
      (''num'', JString (ctx_Num c))]"

text \<open>A raw message as a member of the indented document: \<open>null\<close> for a nil one, \<open>None\<close> when
  the bytes are not a JSON text.\<close>

definition rawMember :: "jsonlib \<Rightarrow> string option \<Rightarrow> json option" where
  "rawMember L r =
     (case r of
        None \<Rightarrow> Some JNull
      | Some b \<Rightarrow> map_option (\<lambda>c. JRaw (json_Indent L c)) (json_Compact L b))"

text \<open>The keys of a map are written as decimal texts, in the order of the texts.\<close>

fun bytesLess :: "string \<Rightarrow> string \<Rightarrow> bool" where
  "bytesLess [] [] = False"
| "bytesLess [] (y # ys) = True"
| "bytesLess (x # xs) [] = False"
| "bytesLess (x # xs) (y # ys) =
     ((of_char x :: nat) < of_char y \<or> (x = y \<and> bytesLess xs ys))"

fun insertPart :: "int \<times> string \<Rightarrow> (int \<times> string) list \<Rightarrow> (int \<times> string) list" where
  "insertPart p [] = [p]"
| "insertPart p (q # qs) =
     (if bytesLess (itoa (fst p)) (itoa (fst q)) then p # q # qs else q # insertPart p qs)"

definition sortParts :: "(int \<times> string) list \<Rightarrow> (int \<times> string) list" where
  "sortParts ps = foldr insertPart ps []"

definition encodeParts :: "(int \<times> string) list option \<Rightarrow> json" where
  "encodeParts m =
     (case m of
        None \<Rightarrow> JNull
      | Some ps \<Rightarrow> JObj (map (\<lambda>(k, v). (itoa k, JString v)) (sortParts ps)))"

text \<open>The document that \<open>json.MarshalIndent\<close> writes for a state, \<open>None\<close> when it fails.  The
  member \<open>hash_ctx\<close> is tagged \<open>omitempty\<close>: a nil pointer is left out.\<close>

definition encodeUploadState :: "jsonlib \<Rightarrow> UploadState \<Rightarrow> json option" where
  "encodeUploadState L s =
     (case rawMember L (AuthInfo s) of
        None \<Rightarrow> None
      | Some authInfo \<Rightarrow>
          (case rawMember L (Callback s) of
             None \<Rightarrow> None
           | Some callback \<Rightarrow>
               Some (JObj
                 ([(''file_path'', JString (FilePath s)), (''dest_path'', JString (DestPath s)),
                   (''file_size'', JNum (FileSize s)), (''upload_id'', JString (UploadID s)),
                   (''task_id'', JString (TaskID s)), (''bucket'', JString (Bucket s)),
                   (''obj_key'', JString (ObjKey s)), (''upload_url'', JString (UploadURL s)),
                   (''part_size'', JNum (PartSize s)),
                   (''uploaded_parts'', encodeParts (UploadedParts s)),
                   (''mime_type'', JString (MimeType s)), (''auth_info'', authInfo),
                   (''callback'', callback)]
                  @ (case HashCtx s of None \<Rightarrow> [] | Some c \<Rightarrow> [(''hash_ctx'', encodeHashCtx c)])
                  @ [(''created_at'', JStr (CreatedAt s))]))))"

subsection \<open>Decoding\<close>

text \<open>
  \<open>json.Unmarshal\<close> into a struct takes the members of the object in turn.  The field of a
  member is the one whose tag is the key, and otherwise the first one whose tag equals the
  key when case is folded (the Kelvin sign counts as \<open>K\<close> and the long s as \<open>S\<close>); a member
  with no field is skipped.  A later member for the same field is decoded over what an
  earlier one left.
\<close>

function foldKey :: "string \<Rightarrow> string" where
  "foldKey s =
     (if s = [] then []
      else if HasPrefix s [CHR 0xE2, CHR 0x84, CHR 0xAA] then CHR ''K'' # foldKey (drop 3 s)
      else if HasPrefix s [CHR 0xC5, CHR 0xBF] then CHR ''S'' # foldKey (drop 2 s)
      else (if 97 \<le> (of_char (hd s) :: nat) \<and> (of_char (hd s) :: nat) \<le> 122
            then char_of ((of_char (hd s) :: nat) - 32) else hd s) # foldKey (tl s))"
  by pat_completeness auto
termination
  by (relation "measure length") auto

declare foldKey.simps [simp del]

definition matchTag :: "string list \<Rightarrow> string \<Rightarrow> string option" where
  "matchTag tags key =
     (if key \<in> set tags then Some key else find (\<lambda>tag. foldKey tag = foldKey key) tags)"

text \<open>
  A value decoded into a field that holds \<open>old\<close>.  \<open>null\<close> leaves a string, an integer and a
  time as they are and makes a map and a pointer nil; a \<open>RawMessage\<close> takes the bytes of the
  member, also those of \<open>null\<close>.  A value of the wrong kind, and an integer outside the range
  of the field, is an error.
\<close>

definition setString :: "json \<Rightarrow> string \<Rightarrow> string + string" where
  "setString v old =
     (case v of JNull \<Rightarrow> Inr old | JStr x \<Rightarrow> Inr (toValidUTF8 x)
      | _ \<Rightarrow> Inl ''json: cannot unmarshal into Go value of type string'')"

definition setInt64 :: "json \<Rightarrow> int \<Rightarrow> string + int" where
  "setInt64 v old =
     (case v of
        JNull \<Rightarrow> Inr old
      | JNum n \<Rightarrow> if inInt64 n then Inr n
                  else Inl ''json: cannot unmarshal number into Go value of type int64''
      | _ \<Rightarrow> Inl ''json: cannot unmarshal into Go value of type int64'')"

definition setTime :: "json \<Rightarrow> time \<Rightarrow> string + time" where
  "setTime v old =
     (case v of JNull \<Rightarrow> Inr old | JStr x \<Rightarrow> Inr x
      | _ \<Rightarrow> Inl ''Time.UnmarshalJSON: input is not a JSON string'')"

text \<open>The members \<open>auth_info\<close> and \<open>callback\<close> of a document are given by their text.\<close>

definition setRaw :: "json \<Rightarrow> string + string option" where
  "setRaw v =
     (case v of JNull \<Rightarrow> Inr (Some ''null'') | JRaw t \<Rightarrow> Inr (Some t)
      | _ \<Rightarrow> Inl ''raw member not given by its text'')"

text \<open>The entries of \<open>uploaded_parts\<close>: the key is parsed as an \<open>int\<close>, the value is decoded
  into a new string.\<close>

fun decodeEntries ::
  "(string \<times> json) list \<Rightarrow> (int \<times> string) list \<Rightarrow> string + (int \<times> string) list" where
  "decodeEntries [] acc = Inr acc"
| "decodeEntries ((k, v) # rest) acc =
     (case atoi k of
        None \<Rightarrow> Inl ''json: cannot unmarshal number into Go value of type int''
      | Some n \<Rightarrow>
          if \<not> inInt64 n then Inl ''json: cannot unmarshal number into Go value of type int''
          else
            (case setString v [] of
               Inl e \<Rightarrow> Inl e
             | Inr t \<Rightarrow> decodeEntries rest (mapassign n t acc)))"

definition setParts ::
  "json \<Rightarrow> (int \<times> string) list option \<Rightarrow> string + (int \<times> string) list option" where
  "setParts v old =
     (case v of
        JNull \<Rightarrow> Inr None
      | JObj kvs \<Rightarrow> map_sum id Some (decodeEntries kvs (case old of None \<Rightarrow> [] | Some m \<Rightarrow> m))
      | _ \<Rightarrow> Inl ''json: cannot unmarshal into Go value of type map[int]string'')"

definition hashTags :: "string list" where
  "hashTags = [''hash_type'', ''h0'', ''h1'', ''h2'', ''h3'', ''h4'', ''Nl'', ''Nh'', ''data'',
               ''num'']"

definition setHashField :: "string \<Rightarrow> json \<Rightarrow> HashCtx \<Rightarrow> string + HashCtx" where
  "setHashField tag v c =
     (if tag = ''hash_type'' then map_sum id (\<lambda>x. c\<lparr>HashType := x\<rparr>) (setString v (HashType c))
      else if tag = ''h0'' then map_sum id (\<lambda>x. c\<lparr>H0 := x\<rparr>) (setString v (H0 c))
      else if tag = ''h1'' then map_sum id (\<lambda>x. c\<lparr>H1 := x\<rparr>) (setString v (H1 c))
      else if tag = ''h2'' then map_sum id (\<lambda>x. c\<lparr>H2 := x\<rparr>) (setString v (H2 c))
      else if tag = ''h3'' then map_sum id (\<lambda>x. c\<lparr>H3 := x\<rparr>) (setString v (H3 c))
      else if tag = ''h4'' then map_sum id (\<lambda>x. c\<lparr>H4 := x\<rparr>) (setString v (H4 c))
      else if tag = ''Nl'' then map_sum id (\<lambda>x. c\<lparr>Nl := x\<rparr>) (setString v (Nl c))
      else if tag = ''Nh'' then map_sum id (\<lambda>x. c\<lparr>Nh := x\<rparr>) (setString v (Nh c))
      else if tag = ''data'' then map_sum id (\<lambda>x. c\<lparr>ctx_Data := x\<rparr>) (setString v (ctx_Data c))
      else map_sum id (\<lambda>x. c\<lparr>ctx_Num := x\<rparr>) (setString v (ctx_Num c)))"

fun decodeHashMembers :: "(string \<times> json) list \<Rightarrow> HashCtx \<Rightarrow> string + HashCtx" where
  "decodeHashMembers [] c = Inr c"
| "decodeHashMembers ((k, v) # rest) c =
     (case matchTag hashTags k of
        None \<Rightarrow> decodeHashMembers rest c
      | Some tag \<Rightarrow>
          (case setHashField tag v c of
             Inl e \<Rightarrow> Inl e
           | Inr c' \<Rightarrow> decodeHashMembers rest c'))"

definition emptyHashCtx :: HashCtx where
  "emptyHashCtx = \<lparr>HashType = [], H0 = [], H1 = [], H2 = [], H3 = [], H4 = [], Nl = [],
     Nh = [], ctx_Data = [], ctx_Num = []\<rparr>"

definition setHashCtx :: "json \<Rightarrow> HashCtx option \<Rightarrow> string + HashCtx option" where
  "setHashCtx v old =
     (case v of
        JNull \<Rightarrow> Inr None
      | JObj kvs \<Rightarrow>
          map_sum id Some
            (decodeHashMembers kvs (case old of None \<Rightarrow> emptyHashCtx | Some c \<Rightarrow> c))
      | _ \<Rightarrow> Inl ''json: cannot unmarshal into Go value of type sdk.HashCtx'')"

definition zeroUploadState :: UploadState where
  "zeroUploadState = \<lparr>FilePath = [], DestPath = [], FileSize = 0, UploadID = [], TaskID = [],
     Bucket = [], ObjKey = [], UploadURL = [], PartSize = 0, UploadedParts = None,
     MimeType = [], AuthInfo = None, Callback = None, HashCtx = None, CreatedAt = zeroTime\<rparr>"

definition stateTags :: "string list" where
  "stateTags = [''file_path'', ''dest_path'', ''file_size'', ''upload_id'', ''task_id'',
                ''bucket'', ''obj_key'', ''upload_url'', ''part_size'', ''uploaded_parts'',
                ''mime_type'', ''auth_info'', ''callback'', ''hash_ctx'', ''created_at'']"

definition setField :: "string \<Rightarrow> json \<Rightarrow> UploadState \<Rightarrow> string + UploadState" where
  "setField tag v s =
     (if tag = ''file_path'' then map_sum id (\<lambda>x. s\<lparr>FilePath := x\<rparr>) (setString v (FilePath s))
      else if tag = ''dest_path'' then
        map_sum id (\<lambda>x. s\<lparr>DestPath := x\<rparr>) (setString v (DestPath s))
      else if tag = ''file_size'' then
        map_sum id (\<lambda>x. s\<lparr>FileSize := x\<rparr>) (setInt64 v (FileSize s))
      else if tag = ''upload_id'' then
        map_sum id (\<lambda>x. s\<lparr>UploadID := x\<rparr>) (setString v (UploadID s))
      else if tag = ''task_id'' then map_sum id (\<lambda>x. s\<lparr>TaskID := x\<rparr>) (setString v (TaskID s))
      else if tag = ''bucket'' then map_sum id (\<lambda>x. s\<lparr>Bucket := x\<rparr>) (setString v (Bucket s))
      else if tag = ''obj_key'' then map_sum id (\<lambda>x. s\<lparr>ObjKey := x\<rparr>) (setString v (ObjKey s))
      else if tag = ''upload_url'' then
        map_sum id (\<lambda>x. s\<lparr>UploadURL := x\<rparr>) (setString v (UploadURL s))
      else if tag = ''part_size'' then
        map_sum id (\<lambda>x. s\<lparr>PartSize := x\<rparr>) (setInt64 v (PartSize s))
      else if tag = ''uploaded_parts'' then
        map_sum id (\<lambda>x. s\<lparr>UploadedParts := x\<rparr>) (setParts v (UploadedParts s))
      else if tag = ''mime_type'' then
        map_sum id (\<lambda>x. s\<lparr>MimeType := x\<rparr>) (setString v (MimeType s))
      else if tag = ''auth_info'' then map_sum id (\<lambda>x. s\<lparr>AuthInfo := x\<rparr>) (setRaw v)
      else if tag = ''callback'' then map_sum id (\<lambda>x. s\<lparr>Callback := x\<rparr>) (setRaw v)
      else if tag = ''hash_ctx'' then
        map_sum id (\<lambda>x. s\<lparr>HashCtx := x\<rparr>) (setHashCtx v (HashCtx s))
      else map_sum id (\<lambda>x. s\<lparr>CreatedAt := x\<rparr>) (setTime v (CreatedAt s)))"

fun decodeMembers :: "(string \<times> json) list \<Rightarrow> UploadState \<Rightarrow> string + UploadState" where
  "decodeMembers [] s = Inr s"
| "decodeMembers ((k, v) # rest) s =
     (case matchTag stateTags k of
        None \<Rightarrow> decodeMembers rest s
      | Some tag \<Rightarrow>
          (case setField tag v s of
             Inl e \<Rightarrow> Inl e
           | Inr s' \<Rightarrow> decodeMembers rest s'))"

definition decodeUploadState :: "json \<Rightarrow> string + UploadState" where
  "decodeUploadState j =
     (case j of
        JObj kvs \<Rightarrow> decodeMembers kvs zeroUploadState
      | JNull \<Rightarrow> Inr zeroUploadState
      | _ \<Rightarrow> Inl ''json: cannot unmarshal into Go value of type sdk.UploadState'')"

subsection \<open>The store\<close>

text \<open>
  The state directory: the path of a record and the document kept there.  Reading a path
  with no record is the error of \<open>os.ReadFile\<close>; writing and removing succeed.
  \<open>saveUploadState\<close> stamps \<open>CreatedAt\<close> on the state it is given (through the pointer)
  before it writes, so it returns the state as the caller sees it afterwards; when
  \<open>json.MarshalIndent\<close> fails nothing is written.
\<close>

type_synonym store = "string \<rightharpoonup> json"

definition loadUploadState :: "store \<Rightarrow> string \<Rightarrow> string + UploadState" where
  "loadUploadState st statePath =
     (case st statePath of
        None \<Rightarrow> Inl ''open: no such file or directory''
      | Some data \<Rightarrow> decodeUploadState data)"

definition saveUploadState ::
  "jsonlib \<Rightarrow> time \<Rightarrow> string \<Rightarrow> UploadState \<Rightarrow> store \<Rightarrow> UploadState \<times> store" where
  "saveUploadState L now statePath state st =
     (let state = state\<lparr>CreatedAt := now\<rparr>
      in case encodeUploadState L state of
           None \<Rightarrow> (state, st)
         | Some data \<Rightarrow> (state, st(statePath \<mapsto> data)))"

definition deleteUploadState :: "string \<Rightarrow> store \<Rightarrow> store" where
  "deleteUploadState statePath st = st(statePath := None)"

subsection \<open>Facts about strings\<close>












subsection \<open>Facts about the store\<close>




















lemma save_fails:
  "rawMember L (AuthInfo s) = None \<or> rawMember L (Callback s) = None \<Longrightarrow>
   snd (saveUploadState L now path s st) = st"
  by (auto simp add: saveUploadState_def encodeUploadState_def Let_def split: option.splits)






text \<open>
  The library on the two raw messages of the tests of the SDK, \<open>{"test": "auth"}\<close> and
  \<open>{"test": "callback"}\<close>: compacted they lose the space, and as members of the indented
  document they stand on three lines.
\<close>

definition quoted :: "string \<Rightarrow> string" where
  "quoted s = CHR 0x22 # s @ [CHR 0x22]"













section \<open>The remote service and the local system\<close>

text \<open>
  Everything outside the SDK is an environment: the answers of the remote service, of the
  object store and of the local file system, the clock and the library functions whose
  result the SDK only passes on.  An answer may depend on all the interaction so far, which
  the world records as a log of events.
\<close>

record api_request =
  api_method :: string
  api_endpoint :: string
  api_query :: "(string \<times> string) list"
  api_body :: "json option"

record http_request =
  req_method :: string
  req_url :: string
  req_query :: "(string \<times> string) list"
  req_header :: "(string \<times> string) list"
  req_body :: string

record http_response =
  StatusCode :: int
  resp_header :: "(string \<times> string) list"
  resp_body :: string
  resp_body_error :: "string option"

datatype read_result = ReadErr string | ReadEOF | ReadData string

text \<open>
  \<open>resp_body\<close> is what \<open>io.ReadAll\<close> delivers of the body and \<open>resp_body_error\<close> the error
  it may return with it.  A progress event records the \<open>Uploaded\<close> and \<open>Total\<close> members of
  the value given to the callback (the other members are floating-point and clock
  readings).
\<close>

text \<open>
  An opened local file: what \<open>Stat\<close> answers (size and base name), what a whole pass of
  \<open>io.Copy\<close> delivers, and what \<open>Read\<close> answers at an offset for a buffer length.
\<close>

record local_file =
  file_Stat :: "string + (int \<times> string)"
  file_Copy :: "string + string"
  file_Read :: "int \<Rightarrow> int \<Rightarrow> read_result"

datatype event =
    EApi api_request "string + (string \<times> json) list"
  | EDo http_request "string + http_response"
  | EProgress int int

record env =
  api_reply :: "event list \<Rightarrow> api_request \<Rightarrow> string + (string \<times> json) list"
  http_reply :: "event list \<Rightarrow> http_request \<Rightarrow> string + http_response"
  os_Open :: "string \<Rightarrow> string + local_file"
  time_Now :: "event list \<Rightarrow> time"
  time_UnixMilli :: "event list \<Rightarrow> int"
  http_date :: "event list \<Rightarrow> string"
  url_error :: "string \<Rightarrow> string option"
  xml_PartEtag :: "string \<Rightarrow> string option"
  mime_TypeByExtension :: "string \<Rightarrow> string"
  md5_hex :: "string \<Rightarrow> string"
  sha1_hex :: "string \<Rightarrow> string"
  md5_base64 :: "string \<Rightarrow> string"
  base64_json :: "string option \<Rightarrow> string"
  json_Marshal :: "json \<Rightarrow> string"
  json_lib :: jsonlib
  filepath_Join :: "string \<Rightarrow> string \<Rightarrow> string"
  temp_dir :: string

text \<open>The log of the interaction so far.  The resume store is threaded separately (by
  \<open>UploadFile\<close>, the only function that uses it): the calls to the remote service do not see
  it.\<close>

type_synonym world = "event list"

text \<open>
  \<open>makeRequest\<close> (quark_client.go): the credential check, the HTTP exchange and the decoding
  of the body into a \<open>map[string]interface{}\<close> are the environment's; the SDK sees the
  decoded object or an error.
\<close>

definition makeRequest ::
  "env \<Rightarrow> api_request \<Rightarrow> world \<Rightarrow> (string + (string \<times> json) list) \<times> world" where
  "makeRequest E rq w =
     (let r = api_reply E w rq in (r, w @ [EApi rq r]))"

definition http_Do ::
  "env \<Rightarrow> http_request \<Rightarrow> world \<Rightarrow> (string + http_response) \<times> world" where
  "http_Do E rq w =
     (let r = http_reply E w rq in (r, w @ [EDo rq r]))"

subsection \<open>Constants (the endpoint table of the package)\<close>

definition FILE_UPLOAD_PRE :: string where "FILE_UPLOAD_PRE = ''/1/clouddrive/file/upload/pre''"
definition FILE_UPDATE_HASH :: string where "FILE_UPDATE_HASH = ''/1/clouddrive/file/update/hash''"
definition FILE_UPLOAD_AUTH :: string where "FILE_UPLOAD_AUTH = ''/1/clouddrive/file/upload/auth''"
definition FILE_UPLOAD_FINISH :: string where
  "FILE_UPLOAD_FINISH = ''/1/clouddrive/file/upload/finish''"
definition FILE_SORT :: string where "FILE_SORT = ''/1/clouddrive/file/sort''"
definition CREATE_FOLDER :: string where "CREATE_FOLDER = ''/1/clouddrive/file''"

definition oss_user_agent :: string where
  "oss_user_agent = ''aliyun-sdk-js/6.6.1 Chrome 98.0.4758.80 on Windows 10 64-bit''"

subsection \<open>HTTP headers\<close>

text \<open>
  \<open>Header.Set\<close> and \<open>Header.Get\<close> work on the canonical form of the key: the first letter
  and every letter after a hyphen in upper case, the others in lower case.  (Go leaves a key
  with a space or another byte that cannot occur in a header name as it is.)
\<close>

definition toUpper :: "char \<Rightarrow> char" where
  "toUpper c = (if 97 \<le> (of_char c :: nat) \<and> (of_char c :: nat) \<le> 122
                then char_of ((of_char c :: nat) - 32) else c)"

definition toLower :: "char \<Rightarrow> char" where
  "toLower c = (if 65 \<le> (of_char c :: nat) \<and> (of_char c :: nat) \<le> 90
                then char_of ((of_char c :: nat) + 32) else c)"

fun canonLoop :: "bool \<Rightarrow> string \<Rightarrow> string" where
  "canonLoop upper [] = []"
| "canonLoop upper (c # cs) =
     (if upper then toUpper c else toLower c) # canonLoop (c = CHR ''-'') cs"

definition CanonicalMIMEHeaderKey :: "string \<Rightarrow> string" where
  "CanonicalMIMEHeaderKey k = (if CHR '' '' \<in> set k then k else canonLoop True k)"

definition Header_Set :: "string \<Rightarrow> string \<Rightarrow> (string \<times> string) list \<Rightarrow> (string \<times> string) list"
  where
  "Header_Set k v h = mapassign (CanonicalMIMEHeaderKey k) v h"

definition Header_Get :: "(string \<times> string) list \<Rightarrow> string \<Rightarrow> string" where
  "Header_Get h k = (case map_of h (CanonicalMIMEHeaderKey k) of None \<Rightarrow> [] | Some v \<Rightarrow> v)"

text \<open>The builder of types.go and its \<open>BuildHeaders\<close> (file.go).\<close>

record OSSPartUploadHeaderBuilder =
  AuthKey :: string
  pb_MimeType :: string
  Timestamp :: string
  pb_HashCtx :: "HashCtx option"

definition BuildHeaders :: "OSSPartUploadHeaderBuilder \<Rightarrow> http_request \<Rightarrow> http_request" where
  "BuildHeaders b req =
     (let req = req\<lparr>req_header := Header_Set ''Authorization'' (AuthKey b) (req_header req)\<rparr>;
          req = req\<lparr>req_header := Header_Set ''Content-Type'' (pb_MimeType b) (req_header req)\<rparr>;
          req = req\<lparr>req_header := Header_Set ''x-oss-date'' (Timestamp b) (req_header req)\<rparr>;
          req = req\<lparr>req_header := Header_Set ''x-oss-user-agent'' oss_user_agent (req_header req)\<rparr>
      in req)"

text \<open>\<open>newRequestWithHeaders\<close> for a part upload: \<open>http.NewRequest\<close> may reject the URL.\<close>

definition newRequestWithHeaders ::
  "env \<Rightarrow> string \<Rightarrow> string \<Rightarrow> string \<Rightarrow> OSSPartUploadHeaderBuilder \<Rightarrow> string + http_request"
  where
  "newRequestWithHeaders E m url body' headerBuilder =
     (case url_error E url of
        Some e \<Rightarrow> Inl (''create request failed: '' @ e)
      | None \<Rightarrow>
          Inr (BuildHeaders headerBuilder
                 \<lparr>req_method = m, req_url = url, req_query = [], req_header = [],
                  req_body = body'\<rparr>))"

subsection \<open>Typed responses (types.go) and their decoding by parseResponse\<close>

record PreUploadResponse =
  pre_Code :: int
  pre_Status :: int
  pre_TaskID :: string
  pre_Bucket :: string
  pre_ObjKey :: string
  pre_UploadID :: string
  pre_UploadURL :: string
  pre_AuthInfo :: "string option"
  pre_Callback :: "string option"
  pre_PartSize :: int

record HashResponse =
  hash_Code :: int
  hash_Status :: int
  hash_Finish :: bool

record AuthResponse =
  auth_Code :: int
  auth_Status :: int
  auth_AuthKey :: string

record FinishResponse =
  fin_Code :: int
  fin_Status :: int
  fin_Data :: "(string \<times> json) list option"

text \<open>The members of a typed response: a missing member and \<open>null\<close> leave the zero value,
  a member of the wrong kind is an error.\<close>

definition asString :: "json option \<Rightarrow> string + string" where
  "asString j =
     (case j of None \<Rightarrow> Inr [] | Some JNull \<Rightarrow> Inr [] | Some (JStr v) \<Rightarrow> Inr v
      | Some _ \<Rightarrow> Inl ''json: cannot unmarshal into Go value of type string'')"

definition asInt :: "json option \<Rightarrow> string + int" where
  "asInt j =
     (case j of None \<Rightarrow> Inr 0 | Some JNull \<Rightarrow> Inr 0 | Some (JNum n) \<Rightarrow> Inr n
      | Some _ \<Rightarrow> Inl ''json: cannot unmarshal into Go value of type int64'')"

definition bindE :: "string + 'a \<Rightarrow> ('a \<Rightarrow> string + 'b) \<Rightarrow> string + 'b" where
  "bindE r f = (case r of Inl e \<Rightarrow> Inl e | Inr v \<Rightarrow> f v)"

definition asBool :: "json option \<Rightarrow> string + bool" where
  "asBool j =
     (case j of None \<Rightarrow> Inr False | Some JNull \<Rightarrow> Inr False | Some (JBool b) \<Rightarrow> Inr b
      | Some _ \<Rightarrow> Inl ''json: cannot unmarshal into Go value of type bool'')"

definition asObject :: "json option \<Rightarrow> string + (string \<times> json) list option" where
  "asObject j =
     (case j of None \<Rightarrow> Inr None | Some JNull \<Rightarrow> Inr None | Some (JObj kvs) \<Rightarrow> Inr (Some kvs)
      | Some _ \<Rightarrow> Inl ''json: cannot unmarshal into Go value of type struct'')"

definition members :: "(string \<times> json) list option \<Rightarrow> (string \<times> json) list" where
  "members d = (case d of None \<Rightarrow> [] | Some kvs \<Rightarrow> kvs)"

text \<open>
  The member \<open>Metadata\<close> of \<open>PreUploadResponse\<close> has no tag; Go matches it irrespective of
  case.  It is looked up as \<open>Metadata\<close> and then as \<open>metadata\<close>, the spelling of the service.
\<close>

text \<open>
  \<open>parseResponse\<close> marshals the decoded answer again and decodes the text into the struct;
  the members \<open>auth_info\<close> and \<open>callback\<close> are read as raw messages, so they hold the text
  that \<open>json.Marshal\<close> writes for the decoded value (\<open>json_Marshal\<close>), and stay nil when the
  answer has no such member.
\<close>

definition parsePre :: "env \<Rightarrow> (string \<times> json) list \<Rightarrow> string + PreUploadResponse" where
  "parsePre E m =
     bindE (asInt (map_of m ''code'')) (\<lambda>c.
     bindE (asInt (map_of m ''status'')) (\<lambda>st.
     bindE (asObject (map_of m ''data'')) (\<lambda>d.
     bindE (asString (map_of (members d) ''task_id'')) (\<lambda>tid.
     bindE (asString (map_of (members d) ''bucket'')) (\<lambda>b.
     bindE (asString (map_of (members d) ''obj_key'')) (\<lambda>ok.
     bindE (asString (map_of (members d) ''upload_id'')) (\<lambda>uid.
     bindE (asString (map_of (members d) ''upload_url'')) (\<lambda>url.
     bindE (asObject (case map_of m ''Metadata'' of Some v \<Rightarrow> Some v
                      | None \<Rightarrow> map_of m ''metadata'')) (\<lambda>md.
     bindE (asInt (map_of (members md) ''part_size'')) (\<lambda>ps.
       Inr \<lparr>pre_Code = c, pre_Status = st, pre_TaskID = tid, pre_Bucket = b, pre_ObjKey = ok,
            pre_UploadID = uid, pre_UploadURL = url,
            pre_AuthInfo = map_option (json_Marshal E) (map_of (members d) ''auth_info''),
            pre_Callback = map_option (json_Marshal E) (map_of (members d) ''callback''),
            pre_PartSize = ps\<rparr>))))))))))"

definition parseHash :: "(string \<times> json) list \<Rightarrow> string + HashResponse" where
  "parseHash m =
     bindE (asInt (map_of m ''code'')) (\<lambda>c.
     bindE (asInt (map_of m ''status'')) (\<lambda>st.
     bindE (asObject (map_of m ''data'')) (\<lambda>d.
     bindE (asBool (map_of (members d) ''finish'')) (\<lambda>f.
       Inr \<lparr>hash_Code = c, hash_Status = st, hash_Finish = f\<rparr>))))"

definition parseAuth :: "(string \<times> json) list \<Rightarrow> string + AuthResponse" where
  "parseAuth m =
     bindE (asInt (map_of m ''code'')) (\<lambda>c.
     bindE (asInt (map_of m ''status'')) (\<lambda>st.
     bindE (asObject (map_of m ''data'')) (\<lambda>d.
     bindE (asString (map_of (members d) ''auth_key'')) (\<lambda>k.
       Inr \<lparr>auth_Code = c, auth_Status = st, auth_AuthKey = k\<rparr>))))"

definition parseFinish :: "(string \<times> json) list \<Rightarrow> string + FinishResponse" where
  "parseFinish m =
     bindE (asInt (map_of m ''code'')) (\<lambda>c.
     bindE (asInt (map_of m ''status'')) (\<lambda>st.
     bindE (asObject (map_of m ''data'')) (\<lambda>d.
       Inr \<lparr>fin_Code = c, fin_Status = st, fin_Data = d\<rparr>)))"

subsection \<open>The calls of the upload protocol (file.go, quark_client.go)\<close>

definition upPre ::
  "env \<Rightarrow> string \<Rightarrow> string \<Rightarrow> int \<Rightarrow> string \<Rightarrow> world \<Rightarrow> (string + PreUploadResponse) \<times> world"
  where
  "upPre E fileName mimeType size' parentID w =
     (let now = time_UnixMilli E w;
          data = JObj [(''ccp_hash_update'', JBool True), (''dir_name'', JString []),
                       (''file_name'', JString fileName), (''format_type'', JString mimeType),
                       (''l_created_at'', JNum now), (''l_updated_at'', JNum now),
                       (''pdir_fid'', JString parentID), (''size'', JNum size')]
      in case makeRequest E \<lparr>api_method = ''POST'', api_endpoint = FILE_UPLOAD_PRE, api_query = [],
                               api_body = Some data\<rparr> w of
           (Inl err, w) \<Rightarrow> (Inl (''pre-upload request failed: '' @ err), w)
         | (Inr respMap, w) \<Rightarrow>
             (case parsePre E respMap of
                Inl err \<Rightarrow> (Inl (''failed to decode pre-upload response: '' @ err), w)
              | Inr preResp \<Rightarrow>
                  if pre_Code preResp \<noteq> 0 \<or> pre_Status preResp \<noteq> 200
                  then (Inl (''pre-upload failed: code='' @ itoa (pre_Code preResp)
                             @ '', status='' @ itoa (pre_Status preResp)), w)
                  else (Inr preResp, w)))"

definition upHash ::
  "env \<Rightarrow> string \<Rightarrow> string \<Rightarrow> string \<Rightarrow> world \<Rightarrow> (string + HashResponse) \<times> world" where
  "upHash E md5Hash sha1Hash taskID w =
     (let data = JObj [(''md5'', JString md5Hash), (''sha1'', JString sha1Hash),
                       (''task_id'', JString taskID)]
      in case makeRequest E \<lparr>api_method = ''POST'', api_endpoint = FILE_UPDATE_HASH, api_query = [],
                               api_body = Some data\<rparr> w of
           (Inl err, w) \<Rightarrow> (Inl (''hash update request failed: '' @ err), w)
         | (Inr respMap, w) \<Rightarrow>
             (case parseHash respMap of
                Inl err \<Rightarrow> (Inl (''failed to decode hash response: '' @ err), w)
              | Inr hashResp \<Rightarrow>
                  if hash_Code hashResp \<noteq> 0 \<or> hash_Status hashResp \<noteq> 200
                  then (Inl (''hash update failed: code='' @ itoa (hash_Code hashResp)
                             @ '', status='' @ itoa (hash_Status hashResp)), w)
                  else (Inr hashResp, w)))"

text \<open>A raw message as a member of a document written by \<open>json.Marshal\<close>: compacted, \<open>null\<close>
  for a nil one, and \<open>None\<close> when the bytes are not a JSON text (the marshalling fails; the
  detail of its error message is not modelled).\<close>

definition compactMember :: "jsonlib \<Rightarrow> string option \<Rightarrow> json option" where
  "compactMember L r =
     (case r of None \<Rightarrow> Some JNull | Some b \<Rightarrow> map_option JRaw (json_Compact L b))"

definition getOSSAuthKey ::
  "env \<Rightarrow> string \<Rightarrow> string option \<Rightarrow> string \<Rightarrow> world \<Rightarrow> (string + string) \<times> world" where
  "getOSSAuthKey E authMeta authInfo taskID w =
     (case compactMember (json_lib E) authInfo of
        None \<Rightarrow>
          (Inl (''marshal auth data failed: ''
                @ ''json: error calling MarshalJSON for type json.RawMessage''), w)
      | Some member \<Rightarrow>
          (let authData = JObj [(''auth_info'', member), (''auth_meta'', JString authMeta),
                                (''task_id'', JString taskID)]
           in case makeRequest E \<lparr>api_method = ''POST'', api_endpoint = FILE_UPLOAD_AUTH,
                                    api_query = [], api_body = Some authData\<rparr> w of
                (Inl err, w) \<Rightarrow> (Inl err, w)
              | (Inr respMap, w) \<Rightarrow>
                  (case parseAuth respMap of
                     Inl err \<Rightarrow> (Inl err, w)
                   | Inr authResp \<Rightarrow>
                       if auth_Code authResp \<noteq> 0 \<or> auth_Status authResp \<noteq> 200
                       then (Inl (''auth failed: code='' @ itoa (auth_Code authResp)), w)
                       else (Inr (auth_AuthKey authResp), w))))"

definition upFinish :: "env \<Rightarrow> PreUploadResponse \<Rightarrow> world \<Rightarrow> (string + FinishResponse) \<times> world"
  where
  "upFinish E pre w =
     (let data = JObj [(''obj_key'', JString (pre_ObjKey pre)),
                       (''task_id'', JString (pre_TaskID pre))]
      in case makeRequest E \<lparr>api_method = ''POST'', api_endpoint = FILE_UPLOAD_FINISH, api_query = [],
                               api_body = Some data\<rparr> w of
           (Inl err, w) \<Rightarrow> (Inl (''finish request failed: '' @ err), w)
         | (Inr respMap, w) \<Rightarrow>
             (case parseFinish respMap of
                Inl err \<Rightarrow> (Inl (''failed to decode finish response: '' @ err), w)
              | Inr finishResp \<Rightarrow>
                  if fin_Code finishResp \<noteq> 0 \<or> fin_Status finishResp \<noteq> 200
                  then (Inl (''finish failed: code='' @ itoa (fin_Code finishResp)
                             @ '', status='' @ itoa (fin_Status finishResp)), w)
                  else (Inr finishResp, w)))"

subsection \<open>upPart\<close>

text \<open>\<open>strings.Trim(s, cutset)\<close>.\<close>

definition Trim :: "string \<Rightarrow> string \<Rightarrow> string" where
  "Trim s cutset =
     rev (dropWhile (\<lambda>c. c \<in> set cutset) (rev (dropWhile (\<lambda>c. c \<in> set cutset) s)))"

definition uploadURL :: "PreUploadResponse \<Rightarrow> string" where
  "uploadURL pre =
     (let uploadURLBase = pre_UploadURL pre;
          uploadURLBase =
            (if HasPrefix uploadURLBase ''https://'' then drop 8 uploadURLBase
             else if HasPrefix uploadURLBase ''http://'' then drop 7 uploadURLBase
             else uploadURLBase)
      in ''https://'' @ pre_Bucket pre @ ''.'' @ uploadURLBase @ ''/'' @ pre_ObjKey pre)"

text \<open>
  The request of one part: the builder that \<open>upPart\<close> fills (\<open>AuthKey\<close>, \<open>MimeType\<close>,
  \<open>Timestamp\<close>; \<open>HashCtx\<close> is left nil), the request made from it and its two query
  parameters.
\<close>

definition partRequest ::
  "env \<Rightarrow> PreUploadResponse \<Rightarrow> string \<Rightarrow> int \<Rightarrow> string \<Rightarrow> string \<Rightarrow> string
     \<Rightarrow> string + http_request" where
  "partRequest E pre mimeType partNumber chunkData authKey now =
     (let headerBuilder = \<lparr>AuthKey = authKey, pb_MimeType = mimeType, Timestamp = now,
                            pb_HashCtx = None\<rparr>
      in case newRequestWithHeaders E ''PUT'' (uploadURL pre) chunkData headerBuilder of
           Inl err \<Rightarrow> Inl (''failed to create upload request: '' @ err)
         | Inr req \<Rightarrow>
             Inr (req\<lparr>req_query :=
                     mapassign ''uploadId'' (pre_UploadID pre)
                       (mapassign ''partNumber'' (itoa partNumber) (req_query req))\<rparr>))"

text \<open>
  What \<open>upPart\<close> makes of the response of the PUT.  \<open>xml_PartEtag\<close> is \<open>xml.Unmarshal\<close>
  into the \<open>OSSError\<close> struct followed by the read of \<open>PartEtag\<close>: \<open>None\<close> when the body
  does not parse.
\<close>

definition upPartResponse :: "env \<Rightarrow> http_response \<Rightarrow> string + string" where
  "upPartResponse E resp =
     (if StatusCode resp \<ge> 400 then
        (let bodyStr = resp_body resp;
             failure = Inl (''upload chunk failed with status '' @ itoa (StatusCode resp)
                            @ '': '' @ bodyStr)
         in if StatusCode resp = 409 \<and> Contains bodyStr ''PartAlreadyExist'' then
              (case xml_PartEtag E bodyStr of
                 Some partEtag \<Rightarrow>
                   if partEtag \<noteq> [] then Inr (Trim partEtag [CHR 0x22]) else failure
               | None \<Rightarrow> failure)
            else failure)
      else
        (let etag = Header_Get (resp_header resp) ''ETag''
         in if etag = [] then Inl ''no ETag in response'' else Inr etag))"

definition partAuthMeta :: "PreUploadResponse \<Rightarrow> string \<Rightarrow> int \<Rightarrow> string \<Rightarrow> string" where
  "partAuthMeta pre mimeType partNumber now =
     ''PUT'' @ [CHR 0x0A, CHR 0x0A] @ mimeType @ [CHR 0x0A] @ now @ [CHR 0x0A]
       @ ''x-oss-date:'' @ now @ [CHR 0x0A]
       @ ''x-oss-user-agent:'' @ oss_user_agent @ [CHR 0x0A]
       @ ''/'' @ pre_Bucket pre @ ''/'' @ pre_ObjKey pre
       @ ''?partNumber='' @ itoa partNumber @ ''&uploadId='' @ pre_UploadID pre"

definition upPart ::
  "env \<Rightarrow> PreUploadResponse \<Rightarrow> string \<Rightarrow> int \<Rightarrow> string \<Rightarrow> world \<Rightarrow> (string + string) \<times> world"
  where
  "upPart E pre mimeType partNumber chunkData w =
     (let now = http_date E w;
          authMeta = partAuthMeta pre mimeType partNumber now
      in case getOSSAuthKey E authMeta (pre_AuthInfo pre) (pre_TaskID pre) w of
           (Inl err, w) \<Rightarrow> (Inl err, w)
         | (Inr authKey, w) \<Rightarrow>
             (case partRequest E pre mimeType partNumber chunkData authKey now of
                Inl err \<Rightarrow> (Inl err, w)
              | Inr req \<Rightarrow>
                  (case http_Do E req w of
                     (Inl err, w) \<Rightarrow> (Inl (''failed to upload chunk: '' @ err), w)
                   | (Inr resp, w) \<Rightarrow> (upPartResponse E resp, w))))"

subsection \<open>Facts about the part upload\<close>

lemma canonical_keys:
  "CanonicalMIMEHeaderKey ''Authorization'' = ''Authorization''"
  "CanonicalMIMEHeaderKey ''Content-Type'' = ''Content-Type''"
  "CanonicalMIMEHeaderKey ''x-oss-date'' = ''X-Oss-Date''"
  "CanonicalMIMEHeaderKey ''x-oss-user-agent'' = ''X-Oss-User-Agent''"
  "CanonicalMIMEHeaderKey ''X-Oss-Hash-Ctx'' = ''X-Oss-Hash-Ctx''"
  "CanonicalMIMEHeaderKey ''ETag'' = ''Etag''"
  by code_simp+

lemma BuildHeaders_keys:
  "req_header req = [] \<Longrightarrow>
   req_header (BuildHeaders b req) =
     [(''Authorization'', AuthKey b), (''Content-Type'', pb_MimeType b),
      (''X-Oss-Date'', Timestamp b), (''X-Oss-User-Agent'', oss_user_agent)]"
  by (simp add: BuildHeaders_def Header_Set_def canonical_keys Let_def)

text \<open>
  C2 (the code at every part number, so also at the second chunk).  The PUT request of a
  part carries exactly the four headers that \<open>BuildHeaders\<close> sets; the header
  \<open>X-Oss-Hash-Ctx\<close> is absent whatever the part number, and \<open>BuildHeaders\<close> does not read
  the \<open>HashCtx\<close> member of its builder.
\<close>

theorem part_request_headers:
  "(case partRequest E pre mimeType partNumber chunkData authKey now of
      Inl err \<Rightarrow> True
    | Inr req \<Rightarrow>
        map fst (req_header req)
          = [''Authorization'', ''Content-Type'', ''X-Oss-Date'', ''X-Oss-User-Agent'']
        \<and> Header_Get (req_header req) ''X-Oss-Hash-Ctx'' = [])
   \<and> BuildHeaders (b\<lparr>pb_HashCtx := Some ctx\<rparr>) req0 = BuildHeaders (b\<lparr>pb_HashCtx := None\<rparr>) req0"
proof
  show "case partRequest E pre mimeType partNumber chunkData authKey now of
      Inl err \<Rightarrow> True
    | Inr req \<Rightarrow>
        map fst (req_header req)
          = [''Authorization'', ''Content-Type'', ''X-Oss-Date'', ''X-Oss-User-Agent'']
        \<and> Header_Get (req_header req) ''X-Oss-Hash-Ctx'' = []"
    by (simp add: partRequest_def newRequestWithHeaders_def BuildHeaders_keys Header_Get_def
        canonical_keys split: option.splits)
  show "BuildHeaders (b\<lparr>pb_HashCtx := Some ctx\<rparr>) req0 = BuildHeaders (b\<lparr>pb_HashCtx := None\<rparr>) req0"
    by (simp add: BuildHeaders_def)
qed

lemma upPart_received:
  assumes "getOSSAuthKey E (partAuthMeta pre mimeType partNumber (http_date E w))
             (pre_AuthInfo pre) (pre_TaskID pre) w = (Inr authKey, w1)"
    and "partRequest E pre mimeType partNumber chunkData authKey (http_date E w) = Inr req"
    and "http_reply E w1 req = Inr resp"
  shows "fst (upPart E pre mimeType partNumber chunkData w) = upPartResponse E resp"
  using assms by (simp add: upPart_def Let_def http_Do_def)

lemma upPartResponse_conflict:
  assumes "StatusCode resp = 409" and "Contains (resp_body resp) ''PartAlreadyExist''"
    and "xml_PartEtag E (resp_body resp) = Some e" and "e \<noteq> []"
  shows "upPartResponse E resp = Inr (Trim e [CHR 0x22])"
  using assms by (simp add: upPartResponse_def Let_def)

lemma upPartResponse_error:
  assumes "StatusCode resp \<ge> 400"
    and "\<not> (StatusCode resp = 409 \<and> Contains (resp_body resp) ''PartAlreadyExist''
            \<and> (\<exists>e. xml_PartEtag E (resp_body resp) = Some e \<and> e \<noteq> []))"
  shows "\<exists>msg. upPartResponse E resp = Inl msg"
  using assms by (auto simp: upPartResponse_def Let_def split: option.splits)

lemma upPartResponse_fresh:
  assumes "StatusCode resp < 400" and "Header_Get (resp_header resp) ''ETag'' \<noteq> []"
  shows "upPartResponse E resp = Inr (Header_Get (resp_header resp) ''ETag'')"
  using assms by (simp add: upPartResponse_def Let_def)

text \<open>
  C3.  When the PUT of a part receives a response: a 409 whose body names
  \<open>PartAlreadyExist\<close> and carries a non-empty \<open>PartEtag\<close> makes \<open>upPart\<close> return that ETag
  (without surrounding double quotes) as a success, as a response below 400 with an
  \<open>ETag\<close> header does; every other response with status 400 or more makes it return an
  error.
\<close>

theorem upPart_conflict_is_success:
  "(StatusCode resp = 409 \<and> Contains (resp_body resp) ''PartAlreadyExist''
      \<and> xml_PartEtag E (resp_body resp) = Some e \<and> e \<noteq> []
      \<longrightarrow> upPartResponse E resp = Inr (Trim e [CHR 0x22]))
   \<and> (StatusCode resp \<ge> 400
        \<and> \<not> (StatusCode resp = 409 \<and> Contains (resp_body resp) ''PartAlreadyExist''
               \<and> (\<exists>e. xml_PartEtag E (resp_body resp) = Some e \<and> e \<noteq> []))
      \<longrightarrow> (\<exists>msg. upPartResponse E resp = Inl msg))
   \<and> (StatusCode resp < 400 \<and> Header_Get (resp_header resp) ''ETag'' \<noteq> []
      \<longrightarrow> upPartResponse E resp = Inr (Header_Get (resp_header resp) ''ETag''))
   \<and> (getOSSAuthKey E (partAuthMeta pre mimeType partNumber (http_date E w))
          (pre_AuthInfo pre) (pre_TaskID pre) w = (Inr authKey, w1)
        \<and> partRequest E pre mimeType partNumber chunkData authKey (http_date E w) = Inr req
        \<and> http_reply E w1 req = Inr resp
      \<longrightarrow> fst (upPart E pre mimeType partNumber chunkData w) = upPartResponse E resp)"
  using upPartResponse_conflict [of resp E e] upPartResponse_error [of resp E]
    upPartResponse_fresh [of resp E]
    upPart_received [of E pre mimeType partNumber w authKey w1 chunkData req resp]
  by blast

text \<open>
  An environment in which the signing endpoint answers with a key and the object store
  answers every PUT with a 409 for a part it already holds.
\<close>

definition resp409 :: http_response where
  "resp409 = \<lparr>StatusCode = 409, resp_header = [],
     resp_body = ''<Error><Code>PartAlreadyExist</Code><PartEtag>5D41</PartEtag></Error>'',
     resp_body_error = None\<rparr>"

definition resp500 :: http_response where
  "resp500 = \<lparr>StatusCode = 500, resp_header = [], resp_body = ''boom'', resp_body_error = None\<rparr>"

definition resp200 :: http_response where
  "resp200 = \<lparr>StatusCode = 200, resp_header = [(''Etag'', ''5D41'')], resp_body = [],
     resp_body_error = None\<rparr>"

definition authOK :: "(string \<times> json) list" where
  "authOK = [(''code'', JNum 0), (''status'', JNum 200),
             (''data'', JObj [(''auth_key'', JStr ''OSS key'')])]"

definition env409 :: env where
  "env409 = \<lparr>api_reply = (\<lambda>log rq. Inr authOK),
     http_reply = (\<lambda>log rq. Inr resp409),
     os_Open = (\<lambda>p. Inl ''no such file''),
     time_Now = (\<lambda>log. ''2026-11-01T00:00:00Z''),
     time_UnixMilli = (\<lambda>log. 0),
     http_date = (\<lambda>log. ''Sun, 01 Nov 2026 00:00:00 GMT''),
     url_error = (\<lambda>u. None),
     xml_PartEtag = (\<lambda>b. if b = resp_body resp409 then Some ''5D41'' else None),
     mime_TypeByExtension = (\<lambda>e. []),
     md5_hex = (\<lambda>d. ''md5''), sha1_hex = (\<lambda>d. ''sha1''), md5_base64 = (\<lambda>d. ''md5''),
     base64_json = (\<lambda>j. ''e30=''),
     json_Marshal = (\<lambda>v. if v = JStr ''auth'' then quoted ''auth''
                         else if v = JObj [] then ''{}'' else ''null''),
     json_lib = \<lparr>json_Compact = (\<lambda>b. if b = quoted ''auth'' \<or> b = ''{}'' \<or> b = ''null''
                                       then Some b else None),
                 json_Indent = (\<lambda>c. c)\<rparr>,
     filepath_Join = (\<lambda>a b. a @ ''/'' @ b),
     temp_dir = ''/tmp''\<rparr>"

definition pre0 :: PreUploadResponse where
  "pre0 = \<lparr>pre_Code = 0, pre_Status = 200, pre_TaskID = ''task'', pre_Bucket = ''bucket'',
     pre_ObjKey = ''obj'', pre_UploadID = ''upload'', pre_UploadURL = ''https://oss.example'',
     pre_AuthInfo = Some (quoted ''auth''), pre_Callback = Some ''{}'', pre_PartSize = 4\<rparr>"

definition world0 :: world where
  "world0 = []"

theorem upPart_conflict_is_success_witness:
  "StatusCode resp409 = 409 \<and> Contains (resp_body resp409) ''PartAlreadyExist''
   \<and> xml_PartEtag env409 (resp_body resp409) = Some ''5D41''
   \<and> upPartResponse env409 resp409 = Inr ''5D41''
   \<and> fst (upPart env409 pre0 ''application/octet-stream'' 2 ''data'' world0) = Inr ''5D41''
   \<and> StatusCode resp500 \<ge> 400
   \<and> upPartResponse env409 resp500 = Inl ''upload chunk failed with status 500: boom''
   \<and> StatusCode resp200 < 400
   \<and> upPartResponse env409 resp200 = Inr ''5D41''"
proof -
  let ?now = "http_date env409 world0"
  have st: "StatusCode resp409 = 409" by (simp add: resp409_def)
  have ct: "Contains (resp_body resp409) ''PartAlreadyExist''" by (simp add: resp409_def)
  have xm: "xml_PartEtag env409 (resp_body resp409) = Some ''5D41''" by (simp add: env409_def)
  have ne: "''5D41'' \<noteq> []" by simp
  have tr: "Trim ''5D41'' [CHR 0x22] = ''5D41''" by (simp add: Trim_def)
  obtain w1 where au: "getOSSAuthKey env409
      (partAuthMeta pre0 ''application/octet-stream'' 2 ?now) (pre_AuthInfo pre0) (pre_TaskID pre0)
      world0 = (Inr ''OSS key'', w1)"
    by (simp add: getOSSAuthKey_def compactMember_def pre0_def makeRequest_def env409_def
        authOK_def parseAuth_def bindE_def asInt_def asObject_def asString_def members_def
        Let_def)
  obtain rq where rq: "partRequest env409 pre0 ''application/octet-stream'' 2 ''data'' ''OSS key''
      ?now = Inr rq"
    by (simp add: partRequest_def newRequestWithHeaders_def env409_def Let_def)
  have re: "http_reply env409 w1 rq = Inr resp409" by (simp add: env409_def)
  note T = upPart_conflict_is_success [of resp409 env409 "''5D41''" pre0
      "''application/octet-stream''" 2 world0 "''OSS key''" w1 "''data''" rq]
  have a: "upPartResponse env409 resp409 = Inr ''5D41''"
    using T st ct xm ne tr by simp
  have b: "fst (upPart env409 pre0 ''application/octet-stream'' 2 ''data'' world0) = Inr ''5D41''"
    using T au rq re a by simp
  have c: "StatusCode resp500 \<ge> 400" by (simp add: resp500_def)
  have i500: "itoa 500 = ''500''" by code_simp
  have d: "upPartResponse env409 resp500 = Inl ''upload chunk failed with status 500: boom''"
    by (simp add: upPartResponse_def resp500_def Let_def i500)
  have e: "StatusCode resp200 < 400" by (simp add: resp200_def)
  have g: "Header_Get (resp_header resp200) ''ETag'' = ''5D41''"
    by (simp add: Header_Get_def canonical_keys resp200_def)
  have f: "upPartResponse env409 resp200 = Inr ''5D41''"
    using upPart_conflict_is_success [of resp200 env409 "''5D41''" pre0
      "''application/octet-stream''" 2 world0 "''OSS key''" w1 "''data''" rq] e g by simp
  show ?thesis using st ct xm a b c d e f by simp
qed

section \<open>Path resolver (file.go: listByFid, GetFileInfo, CreateFolder)\<close>

subsection \<open>More string and path helpers\<close>

text \<open>\<open>strings.LastIndex\<close> for a one-character separator; \<open>-1\<close> when it does not occur.\<close>

fun LastIndexFrom :: "char \<Rightarrow> string \<Rightarrow> int \<Rightarrow> int \<Rightarrow> int" where
  "LastIndexFrom c [] i found = found"
| "LastIndexFrom c (x # xs) i found = LastIndexFrom c xs (i + 1) (if x = c then i else found)"

definition LastIndex :: "string \<Rightarrow> char \<Rightarrow> int" where
  "LastIndex s c = LastIndexFrom c s 0 (- 1)"

text \<open>\<open>strings.Split\<close> for a one-character separator.\<close>

fun Split :: "string \<Rightarrow> char \<Rightarrow> string list" where
  "Split [] c = [[]]"
| "Split (x # xs) c =
     (if x = c then [] # Split xs c
      else (case Split xs c of [] \<Rightarrow> [[x]] | p # ps \<Rightarrow> (x # p) # ps))"

text \<open>\<open>filepath.Base\<close> and \<open>filepath.Ext\<close> with the separator \<open>/\<close>.\<close>

definition Base :: "string \<Rightarrow> string" where
  "Base path =
     (if path = [] then ''.''
      else let path = rev (dropWhile (\<lambda>c. c = CHR ''/'') (rev path));
               path = rev (takeWhile (\<lambda>c. c \<noteq> CHR ''/'') (rev path))
           in if path = [] then ''/'' else path)"

fun ExtFrom :: "string \<Rightarrow> string \<Rightarrow> string" where
  "ExtFrom [] acc = []"
| "ExtFrom (c # cs) acc =
     (if c = CHR ''/'' then [] else if c = CHR ''.'' then c # acc else ExtFrom cs (c # acc))"

definition Ext :: "string \<Rightarrow> string" where
  "Ext path = ExtFrom (rev path) []"

text \<open>Go's integer division truncates towards zero.\<close>

definition quot :: "int \<Rightarrow> int \<Rightarrow> int" where
  "quot a b = sgn a * sgn b * (\<bar>a\<bar> div \<bar>b\<bar>)"

subsection \<open>Responses\<close>

record QuarkFileInfo =
  Fid :: string
  Name :: string
  Path :: string
  Size :: int
  CreateTime :: int
  ModifyTime :: int
  IsDirectory :: bool
  DownloadURL :: string
  qf_CreatedAt :: int
  UpdatedAt :: int
  LCreatedAt :: int
  LUpdatedAt :: int

text \<open>A value held in the \<open>Data\<close> map of a response: a decoded JSON value, or the typed
  slice that \<open>listByFid\<close> stores under \<open>list\<close>.\<close>

datatype goval = GJson json | GFiles "QuarkFileInfo list"

record StandardResponse =
  Success :: bool
  Code :: string
  Message :: string
  Data :: "(string \<times> goval) list option"

text \<open>The message texts that the source gives in Chinese, as their UTF-8 bytes: of a
  listing, of the root directory, of a file found, and of a folder created.\<close>

definition listSucceededMessage :: string where
  "listSucceededMessage =
     [CHR 0xE5, CHR 0x88, CHR 0x97, CHR 0xE5, CHR 0x87, CHR 0xBA,
      CHR 0xE7, CHR 0x9B, CHR 0xAE, CHR 0xE5, CHR 0xBD, CHR 0x95,
      CHR 0xE6, CHR 0x88, CHR 0x90, CHR 0xE5, CHR 0x8A, CHR 0x9F]"

definition rootDirectoryMessage :: string where
  "rootDirectoryMessage =
     [CHR 0xE6, CHR 0xA0, CHR 0xB9, CHR 0xE7, CHR 0x9B, CHR 0xAE,
      CHR 0xE5, CHR 0xBD, CHR 0x95]"

definition fileInfoMessage :: string where
  "fileInfoMessage =
     [CHR 0xE8, CHR 0x8E, CHR 0xB7, CHR 0xE5, CHR 0x8F, CHR 0x96,
      CHR 0xE6, CHR 0x96, CHR 0x87, CHR 0xE4, CHR 0xBB, CHR 0xB6,
      CHR 0xE4, CHR 0xBF, CHR 0xA1, CHR 0xE6, CHR 0x81, CHR 0xAF,
      CHR 0xE6, CHR 0x88, CHR 0x90, CHR 0xE5, CHR 0x8A, CHR 0x9F]"

definition folderCreatedMessage :: string where
  "folderCreatedMessage =
     [CHR 0xE5, CHR 0x88, CHR 0x9B, CHR 0xE5, CHR 0xBB, CHR 0xBA,
      CHR 0xE6, CHR 0x96, CHR 0x87, CHR 0xE4, CHR 0xBB, CHR 0xB6,
      CHR 0xE5, CHR 0xA4, CHR 0xB9, CHR 0xE6, CHR 0x88, CHR 0x90,
      CHR 0xE5, CHR 0x8A, CHR 0x9F]"

definition failure :: "string \<Rightarrow> string \<Rightarrow> StandardResponse" where
  "failure c m = \<lparr>Success = False, Code = c, Message = m, Data = None\<rparr>"

text \<open>
  A number of a decoded answer is a \<open>float64\<close>: the integer that is written, rounded to 53
  significant bits, ties to even.  (A number too large for a \<open>float64\<close> makes the decoding
  of the answer fail; that is an error answer of the environment.)
\<close>

fun bitlen :: "nat \<Rightarrow> nat" where
  "bitlen n = (if n = 0 then 0 else Suc (bitlen (n div 2)))"

declare bitlen.simps [simp del]

definition float64 :: "int \<Rightarrow> int" where
  "float64 n =
     (let a = nat \<bar>n\<bar>;
          e = bitlen a - 53;
          q = a div 2 ^ e;
          r = a mod 2 ^ e;
          q = (if 2 * r > 2 ^ e \<or> (2 * r = 2 ^ e \<and> odd q) then q + 1 else q)
      in sgn n * int (q * 2 ^ e))"

text \<open>The conversion \<open>int64(f)\<close> of a \<open>float64\<close> with an integer value.  Outside the range of
  \<open>int64\<close> the language leaves the result to the implementation; the value given is the one
  of amd64.\<close>

definition toInt64 :: "int \<Rightarrow> int" where
  "toInt64 f = (if - (2 ^ 63) \<le> f \<and> f < 2 ^ 63 then f else - (2 ^ 63))"

text \<open>The type assertions \<open>x.(float64)\<close> (with the zero value when it fails) and
  \<open>x.(string)\<close>.\<close>

definition numOr0 :: "json option \<Rightarrow> int" where
  "numOr0 j = (case j of Some (JNum n) \<Rightarrow> float64 n | _ \<Rightarrow> 0)"

definition strOf :: "json option \<Rightarrow> string option" where
  "strOf j = (case j of Some (JStr v) \<Rightarrow> Some v | _ \<Rightarrow> None)"

definition fidOf :: "(string \<times> goval) list option \<Rightarrow> string option" where
  "fidOf d =
     (case d of
        None \<Rightarrow> None
      | Some kvs \<Rightarrow> (case map_of kvs ''fid'' of Some (GJson (JStr v)) \<Rightarrow> Some v | _ \<Rightarrow> None))"

subsection \<open>listByFid\<close>

definition itemPath :: "env \<Rightarrow> string \<Rightarrow> string \<Rightarrow> string" where
  "itemPath E basePath name =
     (if basePath = ''/'' then ''/'' @ name
      else if basePath \<noteq> [] then normalizePath (filepath_Join E basePath name)
      else [])"

text \<open>The conversion of one element of the page; an element that is not an object is
  skipped.\<close>

definition convertItem :: "env \<Rightarrow> string \<Rightarrow> json \<Rightarrow> QuarkFileInfo list" where
  "convertItem E basePath item =
     (case item of
        JObj itemMap \<Rightarrow>
          (let created = (case map_of itemMap ''created_at'' of
                            Some (JNum t) \<Rightarrow>
                              (toInt64 (float64 t), 0, quot (toInt64 (float64 t)) 1000)
                          | _ \<Rightarrow> (case map_of itemMap ''l_created_at'' of
                                     Some (JNum t) \<Rightarrow>
                                       (0, toInt64 (float64 t), quot (toInt64 (float64 t)) 1000)
                                   | _ \<Rightarrow> (0, 0, 0)));
               updated = (case map_of itemMap ''updated_at'' of
                            Some (JNum t) \<Rightarrow>
                              (toInt64 (float64 t), 0, quot (toInt64 (float64 t)) 1000)
                          | _ \<Rightarrow> (case map_of itemMap ''l_updated_at'' of
                                     Some (JNum t) \<Rightarrow>
                                       (0, toInt64 (float64 t), quot (toInt64 (float64 t)) 1000)
                                   | _ \<Rightarrow> (0, 0, 0)))
           in [\<lparr>Fid = (case strOf (map_of itemMap ''fid'') of Some v \<Rightarrow> v | None \<Rightarrow> []),
                Name = (case strOf (map_of itemMap ''file_name'') of Some v \<Rightarrow> v | None \<Rightarrow> []),
                Path = (case strOf (map_of itemMap ''file_name'') of
                          Some v \<Rightarrow> itemPath E basePath v | None \<Rightarrow> []),
                Size = toInt64 (numOr0 (map_of itemMap ''size'')),
                CreateTime = snd (snd created),
                ModifyTime = snd (snd updated),
                IsDirectory = (case map_of itemMap ''dir'' of
                                 Some (JBool d) \<Rightarrow> d
                               | _ \<Rightarrow> (case map_of itemMap ''file'' of
                                          Some (JBool f) \<Rightarrow> \<not> f | _ \<Rightarrow> False)),
                DownloadURL = [],
                qf_CreatedAt = fst created,
                UpdatedAt = fst updated,
                LCreatedAt = fst (snd created),
                LUpdatedAt = fst (snd updated)\<rparr>])
      | _ \<Rightarrow> [])"

definition convertItems :: "env \<Rightarrow> string \<Rightarrow> json list \<Rightarrow> QuarkFileInfo list" where
  "convertItems E basePath listData = concat (map (convertItem E basePath) listData)"

definition pageSize :: int where
  "pageSize = 50"

definition listRequest :: "string \<Rightarrow> int \<Rightarrow> api_request" where
  "listRequest pdirFid page =
     \<lparr>api_method = ''GET'', api_endpoint = FILE_SORT,
      api_query = [(''uc_param_str'', []), (''pdir_fid'', pdirFid), (''_page'', itoa page),
                   (''_size'', itoa pageSize), (''_fetch_total'', ''1''),
                   (''_fetch_sub_dirs'', ''0''), (''_sort'', ''file_type:asc,updated_at:desc''),
                   (''fetch_all_file'', ''1''), (''fetch_risk_file_name'', ''1'')],
      api_body = None\<rparr>"

definition listed :: "QuarkFileInfo list \<Rightarrow> StandardResponse" where
  "listed allFileList =
     \<lparr>Success = True, Code = ''OK'', Message = listSucceededMessage,
      Data = Some [(''list'', GFiles allFileList)]\<rparr>"

text \<open>
  One turn of the loop \<open>for hasMore { ... }\<close>: the request of a page and what the loop does
  with the answer, which is either to return (every \<open>return\<close> and the two ways of leaving
  the loop) or to go on with the longer list and the next page.
\<close>

datatype page_outcome = Done StandardResponse | More "QuarkFileInfo list"

definition listPage ::
  "env \<Rightarrow> string \<Rightarrow> QuarkFileInfo list \<Rightarrow> string + (string \<times> json) list \<Rightarrow> page_outcome" where
  "listPage E basePath allFileList r =
     (case r of
        Inl err \<Rightarrow> Done (failure ''LIST_REQUEST_ERROR'' (''list request failed: '' @ err))
      | Inr respMap \<Rightarrow>
          (let status = numOr0 (map_of respMap ''status'');
               code = numOr0 (map_of respMap ''code'')
           in if status \<ge> 400 \<or> code \<noteq> 0 then
                Done (failure ''LIST_FAILED''
                  (''list files failed: ''
                    @ (case strOf (map_of respMap ''message'') of Some m \<Rightarrow> m | None \<Rightarrow> [])
                    @ '' (status: '' @ itoa status @ '', code: '' @ itoa code @ '')''))
              else
                (case map_of respMap ''data'' of
                   Some (JObj data) \<Rightarrow>
                     (case map_of data ''list'' of
                        Some (JArr listData) \<Rightarrow>
                          if length listData = 0 then Done (listed allFileList)
                          else
                            (let allFileList = allFileList @ convertItems E basePath listData
                             in if int (length listData) < pageSize then Done (listed allFileList)
                                else
                                  (let hasMore =
                                     (case map_of data ''total'' of
                                        Some (JNum tot) \<Rightarrow>
                                          int (length allFileList) < float64 tot
                                      | _ \<Rightarrow> int (length listData) = pageSize)
                                   in if hasMore then More allFileList
                                      else Done (listed allFileList)))
                      | _ \<Rightarrow> Done (failure ''INVALID_LIST_FORMAT''
                                      ''invalid list format in response''))
                 | _ \<Rightarrow> Done (failure ''INVALID_RESPONSE_FORMAT''
                                 ''invalid response format: data field not found''))))"

text \<open>The loop.  The service decides how many pages there are, so the loop need not end:
  \<open>None\<close> is the run that never returns.\<close>

partial_function (option) listLoop ::
  "env \<Rightarrow> string \<Rightarrow> string \<Rightarrow> QuarkFileInfo list \<Rightarrow> int \<Rightarrow> world
     \<Rightarrow> (StandardResponse \<times> world) option" where
  "listLoop E pdirFid basePath allFileList page w =
     (case makeRequest E (listRequest pdirFid page) w of
        (r, w') \<Rightarrow>
          (case listPage E basePath allFileList r of
             Done resp \<Rightarrow> Some (resp, w')
           | More allFileList' \<Rightarrow> listLoop E pdirFid basePath allFileList' (page + 1) w'))"

definition listByFid ::
  "env \<Rightarrow> string \<Rightarrow> string list \<Rightarrow> world \<Rightarrow> (StandardResponse \<times> world) option" where
  "listByFid E pdirFid parentPath w =
     (let basePath =
        (if length parentPath > 0 \<and> hd parentPath \<noteq> [] then hd parentPath
         else if pdirFid = ''0'' then ''/''
         else [])
      in listLoop E pdirFid basePath [] 1 w)"

subsection \<open>GetFileInfo\<close>

definition rootish :: "string \<Rightarrow> bool" where
  "rootish p \<longleftrightarrow> p = ''/'' \<or> p = [] \<or> p = ''.''"

definition rootInfo :: StandardResponse where
  "rootInfo = \<lparr>Success = True, Code = ''OK'', Message = rootDirectoryMessage,
     Data = Some [(''fid'', GJson (JStr ''0'')), (''file_name'', GJson (JStr [])),
                  (''path'', GJson (JStr ''/'')), (''size'', GJson (JNum 0)),
                  (''dir'', GJson (JBool True)), (''is_directory'', GJson (JBool True))]\<rparr>"

definition leafName :: "string \<Rightarrow> string" where
  "leafName remotePath =
     (let fileName = Base remotePath
      in if fileName = ''.'' \<or> fileName = ''/'' then
           (let parts = Split (Trim remotePath ''/'') (CHR ''/'')
            in if length parts > 0 \<and> last parts \<noteq> [] then last parts else [])
         else fileName)"

definition parentOf :: "string \<Rightarrow> string" where
  "parentOf remotePath =
     (let lastSlash = LastIndex remotePath (CHR ''/'');
          parentPath =
            (if lastSlash = 0 then ''/''
             else if lastSlash > 0 then
               (let parentPath = take (nat lastSlash) remotePath
                in if parentPath = [] then ''/'' else parentPath)
             else ''/'')
      in normalizePath parentPath)"

definition fileFound :: "QuarkFileInfo \<Rightarrow> StandardResponse" where
  "fileFound file =
     \<lparr>Success = True, Code = ''OK'', Message = fileInfoMessage,
      Data = Some [(''fid'', GJson (JStr (Fid file))), (''file_name'', GJson (JStr (Name file))),
                   (''path'', GJson (JStr (Path file))), (''size'', GJson (JNum (Size file))),
                   (''dir'', GJson (JBool (IsDirectory file))),
                   (''ctime'', GJson (JNum (CreateTime file))),
                   (''mtime'', GJson (JNum (ModifyTime file))),
                   (''download_url'', GJson (JStr (DownloadURL file)))]\<rparr>"

text \<open>The loop \<open>for _, file := range fileList { if file.Name == fileName { return ... } }\<close>
  and the return after it.\<close>

fun scanList :: "string \<Rightarrow> string \<Rightarrow> QuarkFileInfo list \<Rightarrow> StandardResponse" where
  "scanList remotePath fileName [] =
     failure ''FILE_NOT_FOUND'' (''file not found: '' @ remotePath)"
| "scanList remotePath fileName (file # fileList) =
     (if Name file = fileName then fileFound file else scanList remotePath fileName fileList)"

text \<open>The second conversion, of a list that arrives as \<open>[]interface{}\<close>: it leaves the four
  millisecond fields at zero.\<close>

definition convertItems2 :: "env \<Rightarrow> string \<Rightarrow> json list \<Rightarrow> QuarkFileInfo list" where
  "convertItems2 E basePath items =
     map (\<lambda>f. f\<lparr>qf_CreatedAt := 0, UpdatedAt := 0, LCreatedAt := 0, LUpdatedAt := 0\<rparr>)
       (convertItems E basePath items)"

definition scanResponse ::
  "env \<Rightarrow> string \<Rightarrow> string \<Rightarrow> string \<Rightarrow> StandardResponse \<Rightarrow> StandardResponse" where
  "scanResponse E remotePath fileName parentPathForList listResp =
     (if \<not> Success listResp then
        failure (Code listResp) (''failed to list directory: '' @ Message listResp)
      else
        (case (case Data listResp of None \<Rightarrow> None | Some d \<Rightarrow> map_of d ''list'') of
           None \<Rightarrow> failure ''INVALID_LIST_DATA'' ''list data not found in response''
         | Some (GFiles fileList) \<Rightarrow> scanList remotePath fileName fileList
         | Some (GJson (JArr items)) \<Rightarrow>
             scanList remotePath fileName (convertItems2 E parentPathForList items)
         | Some _ \<Rightarrow> failure ''INVALID_LIST_FORMAT'' ''list data format is invalid''))"

definition findInParent ::
  "env \<Rightarrow> string \<Rightarrow> string \<Rightarrow> string \<Rightarrow> string \<Rightarrow> world \<Rightarrow> (StandardResponse \<times> world) option"
  where
  "findInParent E remotePath fileName parentFid parentPathForList w =
     (case listByFid E parentFid [parentPathForList] w of
        None \<Rightarrow> None
      | Some (listResp, w) \<Rightarrow>
          Some (scanResponse E remotePath fileName parentPathForList listResp, w))"

lemma length_collapseSlashes: "length (collapseSlashes s) \<le> length s"
proof (induction s rule: collapseSlashes.induct)
  case (1 path)
  show ?case
  proof (cases "Contains path ''//''")
    case True
    have "length (ReplaceAll path ''//'' ''/'') \<le> length path"
      by (rule ReplaceAll_le) simp_all
    then show ?thesis using 1 True by (subst collapseSlashes.simps) simp
  next
    case False
    then show ?thesis by (subst collapseSlashes.simps) simp
  qed
qed

lemma length_normalizePath: "length (normalizePath p) \<le> length p"
proof -
  have a: "length (ReplaceAll p [CHR 0x5C] ''/'') \<le> length p"
    by (rule ReplaceAll_le) simp_all
  have b: "length (collapseSlashes (ReplaceAll p [CHR 0x5C] ''/'')) \<le> length p"
    using length_collapseSlashes [of "ReplaceAll p [CHR 0x5C] ''/''"] a by linarith
  show ?thesis using b by (auto simp: normalizePath_def Let_def TrimSuffix_def)
qed

lemma LastIndexFrom_bound:
  "j < i + int (length s) \<Longrightarrow> LastIndexFrom c s i j < i + int (length s)"
proof (induction s arbitrary: i j)
  case Nil
  then show ?case by simp
next
  case (Cons x xs)
  have "(if x = c then i else j) < (i + 1) + int (length xs)"
    using Cons.prems by auto
  then have "LastIndexFrom c xs (i + 1) (if x = c then i else j) < (i + 1) + int (length xs)"
    by (rule Cons.IH)
  then show ?case by simp
qed

lemma LastIndex_bound: "s \<noteq> [] \<Longrightarrow> LastIndex s c < int (length s)"
  using LastIndexFrom_bound [of "- 1" 0 s c] by (cases s) (auto simp: LastIndex_def)

lemma parentOf_shorter:
  assumes "\<not> rootish (parentOf p)"
  shows "length (parentOf p) < length p"
proof -
  let ?k = "LastIndex p (CHR ''/'')"
  have root: "normalizePath ''/'' = ''/''" by code_simp
  have pos: "0 < ?k"
  proof (rule ccontr)
    assume "\<not> 0 < ?k"
    then have "parentOf p = ''/''" by (auto simp: parentOf_def Let_def root)
    then show False using assms by (simp add: rootish_def)
  qed
  have ne: "p \<noteq> []"
  proof
    assume "p = []"
    then have "?k = - 1" by (simp add: LastIndex_def)
    then show False using pos by simp
  qed
  have lt: "?k < int (length p)" by (rule LastIndex_bound [OF ne])
  have tk: "take (nat ?k) p \<noteq> []" using pos ne by (cases p) auto
  have eq: "parentOf p = normalizePath (take (nat ?k) p)"
    using pos tk by (simp add: parentOf_def Let_def)
  have a: "length (normalizePath (take (nat ?k) p)) \<le> length (take (nat ?k) p)"
    by (rule length_normalizePath)
  have b: "length (take (nat ?k) p) = nat ?k" using lt pos by simp
  have c: "nat ?k < length p" using lt pos by simp
  have "length (normalizePath (take (nat ?k) p)) < length p" using a b c by linarith
  then show ?thesis by (simp only: eq)
qed

text \<open>
  \<open>GetFileInfo\<close>: the root is answered at once; otherwise the parent path is resolved by
  the recursive call and the parent's listing is scanned for the leaf name.
\<close>

function GetFileInfo :: "env \<Rightarrow> string \<Rightarrow> world \<Rightarrow> (StandardResponse \<times> world) option" where
  "GetFileInfo E remotePath0 w =
     (if rootish (normalizePath remotePath0) then Some (rootInfo, w)
      else if rootish (parentOf (normalizePath remotePath0)) then
        findInParent E (normalizePath remotePath0) (leafName (normalizePath remotePath0))
          (normalizeRootDir (parentOf (normalizePath remotePath0))) ''/'' w
      else if parentOf (normalizePath remotePath0) = normalizePath remotePath0 then
        Some (failure ''INVALID_PATH''
                (''invalid path: parent path equals current path: '' @ normalizePath remotePath0), w)
      else
        (case GetFileInfo E (parentOf (normalizePath remotePath0)) w of
           None \<Rightarrow> None
         | Some (parentInfo, w') \<Rightarrow>
             if \<not> Success parentInfo then
               Some (failure (Code parentInfo)
                       (''failed to get parent directory: '' @ Message parentInfo), w')
             else
               (case fidOf (Data parentInfo) of
                  None \<Rightarrow>
                    Some (failure ''INVALID_PARENT_DIRECTORY_INFO''
                            ''parent directory info is invalid: fid not found or empty'', w')
                | Some fid \<Rightarrow>
                    if fid = [] then
                      Some (failure ''INVALID_PARENT_DIRECTORY_INFO''
                              ''parent directory info is invalid: fid not found or empty'', w')
                    else
                      findInParent E (normalizePath remotePath0)
                        (leafName (normalizePath remotePath0)) fid
                        (parentOf (normalizePath remotePath0)) w')))"
  by pat_completeness auto
termination
proof (relation "measure (\<lambda>(E, p, w). length p)")
  show "wf (measure (\<lambda>(E, p, w). length p))" by simp
next
  fix E :: env and remotePath0 :: string and w :: world
  assume "\<not> rootish (parentOf (normalizePath remotePath0))"
  then have "length (parentOf (normalizePath remotePath0)) < length (normalizePath remotePath0)"
    by (rule parentOf_shorter)
  then have "length (parentOf (normalizePath remotePath0)) < length remotePath0"
    using length_normalizePath [of remotePath0] by linarith
  then show "((E, parentOf (normalizePath remotePath0), w), E, remotePath0, w)
               \<in> measure (\<lambda>(E, p, w). length p)"
    by simp
qed

declare GetFileInfo.simps [simp del]

subsection \<open>Facts about the listing and the scan\<close>















lemma convertItems_Nil [simp]: "convertItems E basePath [] = []"
  by (simp add: convertItems_def)























definition pageOf :: "json list \<Rightarrow> (string \<times> json) list" where
  "pageOf listData = [(''status'', JNum 200), (''code'', JNum 0),
                      (''data'', JObj [(''list'', JArr listData)])]"
















section \<open>Folder creation and commit (file.go: CreateFolder, upCommit)\<close>

text \<open>\<open>CreateFolder\<close> returns a nil error on every path; the model returns the response.\<close>

definition CreateFolder :: "env \<Rightarrow> string \<Rightarrow> string \<Rightarrow> world \<Rightarrow> StandardResponse \<times> world" where
  "CreateFolder E folderName pdirFid w =
     (let pdirFid = normalizeRootDir pdirFid;
          data = JObj [(''pdir_fid'', JString pdirFid), (''file_name'', JString folderName),
                       (''dir_path'', JString []), (''dir_init_lock'', JBool False)]
      in case makeRequest E \<lparr>api_method = ''POST'', api_endpoint = CREATE_FOLDER, api_query = [],
                               api_body = Some data\<rparr> w of
           (Inl err, w) \<Rightarrow>
             (failure ''CREATE_FOLDER_REQUEST_ERROR'' (''create folder request failed: '' @ err), w)
         | (Inr respMap, w) \<Rightarrow>
             (case parseFinish respMap of
                Inl err \<Rightarrow>
                  (failure ''CREATE_FOLDER_DECODE_ERROR''
                     (''failed to decode create folder response: '' @ err), w)
              | Inr createResp \<Rightarrow>
                  if fin_Code createResp \<noteq> 0 \<or> fin_Status createResp \<noteq> 200 then
                    (failure ''CREATE_FOLDER_ERROR''
                       (''create folder failed: code='' @ itoa (fin_Code createResp)
                        @ '', status='' @ itoa (fin_Status createResp)), w)
                  else
                    (\<lparr>Success = True, Code = ''OK'', Message = folderCreatedMessage,
                      Data = map_option (map (\<lambda>(k, v). (k, GJson v))) (fin_Data createResp)\<rparr>,
                     w)))"

record OSSCommitHeaderBuilder =
  cb_AuthKey :: string
  ContentMD5 :: string
  cb_Callback :: string
  cb_Timestamp :: string

definition BuildCommitHeaders :: "OSSCommitHeaderBuilder \<Rightarrow> http_request \<Rightarrow> http_request" where
  "BuildCommitHeaders b req =
     req\<lparr>req_header :=
       Header_Set ''x-oss-user-agent'' oss_user_agent
         (Header_Set ''x-oss-date'' (cb_Timestamp b)
           (Header_Set ''x-oss-callback'' (cb_Callback b)
             (Header_Set ''Referer'' ''https://pan.quark.cn/''
               (Header_Set ''Content-Type'' ''application/xml''
                 (Header_Set ''Content-MD5'' (ContentMD5 b)
                   (Header_Set ''Authorization'' (cb_AuthKey b) (req_header req)))))))\<rparr>"

definition commitXml :: "string list \<Rightarrow> string" where
  "commitXml etags =
     ''<CompleteMultipartUpload>''
     @ concat (map (\<lambda>(i, etag). ''<Part><PartNumber>'' @ itoa (int i + 1)
                                  @ ''</PartNumber><ETag>'' @ etag @ ''</ETag></Part>'')
                 (enumerate 0 etags))
     @ ''</CompleteMultipartUpload>''"

text \<open>\<open>base64_json\<close> is the base64 text that \<open>upCommit\<close> derives from the callback blob.\<close>

definition upCommit ::
  "env \<Rightarrow> PreUploadResponse \<Rightarrow> string list \<Rightarrow> world \<Rightarrow> (string + FinishResponse) \<times> world" where
  "upCommit E pre etags w =
     (let xmlBody = commitXml etags;
          contentMD5 = md5_base64 E xmlBody;
          callbackB64 = base64_json E (pre_Callback pre);
          now = http_date E w;
          authMeta = ''POST'' @ [CHR 0x0A] @ contentMD5 @ [CHR 0x0A] @ ''application/xml''
            @ [CHR 0x0A] @ now @ [CHR 0x0A] @ ''x-oss-callback:'' @ callbackB64 @ [CHR 0x0A]
            @ ''x-oss-date:'' @ now @ [CHR 0x0A]
            @ ''x-oss-user-agent:'' @ oss_user_agent @ [CHR 0x0A]
            @ ''/'' @ pre_Bucket pre @ ''/'' @ pre_ObjKey pre @ ''?uploadId='' @ pre_UploadID pre
      in case getOSSAuthKey E authMeta (pre_AuthInfo pre) (pre_TaskID pre) w of
           (Inl err, w) \<Rightarrow> (Inl err, w)
         | (Inr authKey, w) \<Rightarrow>
             (case url_error E (uploadURL pre) of
                Some e \<Rightarrow>
                  (Inl (''failed to create commit request: create request failed: '' @ e), w)
              | None \<Rightarrow>
                  (let req = BuildCommitHeaders
                         \<lparr>cb_AuthKey = authKey, ContentMD5 = contentMD5,
                          cb_Callback = callbackB64, cb_Timestamp = now\<rparr>
                         \<lparr>req_method = ''POST'', req_url = uploadURL pre, req_query = [],
                          req_header = [], req_body = xmlBody\<rparr>;
                       req = req\<lparr>req_query :=
                               mapassign ''uploadId'' (pre_UploadID pre) (req_query req)\<rparr>
                   in case http_Do E req w of
                        (Inl err, w) \<Rightarrow> (Inl (''failed to commit upload: '' @ err), w)
                      | (Inr commitResp, w) \<Rightarrow>
                          if StatusCode commitResp \<ge> 400 then
                            (Inl (''commit upload failed with status ''
                                  @ itoa (StatusCode commitResp) @ '': ''
                                  @ resp_body commitResp), w)
                          else
                            (case resp_body_error commitResp of
                               Some e \<Rightarrow> (Inl (''failed to read commit response: '' @ e), w)
                             | None \<Rightarrow>
                                 if StatusCode commitResp = 200 then
                                   (Inr \<lparr>fin_Code = 0, fin_Status = 200, fin_Data = Some []\<rparr>, w)
                                 else
                                   (Inl (''commit upload failed with status ''
                                         @ itoa (StatusCode commitResp) @ '': ''
                                         @ resp_body commitResp), w)))))"

section \<open>Upload (file.go: UploadFile)\<close>

subsection \<open>Destination directory\<close>

text \<open>
  The loop over the components of the destination directory.  \<open>GetFileInfo\<close> and
  \<open>CreateFolder\<close> return a nil error and a response, so \<open>needCreatePath\<close> is the test on the
  response.  The result is the response of an early return or \<open>lastCreatedFid\<close>.
\<close>

fun createDirs ::
  "env \<Rightarrow> string list \<Rightarrow> string \<Rightarrow> string \<Rightarrow> world
     \<Rightarrow> ((StandardResponse + string) \<times> world) option" where
  "createDirs E [] currentPath lastCreatedFid w = Some (Inr lastCreatedFid, w)"
| "createDirs E (part # parts) currentPath lastCreatedFid w =
     (if part = [] then createDirs E parts currentPath lastCreatedFid w
      else
        (let currentPath =
               normalizePath (if currentPath = [] then ''/'' @ part
                              else currentPath @ ''/'' @ part)
         in case GetFileInfo E currentPath w of
              None \<Rightarrow> None
            | Some (checkInfo, w) \<Rightarrow>
                if \<not> Success checkInfo \<and> Code checkInfo = ''FILE_NOT_FOUND'' then
                  (let parentPathForCreate =
                         (if currentPath \<noteq> ''/'' \<and> currentPath \<noteq> []
                             \<and> LastIndex currentPath (CHR ''/'') > 0
                          then normalizePath
                                 (take (nat (LastIndex currentPath (CHR ''/''))) currentPath)
                          else ''/'')
                   in case CreateFolder E part parentPathForCreate w of
                        (createResp, w) \<Rightarrow>
                          if \<not> Success createResp then
                            Some (Inl (failure ''CREATE_DIRECTORY_ERROR''
                                         (''failed to create directory '' @ currentPath @ '': ''
                                          @ Message createResp)), w)
                          else
                            createDirs E parts currentPath
                              (case fidOf (Data createResp) of
                                 Some fid \<Rightarrow> if fid \<noteq> [] then fid else lastCreatedFid
                               | None \<Rightarrow> lastCreatedFid) w)
                else createDirs E parts currentPath lastCreatedFid w))"

definition dirFid :: "StandardResponse \<Rightarrow> StandardResponse + string" where
  "dirFid destDirInfo =
     (if \<not> Success destDirInfo then
        Inl (failure (Code destDirInfo)
               (''failed to get destination directory: '' @ Message destDirInfo))
      else
        (case fidOf (Data destDirInfo) of
           None \<Rightarrow> Inl (failure ''INVALID_DIRECTORY_INFO''
                         ''destination directory info is invalid: fid not found or empty'')
         | Some fid \<Rightarrow>
             if fid = [] then
               Inl (failure ''INVALID_DIRECTORY_INFO''
                      ''destination directory info is invalid: fid not found or empty'')
             else Inr fid))"

text \<open>The resolution of the destination directory to its identifier, with the creation of
  what is missing: the response of an early return, or the identifier.\<close>

definition ensureDestDir ::
  "env \<Rightarrow> string \<Rightarrow> world \<Rightarrow> ((StandardResponse + string) \<times> world) option" where
  "ensureDestDir E destDirPath w =
     (if destDirPath \<noteq> ''/'' \<and> destDirPath \<noteq> [] \<and> destDirPath \<noteq> ''.'' then
        (case GetFileInfo E destDirPath w of
           None \<Rightarrow> None
         | Some (destDirInfo, w) \<Rightarrow>
             if \<not> Success destDirInfo \<and> Code destDirInfo = ''FILE_NOT_FOUND'' then
               (case createDirs E (Split (Trim destDirPath ''/'') (CHR ''/'')) [] [] w of
                  None \<Rightarrow> None
                | Some (Inl resp, w) \<Rightarrow> Some (Inl resp, w)
                | Some (Inr lastCreatedFid, w) \<Rightarrow>
                    if lastCreatedFid \<noteq> [] then
                      Some (dirFid \<lparr>Success = True, Code = ''OK'', Message = ''Directory created'',
                                    Data = Some [(''fid'', GJson (JStr lastCreatedFid))]\<rparr>, w)
                    else
                      (case GetFileInfo E destDirPath w of
                         None \<Rightarrow> None
                       | Some (destDirInfo, w) \<Rightarrow> Some (dirFid destDirInfo, w)))
             else Some (dirFid destDirInfo, w))
      else Some (Inr ''0'', w))"

subsection \<open>Destination names\<close>

text \<open>The destination path with the file name, the file name, and the directory of the
  destination (the lines of \<open>UploadFile\<close> before the resolution of the directory).\<close>

definition destNames :: "string \<Rightarrow> string \<Rightarrow> string \<times> string \<times> string" where
  "destNames destPath0 localFileName =
     (let destPath = normalizePath destPath0;
          (destPath, destFileName) =
            (if HasSuffix destPath ''/'' \<or> Base destPath = [] \<or> Base destPath = ''.''
             then (TrimSuffix destPath ''/'' @ ''/'' @ localFileName, localFileName)
             else (destPath, Base destPath));
          destDirPath =
            (if destPath = ''/'' \<or> destPath = [] then ''/''
             else
               (let lastSlash = LastIndex destPath (CHR ''/'')
                in if lastSlash = 0 then ''/''
                   else if lastSlash > 0 then take (nat lastSlash) destPath
                   else ''/''))
      in (destPath, destFileName, normalizePath destDirPath))"

definition getUploadStatePath :: "env \<Rightarrow> string \<Rightarrow> string \<Rightarrow> string" where
  "getUploadStatePath E filePath destPath =
     (let hashStr = md5_hex E (filePath @ ''|'' @ destPath);
          stateDir = filepath_Join E (temp_dir E) ''kuake_upload_state''
      in filepath_Join E stateDir (hashStr @ ''.json''))"

subsection \<open>Resumed session\<close>

text \<open>
  The check of a stored session at the start of the upload: the session to resume (if
  one is trusted) and the store as the check leaves it.
\<close>

definition resumeSession ::
  "string \<Rightarrow> string \<Rightarrow> int \<Rightarrow> string \<Rightarrow> store \<Rightarrow> UploadState option \<times> store" where
  "resumeSession filePath destPath fileSize statePath st =
     (case loadUploadState st statePath of
        Inr state \<Rightarrow>
          if FilePath state = filePath \<and> DestPath state = destPath \<and> FileSize state = fileSize
          then (Some state, st)
          else (None, deleteUploadState statePath st)
      | Inl loadErr \<Rightarrow> (None, st))"

definition preOfState :: "UploadState \<Rightarrow> PreUploadResponse" where
  "preOfState state =
     \<lparr>pre_Code = 0, pre_Status = 200, pre_TaskID = TaskID state, pre_Bucket = Bucket state,
      pre_ObjKey = ObjKey state, pre_UploadID = UploadID state, pre_UploadURL = UploadURL state,
      pre_AuthInfo = AuthInfo state, pre_Callback = Callback state,
      pre_PartSize = PartSize state\<rparr>"

subsection \<open>Recorded parts\<close>

definition maxPartOf :: "(int \<times> string) list \<Rightarrow> int" where
  "maxPartOf parts = foldl (\<lambda>maxPart (partNum, etag). if partNum > maxPart then partNum else maxPart)
                       0 parts"

text \<open>The loop \<open>for i := 1; i <= maxPart; i++\<close> that collects the ETags up to the first gap;
  the result is \<open>etags\<close> and \<open>startPartNumber\<close>.\<close>

function fillParts ::
  "(int \<times> string) list \<Rightarrow> int \<Rightarrow> int \<Rightarrow> string list \<Rightarrow> int \<Rightarrow> string list \<times> int" where
  "fillParts parts i maxPart etags startPartNumber =
     (if i \<le> maxPart then
        (case map_of parts i of
           Some etag \<Rightarrow> fillParts parts (i + 1) maxPart (etags @ [etag]) (i + 1)
         | None \<Rightarrow> (etags, i))
      else (etags, startPartNumber))"
  by pat_completeness auto
termination
  by (relation "measure (\<lambda>(parts, i, maxPart, etags, s). nat (maxPart + 1 - i))") auto

declare fillParts.simps [simp del]

definition restoreParts :: "UploadState \<Rightarrow> string list \<times> int" where
  "restoreParts savedState =
     (let parts = (case UploadedParts savedState of None \<Rightarrow> [] | Some m \<Rightarrow> m)
      in fillParts parts 1 (maxPartOf parts) [] 1)"

subsection \<open>Transfer\<close>

datatype outcome = Returned StandardResponse "string option" | Panicked string

text \<open>What stays fixed during the transfer.\<close>

record upload_ctx =
  c_file :: local_file
  c_pre :: PreUploadResponse
  c_mimeType :: string
  c_filePath :: string
  c_destPath :: string
  c_fileSize :: int
  c_statePath :: string
  c_useSavedState :: bool
  c_callback :: bool

text \<open>What changes: the read position, the part number, the ETags, the session object,
  the log and the store.\<close>

record xfer =
  x_pos :: int
  x_partNumber :: int
  x_etags :: "string list"
  x_savedState :: "UploadState option"
  x_log :: world
  x_store :: store

definition newState :: "upload_ctx \<Rightarrow> UploadState" where
  "newState c =
     \<lparr>FilePath = c_filePath c, DestPath = c_destPath c, FileSize = c_fileSize c,
      UploadID = pre_UploadID (c_pre c), TaskID = pre_TaskID (c_pre c),
      Bucket = pre_Bucket (c_pre c), ObjKey = pre_ObjKey (c_pre c),
      UploadURL = pre_UploadURL (c_pre c), PartSize = pre_PartSize (c_pre c),
      UploadedParts = Some [], MimeType = c_mimeType c, AuthInfo = pre_AuthInfo (c_pre c),
      Callback = pre_Callback (c_pre c), HashCtx = None, CreatedAt = zeroTime\<rparr>"

text \<open>\<open>savedState.UploadedParts[k] = etag\<close>: an assignment to an entry of a nil map panics
  (\<open>None\<close>).\<close>

definition assignPart :: "int \<Rightarrow> string \<Rightarrow> UploadState \<Rightarrow> UploadState option" where
  "assignPart k etag state =
     (case UploadedParts state of
        None \<Rightarrow> None
      | Some m \<Rightarrow> Some (state\<lparr>UploadedParts := Some (mapassign k etag m)\<rparr>))"

fun assignParts :: "(nat \<times> string) list \<Rightarrow> UploadState \<Rightarrow> UploadState option" where
  "assignParts [] state = Some state"
| "assignParts ((i, etag) # rest) state =
     (case assignPart (int i + 1) etag state of
        None \<Rightarrow> None
      | Some state \<Rightarrow> assignParts rest state)"

text \<open>The state at hand when a part has failed: a new one unless a session is resumed.\<close>

definition stateAtHand :: "upload_ctx \<Rightarrow> xfer \<Rightarrow> UploadState" where
  "stateAtHand c x =
     (if \<not> c_useSavedState c then newState c
      else (case x_savedState x of Some state \<Rightarrow> state | None \<Rightarrow> newState c))"

text \<open>The block that saves the progress before an error return.\<close>

definition saveProgress ::
  "env \<Rightarrow> upload_ctx \<Rightarrow> xfer \<Rightarrow> world \<Rightarrow> StandardResponse \<Rightarrow> outcome \<times> world \<times> store" where
  "saveProgress E c x w resp =
     (case assignParts (enumerate 0 (x_etags x)) (stateAtHand c x) of
        None \<Rightarrow> (Panicked ''assignment to entry in nil map'', w, x_store x)
      | Some state \<Rightarrow>
          (Returned resp None, w,
           snd (saveUploadState (json_lib E) (time_Now E w) (c_statePath c) state (x_store x))))"

definition stripPreview :: "(string \<times> json) list option \<Rightarrow> (string \<times> goval) list" where
  "stripPreview d =
     map (\<lambda>(k, v). (k, GJson v)) (filter (\<lambda>(k, v). k \<noteq> ''preview_url'') (members d))"

text \<open>The message of a finished upload: the UTF-8 bytes of its four Chinese characters.\<close>

definition uploadCompleteMessage :: string where
  "uploadCompleteMessage =
     [CHR 0xE4, CHR 0xB8, CHR 0x8A, CHR 0xE4, CHR 0xBC, CHR 0xA0,
      CHR 0xE5, CHR 0xAE, CHR 0x8C, CHR 0xE6, CHR 0x88, CHR 0x90]"

definition uploadDone :: "FinishResponse \<Rightarrow> StandardResponse" where
  "uploadDone finish =
     \<lparr>Success = True, Code = ''OK'', Message = uploadCompleteMessage,
      Data = Some (stripPreview (fin_Data finish))\<rparr>"

text \<open>After the loop: commit, finish, removal of the session record.\<close>

definition commitAndFinish :: "env \<Rightarrow> upload_ctx \<Rightarrow> xfer \<Rightarrow> outcome \<times> world \<times> store" where
  "commitAndFinish E c x =
     (case upCommit E (c_pre c) (x_etags x) (x_log x) of
        (Inl err, w) \<Rightarrow>
          (Returned (failure ''COMMIT_UPLOAD_ERROR'' (''commit upload failed: '' @ err)) None,
           w, x_store x)
      | (Inr finish, w) \<Rightarrow>
          if fin_Code finish = 0 \<and> fin_Status finish = 200 then
            (case upFinish E (c_pre c) w of
               (Inl err, w) \<Rightarrow>
                 (Returned (failure ''FINISH_UPLOAD_ERROR'' (''finish upload failed: '' @ err))
                    None, w, x_store x)
             | (Inr finishResp, w) \<Rightarrow>
                 if fin_Code finishResp \<noteq> 0 \<or> fin_Status finishResp \<noteq> 200 then
                   (Returned (failure ''FINISH_UPLOAD_ERROR''
                      (''finish upload failed: code='' @ itoa (fin_Code finishResp)
                       @ '', status='' @ itoa (fin_Status finishResp))) None, w, x_store x)
                 else
                   (Returned (uploadDone finishResp) None, w,
                    deleteUploadState (c_statePath c) (x_store x)))
          else
            (Returned (failure ''COMMIT_UPLOAD_ERROR''
               (''commit upload failed: code='' @ itoa (fin_Code finish)
                @ '', status='' @ itoa (fin_Status finish))) None, w, x_store x))"

text \<open>
  One turn of the loop \<open>for { ... }\<close>: it ends the upload (a return or a panic), leaves
  the loop, or goes on with the next part.  \<open>make([]byte, partSize)\<close> panics on a negative
  length and on one above the limit of the allocator.
\<close>

datatype step = Stop outcome world store | Leave | Continue xfer

text \<open>The largest allocation that the runtime admits (on 64-bit Linux).  An allocation below
  it that the system cannot satisfy ends the program with a fatal error, which the model
  does not have.\<close>

definition maxAlloc :: int where
  "maxAlloc = 2 ^ 48"

definition transferStep :: "env \<Rightarrow> upload_ctx \<Rightarrow> xfer \<Rightarrow> step" where
  "transferStep E c x =
     (let partSize = pre_PartSize (c_pre c)
      in if partSize < 0 \<or> partSize > maxAlloc then
           Stop (Panicked ''makeslice: len out of range'') (x_log x) (x_store x)
         else
           (case file_Read (c_file c) (x_pos x) partSize of
              ReadEOF \<Rightarrow> Leave
            | ReadErr err \<Rightarrow>
                (case saveProgress E c x (x_log x)
                        (failure ''READ_FILE_ERROR'' (''failed to read file chunk: '' @ err)) of
                   (out, w, st) \<Rightarrow> Stop out w st)
            | ReadData chunk \<Rightarrow>
                if length chunk = 0 then Leave
                else
                  (case upPart E (c_pre c) (c_mimeType c) (x_partNumber x) chunk (x_log x) of
                     (Inl err, w) \<Rightarrow>
                       (case saveProgress E c x w
                               (failure ''UPLOAD_PART_ERROR''
                                  (''failed to upload part '' @ itoa (x_partNumber x) @ '': ''
                                   @ err)) of
                          (out, w, st) \<Rightarrow> Stop out w st)
                   | (Inr etag, w) \<Rightarrow>
                       (case assignPart (x_partNumber x) etag (stateAtHand c x) of
                          None \<Rightarrow> Stop (Panicked ''assignment to entry in nil map'') w (x_store x)
                        | Some state \<Rightarrow>
                            (case saveUploadState (json_lib E) (time_Now E w) (c_statePath c) state
                                    (x_store x) of
                               (state, st) \<Rightarrow>
                                 (let uploaded = x_partNumber x * partSize;
                                      uploaded = (if uploaded > c_fileSize c then c_fileSize c
                                                  else uploaded);
                                      w = (if c_callback c
                                           then w @ [EProgress uploaded (c_fileSize c)] else w)
                                  in Continue
                                       \<lparr>x_pos = x_pos x + int (length chunk),
                                        x_partNumber = x_partNumber x + 1,
                                        x_etags = x_etags x @ [etag],
                                        x_savedState = Some state,
                                        x_log = w, x_store = st\<rparr>))))))"

text \<open>The loop.  The file decides how often \<open>Read\<close> delivers data: \<open>None\<close> is the run that
  never returns.\<close>

partial_function (option) transferLoop ::
  "env \<Rightarrow> upload_ctx \<Rightarrow> xfer \<Rightarrow> (outcome \<times> world \<times> store) option" where
  "transferLoop E c x =
     (case transferStep E c x of
        Stop out w st \<Rightarrow> Some (out, w, st)
      | Leave \<Rightarrow> Some (commitAndFinish E c x)
      | Continue x' \<Rightarrow> transferLoop E c x')"

subsection \<open>Negotiation\<close>

text \<open>
  The hash check.  When it fails on a resumed session the session record is removed, a new
  upload is negotiated and the hash is submitted again.  The result is the response of an
  early return, or the negotiated upload, the answer of the hash check and \<open>useSavedState\<close>.
\<close>

definition hashCheck ::
  "env \<Rightarrow> string \<Rightarrow> string \<Rightarrow> int \<Rightarrow> string \<Rightarrow> string \<Rightarrow> string \<Rightarrow> string
     \<Rightarrow> PreUploadResponse \<Rightarrow> bool \<Rightarrow> world \<Rightarrow> store
     \<Rightarrow> (StandardResponse \<times> world \<times> store)
        + (PreUploadResponse \<times> HashResponse \<times> bool \<times> world \<times> store)" where
  "hashCheck E destFileName mimeType fileSize destDirFid statePath md5Sum sha1Sum pre
     useSavedState w st =
     (case upHash E md5Sum sha1Sum (pre_TaskID pre) w of
        (Inr hashResp, w) \<Rightarrow> Inr (pre, hashResp, useSavedState, w, st)
      | (Inl err, w) \<Rightarrow>
          if useSavedState then
            (let st = deleteUploadState statePath st
             in case upPre E destFileName mimeType fileSize destDirFid w of
                  (Inl err, w) \<Rightarrow>
                    Inl (failure ''PRE_UPLOAD_ERROR'' (''pre-upload failed: '' @ err), w, st)
                | (Inr pre, w) \<Rightarrow>
                    (case upHash E md5Sum sha1Sum (pre_TaskID pre) w of
                       (Inl err, w) \<Rightarrow>
                         Inl (failure ''HASH_VERIFICATION_ERROR''
                                (''hash verification failed: '' @ err), w, st)
                     | (Inr hashResp, w) \<Rightarrow> Inr (pre, hashResp, False, w, st)))
          else
            Inl (failure ''HASH_VERIFICATION_ERROR'' (''hash verification failed: '' @ err),
                 w, st))"

text \<open>The service holds the content already (\<open>hashResp.Data.Finish\<close>).\<close>

definition instantUpload ::
  "env \<Rightarrow> bool \<Rightarrow> PreUploadResponse \<Rightarrow> int \<Rightarrow> string \<Rightarrow> world \<Rightarrow> store
     \<Rightarrow> outcome \<times> world \<times> store" where
  "instantUpload E callback pre fileSize statePath w st =
     (case upFinish E pre w of
        (Inl err, w) \<Rightarrow>
          (Returned (failure ''FINISH_UPLOAD_ERROR'' (''finish upload failed: '' @ err)) None,
           w, st)
      | (Inr finish, w) \<Rightarrow>
          if fin_Code finish \<noteq> 0 \<or> fin_Status finish \<noteq> 200 then
            (Returned (failure ''FINISH_UPLOAD_ERROR''
               (''finish upload failed: code='' @ itoa (fin_Code finish)
                @ '', status='' @ itoa (fin_Status finish))) None, w, st)
          else
            (Returned (uploadDone finish) None,
             (if callback then w @ [EProgress fileSize fileSize] else w),
             deleteUploadState statePath st))"

text \<open>The parts on record, the position to read from, and the loop.\<close>

definition startTransfer ::
  "env \<Rightarrow> upload_ctx \<Rightarrow> UploadState option \<Rightarrow> world \<Rightarrow> store
     \<Rightarrow> (outcome \<times> world \<times> store) option" where
  "startTransfer E c savedState w st =
     (let partSize = pre_PartSize (c_pre c);
          (etags, startPartNumber) =
            (case savedState of
               Some state \<Rightarrow> if c_useSavedState c then restoreParts state else ([], 1)
             | None \<Rightarrow> ([], 1));
          skipBytes = (if c_useSavedState c \<and> startPartNumber > 1
                       then (startPartNumber - 1) * partSize else 0);
          pos = (if skipBytes > 0 then skipBytes else 0)
      in transferLoop E c
           \<lparr>x_pos = pos, x_partNumber = startPartNumber, x_etags = etags,
            x_savedState = savedState, x_log = w, x_store = st\<rparr>)"

text \<open>From the negotiation (or the resumed session) to the end.\<close>

definition negotiate ::
  "env \<Rightarrow> bool \<Rightarrow> local_file \<Rightarrow> string \<Rightarrow> string \<Rightarrow> string \<Rightarrow> int \<Rightarrow> string \<Rightarrow> string
     \<Rightarrow> string \<Rightarrow> UploadState option \<Rightarrow> world \<Rightarrow> store
     \<Rightarrow> (outcome \<times> world \<times> store) option" where
  "negotiate E callback file filePath destPath destFileName fileSize destDirFid mimeType
     statePath savedState w st =
     (case (case savedState of
              Some state \<Rightarrow> (Inr (preOfState state), w)
            | None \<Rightarrow> upPre E destFileName mimeType fileSize destDirFid w) of
        (Inl err, w) \<Rightarrow>
          Some (Returned (failure ''PRE_UPLOAD_ERROR'' (''pre-upload failed: '' @ err)) None,
                w, st)
      | (Inr pre, w) \<Rightarrow>
          (case file_Copy file of
             Inl err \<Rightarrow>
               Some (Returned (failure ''CALCULATE_HASH_ERROR''
                                 (''failed to calculate hash: '' @ err)) None, w, st)
           | Inr content \<Rightarrow>
               (case hashCheck E destFileName mimeType fileSize destDirFid statePath
                       (md5_hex E content) (sha1_hex E content) pre (savedState \<noteq> None) w st of
                  Inl (resp, w, st) \<Rightarrow> Some (Returned resp None, w, st)
                | Inr (pre, hashResp, useSavedState, w, st) \<Rightarrow>
                    if hash_Finish hashResp then
                      Some (instantUpload E callback pre fileSize statePath w st)
                    else
                      startTransfer E
                        \<lparr>c_file = file, c_pre = pre, c_mimeType = mimeType,
                         c_filePath = filePath, c_destPath = destPath, c_fileSize = fileSize,
                         c_statePath = statePath, c_useSavedState = useSavedState,
                         c_callback = callback\<rparr>
                        savedState w st)))"

definition mimeTypeOf :: "env \<Rightarrow> string \<Rightarrow> string" where
  "mimeTypeOf E destFileName =
     (let mimeType = mime_TypeByExtension E (Ext destFileName)
      in if mimeType = [] then ''application/octet-stream'' else mimeType)"

text \<open>The upload once the destination directory is resolved to \<open>destDirFid\<close>: the MIME type,
  the session check, and the rest.\<close>

definition uploadTo ::
  "env \<Rightarrow> bool \<Rightarrow> local_file \<Rightarrow> string \<Rightarrow> string \<Rightarrow> string \<Rightarrow> int \<Rightarrow> string \<Rightarrow> world
     \<Rightarrow> store \<Rightarrow> (outcome \<times> world \<times> store) option" where
  "uploadTo E callback file filePath destPath destFileName fileSize destDirFid w st =
     (let mimeType = mimeTypeOf E destFileName;
          statePath = getUploadStatePath E filePath destPath
      in case resumeSession filePath destPath fileSize statePath st of
           (savedState, st) \<Rightarrow>
             negotiate E callback file filePath destPath destFileName fileSize destDirFid
               mimeType statePath savedState w st)"

text \<open>
  \<open>UploadFile\<close>.  \<open>callback\<close> says whether a progress callback is given; its calls are events
  of the log.  The result is \<open>None\<close> when a loop of the function does not end.
\<close>

definition UploadFile ::
  "env \<Rightarrow> bool \<Rightarrow> string \<Rightarrow> string \<Rightarrow> world \<Rightarrow> store
     \<Rightarrow> (outcome \<times> world \<times> store) option" where
  "UploadFile E callback filePath destPath0 w st =
     (case os_Open E filePath of
        Inl err \<Rightarrow>
          Some (Returned (failure ''FILE_OPEN_ERROR'' (''failed to open file: '' @ err)) None,
                w, st)
      | Inr file \<Rightarrow>
          (case file_Stat file of
             Inl err \<Rightarrow>
               Some (Returned (failure ''FILE_INFO_ERROR''
                                 (''failed to get file info: '' @ err)) None, w, st)
           | Inr (fileSize, localFileName) \<Rightarrow>
               (case destNames destPath0 localFileName of
                  (destPath, destFileName, destDirPath) \<Rightarrow>
                    (case ensureDestDir E destDirPath w of
                       None \<Rightarrow> None
                     | Some (Inl resp, w) \<Rightarrow> Some (Returned resp None, w, st)
                     | Some (Inr destDirFid, w) \<Rightarrow>
                         uploadTo E callback file filePath destPath destFileName fileSize
                           destDirFid w st))))"

declare listLoop.simps [code]
declare transferLoop.simps [code]

section \<open>Uploads against concrete services\<close>

subsection \<open>A service with an empty tree\<close>

text \<open>
  The folders the log says were created: the parent sent, the name sent, and the identifier
  the service returned.
\<close>

definition createdDirs :: "event list \<Rightarrow> (string \<times> string \<times> string) list" where
  "createdDirs log = concat (map (\<lambda>e.
     case e of
       EApi rq (Inr resp) \<Rightarrow>
         (if api_endpoint rq = CREATE_FOLDER then
            (case (api_body rq, map_of resp ''data'') of
               (Some (JObj b), Some (JObj d)) \<Rightarrow>
                 (case (map_of b ''pdir_fid'', map_of b ''file_name'', map_of d ''fid'') of
                    (Some (JStr p), Some (JStr n), Some (JStr f)) \<Rightarrow> [(p, n, f)]
                  | _ \<Rightarrow> [])
             | _ \<Rightarrow> [])
          else [])
     | _ \<Rightarrow> []) log)"

text \<open>
  A service that starts from an empty tree and answers from the log: a listing gives the
  folders created under the identifier asked for; a creation returns a fresh identifier
  (\<open>F1\<close>, \<open>F2\<close>, ...), and, when \<open>strict\<close>, only under \<open>0\<close> or an identifier it has returned;
  the upload endpoints are closed.
\<close>

definition treeReply :: "bool \<Rightarrow> event list \<Rightarrow> api_request \<Rightarrow> string + (string \<times> json) list"
  where
  "treeReply strict log rq =
     (if api_endpoint rq = FILE_SORT then
        (let pdir = (case map_of (api_query rq) ''pdir_fid'' of Some p \<Rightarrow> p | None \<Rightarrow> [])
         in Inr (pageOf (map (\<lambda>(p, n, f). JObj [(''fid'', JStr f), (''file_name'', JStr n),
                                                 (''dir'', JBool True)])
                           (filter (\<lambda>(p, n, f). p = pdir) (createdDirs log)))))
      else if api_endpoint rq = CREATE_FOLDER then
        (case api_body rq of
           Some (JObj b) \<Rightarrow>
             (case map_of b ''pdir_fid'' of
                Some (JStr p) \<Rightarrow>
                  if strict \<and> p \<noteq> ''0'' \<and> p \<notin> set (map (\<lambda>(p, n, f). f) (createdDirs log))
                  then Inl ''status 404: parent folder not found''
                  else Inr [(''status'', JNum 200), (''code'', JNum 0),
                            (''data'', JObj [(''fid'', JStr (''F'' @ itoa (1 + int (length (createdDirs log)))))])]
              | _ \<Rightarrow> Inl ''status 400: bad request'')
         | _ \<Rightarrow> Inl ''status 400: bad request'')
      else Inl ''status 503: upload service closed'')"

text \<open>A local file of three bytes.\<close>

definition fileBin :: local_file where
  "fileBin = \<lparr>file_Stat = Inr (3, ''file.bin''), file_Copy = Inr ''abc'',
     file_Read = (\<lambda>pos n. if pos < 3 then ReadData (take (nat n) (drop (nat pos) ''abc''))
                           else ReadEOF)\<rparr>"

definition envTree :: "bool \<Rightarrow> env" where
  "envTree strict = env409\<lparr>api_reply := treeReply strict, os_Open := (\<lambda>p. Inr fileBin)\<rparr>"

text \<open>The POST requests of a log: endpoint, \<open>file_name\<close> and \<open>pdir_fid\<close> of the body.\<close>

definition strField :: "(string \<times> json) list \<Rightarrow> string \<Rightarrow> string" where
  "strField b k = (case map_of b k of Some (JStr v) \<Rightarrow> v | _ \<Rightarrow> [])"

definition posts :: "event list \<Rightarrow> (string \<times> string \<times> string) list" where
  "posts log = concat (map (\<lambda>e.
     case e of
       EApi rq r \<Rightarrow>
         (if api_method rq = ''POST'' then
            (case api_body rq of
               Some (JObj b) \<Rightarrow>
                 [(api_endpoint rq, strField b ''file_name'', strField b ''pdir_fid'')]
             | _ \<Rightarrow> [(api_endpoint rq, [], [])])
          else [])
     | _ \<Rightarrow> []) log)"

lemma upload_new_deep_dir_lenient:
  "map_option (\<lambda>(out, log, st). (out, posts log, createdDirs log))
     (UploadFile (envTree False) False ''/local/file.bin'' ''/new/deep/dir/file.bin'' [] Map.empty)
   = Some (Returned (failure ''PRE_UPLOAD_ERROR''
             ''pre-upload failed: pre-upload request failed: status 503: upload service closed'')
             None,
           [(CREATE_FOLDER, ''new'', ''0''), (CREATE_FOLDER, ''deep'', ''/new''),
            (CREATE_FOLDER, ''dir'', ''/new/deep''), (FILE_UPLOAD_PRE, ''file.bin'', ''F3'')],
           [(''0'', ''new'', ''F1''), (''/new'', ''deep'', ''F2''),
            (''/new/deep'', ''dir'', ''F3'')])"
  by code_simp

lemma upload_new_deep_dir_strict:
  "map_option (\<lambda>(out, log, st). (out, posts log, createdDirs log))
     (UploadFile (envTree True) False ''/local/file.bin'' ''/new/deep/dir/file.bin'' [] Map.empty)
   = Some (Returned (failure ''CREATE_DIRECTORY_ERROR''
             (''failed to create directory /new/deep: ''
              @ ''create folder request failed: status 404: parent folder not found'')) None,
           [(CREATE_FOLDER, ''new'', ''0''), (CREATE_FOLDER, ''deep'', ''/new'')],
           [(''0'', ''new'', ''F1'')])"
  by code_simp

text \<open>
  C8.  The upload of a local file to \<open>/new/deep/dir/file.bin\<close> into a tree with none of
  \<open>/new\<close>, \<open>/new/deep\<close>, \<open>/new/deep/dir\<close>.  Against a service that accepts any parent there
  are three folder creations before the pre-upload request, but the parent sent with the
  second and the third is the path of the parent (\<open>/new\<close>, \<open>/new/deep\<close>), not the identifier
  returned by the creation before (\<open>F1\<close>, \<open>F2\<close>); only the pre-upload request carries a
  returned identifier.  Against a service that knows a parent by its identifier the second
  creation is refused, and the upload returns \<open>CREATE_DIRECTORY_ERROR\<close> after two creation
  calls.
\<close>

theorem upload_creates_folders_by_path:
  "map_option (\<lambda>(out, log, st). (posts log, createdDirs log))
     (UploadFile (envTree False) False ''/local/file.bin'' ''/new/deep/dir/file.bin'' [] Map.empty)
   = Some ([(CREATE_FOLDER, ''new'', ''0''), (CREATE_FOLDER, ''deep'', ''/new''),
            (CREATE_FOLDER, ''dir'', ''/new/deep''), (FILE_UPLOAD_PRE, ''file.bin'', ''F3'')],
           [(''0'', ''new'', ''F1''), (''/new'', ''deep'', ''F2''),
            (''/new/deep'', ''dir'', ''F3'')])
   \<and> map_option (\<lambda>(out, log, st). (out, posts log))
     (UploadFile (envTree True) False ''/local/file.bin'' ''/new/deep/dir/file.bin'' [] Map.empty)
   = Some (Returned (failure ''CREATE_DIRECTORY_ERROR''
             (''failed to create directory /new/deep: ''
              @ ''create folder request failed: status 404: parent folder not found'')) None,
           [(CREATE_FOLDER, ''new'', ''0''), (CREATE_FOLDER, ''deep'', ''/new'')])"
proof -
  have "map_option (\<lambda>(out, p, c). (p, c))
          (map_option (\<lambda>(out, log, st). (out, posts log, createdDirs log))
             (UploadFile (envTree False) False ''/local/file.bin'' ''/new/deep/dir/file.bin'' []
                Map.empty))
        = Some ([(CREATE_FOLDER, ''new'', ''0''), (CREATE_FOLDER, ''deep'', ''/new''),
                 (CREATE_FOLDER, ''dir'', ''/new/deep''), (FILE_UPLOAD_PRE, ''file.bin'', ''F3'')],
                [(''0'', ''new'', ''F1''), (''/new'', ''deep'', ''F2''),
                 (''/new/deep'', ''dir'', ''F3'')])"
    unfolding upload_new_deep_dir_lenient by simp
  moreover have "map_option (\<lambda>(out, p, c). (out, p))
          (map_option (\<lambda>(out, log, st). (out, posts log, createdDirs log))
             (UploadFile (envTree True) False ''/local/file.bin'' ''/new/deep/dir/file.bin'' []
                Map.empty))
        = Some (Returned (failure ''CREATE_DIRECTORY_ERROR''
             (''failed to create directory /new/deep: ''
              @ ''create folder request failed: status 404: parent folder not found'')) None,
           [(CREATE_FOLDER, ''new'', ''0''), (CREATE_FOLDER, ''deep'', ''/new'')])"
    unfolding upload_new_deep_dir_strict by simp
  ultimately show ?thesis
    by (simp add: option.map_comp comp_def case_prod_unfold)
qed

section \<open>The error value and the session check of the upload\<close>

text \<open>An outcome has a nil error: it is a return whose second component is nil, or no return
  at all.\<close>

definition nilError :: "outcome \<Rightarrow> bool" where
  "nilError out = (case out of Returned resp err \<Rightarrow> err = None | Panicked msg \<Rightarrow> True)"

lemma nilError_simps [simp]: "nilError (Returned resp None)" "nilError (Panicked msg)"
  by (simp_all add: nilError_def)

lemma commitAndFinish_nil: "nilError (fst (commitAndFinish E c x))"
  by (simp add: commitAndFinish_def split: prod.split sum.split)

lemma saveProgress_nil: "nilError (fst (saveProgress E c x w resp))"
  by (simp add: saveProgress_def split: option.split)

lemma instantUpload_nil: "nilError (fst (instantUpload E cb pre fileSize statePath w st))"
  by (simp add: instantUpload_def split: prod.split sum.split)

lemma saveProgress_nilD: "saveProgress E c x w resp = (out, w', st) \<Longrightarrow> nilError out"
  using saveProgress_nil [of E c x w resp] by simp

lemma transferStep_nil: "transferStep E c x = Stop out w st \<Longrightarrow> nilError out"
  by (auto simp add: transferStep_def Let_def dest: saveProgress_nilD
      split: if_splits read_result.splits prod.splits sum.splits option.splits)

lemma transferLoop_nil:
  assumes "transferLoop E c x = Some r"
  shows "nilError (fst r)"
proof -
  have "(case ((E, c), x) of (a, xa) \<Rightarrow> (case a of (E, c) \<Rightarrow> (\<lambda>E c x r. nilError (fst r)) E c) xa) r"
  proof (rule transferLoop.raw_induct [where P = "\<lambda>E c x r. nilError (fst r)"])
    fix f :: "env \<Rightarrow> upload_ctx \<Rightarrow> xfer \<Rightarrow> (outcome \<times> world \<times> store) option"
    fix E c x r
    assume IH: "\<And>E c x r. f E c x = Some r \<Longrightarrow> nilError (fst r)"
    assume step: "(case transferStep E c x of
                     Stop out w st \<Rightarrow> Some (out, w, st)
                   | Leave \<Rightarrow> Some (commitAndFinish E c x)
                   | Continue x' \<Rightarrow> f E c x') = Some r"
    show "nilError (fst r)"
    proof (cases "transferStep E c x")
      case (Stop out w st)
      with step transferStep_nil [OF Stop] show ?thesis by auto
    next
      case Leave
      with step commitAndFinish_nil [of E c x] show ?thesis by auto
    next
      case (Continue x')
      with step IH show ?thesis by simp
    qed
  next
    show "(case ((E, c), x) of (a, xa) \<Rightarrow> (case a of (E, c) \<Rightarrow> transferLoop E c) xa) = Some r"
      using assms by simp
  qed
  thus ?thesis by simp
qed

lemma startTransfer_nil: "startTransfer E c saved w st = Some r \<Longrightarrow> nilError (fst r)"
  by (auto simp add: startTransfer_def Let_def split: prod.splits dest: transferLoop_nil)

lemma negotiate_nil:
  "negotiate E cb file filePath destPath destFileName fileSize destDirFid mimeType statePath
     saved w st = Some r \<Longrightarrow> nilError (fst r)"
  using instantUpload_nil [of E cb]
  by (auto simp add: negotiate_def split: prod.splits sum.splits if_splits
      dest!: startTransfer_nil)

lemma uploadTo_nil:
  "uploadTo E cb file filePath destPath destFileName fileSize destDirFid w st = Some r
   \<Longrightarrow> nilError (fst r)"
  by (auto simp add: uploadTo_def Let_def split: prod.splits dest!: negotiate_nil)

lemma UploadFile_nil:
  "UploadFile E cb filePath destPath0 w st = Some r \<Longrightarrow> nilError (fst r)"
  by (auto simp add: UploadFile_def split: prod.splits sum.splits option.splits
      dest!: uploadTo_nil)

lemma stale_uploadTo:
  assumes "loadUploadState st (getUploadStatePath E filePath destPath) = Inr state"
    and "\<not> (FilePath state = filePath \<and> DestPath state = destPath \<and> FileSize state = fileSize)"
  shows "uploadTo E cb file filePath destPath destFileName fileSize destDirFid w st
         = uploadTo E cb file filePath destPath destFileName fileSize destDirFid w
             (st(getUploadStatePath E filePath destPath := None))"
  using assms
  by (auto simp add: uploadTo_def Let_def resumeSession_def loadUploadState_def
      deleteUploadState_def)

lemma stale_UploadFile:
  assumes "os_Open E filePath = Inr file"
    and "file_Stat file = Inr (fileSize, localFileName)"
    and "destNames destPath0 localFileName = (destPath, destFileName, destDirPath)"
    and "ensureDestDir E destDirPath w = Some (Inr destDirFid, w1)"
    and "loadUploadState st (getUploadStatePath E filePath destPath) = Inr state"
    and "\<not> (FilePath state = filePath \<and> DestPath state = destPath \<and> FileSize state = fileSize)"
  shows "UploadFile E cb filePath destPath0 w st
         = UploadFile E cb filePath destPath0 w (st(getUploadStatePath E filePath destPath := None))"
  using assms(1-4) stale_uploadTo [OF assms(5,6)]
  by (simp add: UploadFile_def)

lemma fresh_UploadFile:
  assumes "os_Open E filePath = Inr file"
    and "file_Stat file = Inr (fileSize, localFileName)"
    and "destNames destPath0 localFileName = (destPath, destFileName, destDirPath)"
    and "ensureDestDir E destDirPath w = Some (Inr destDirFid, w1)"
    and "st (getUploadStatePath E filePath destPath) = None"
  shows "UploadFile E cb filePath destPath0 w st
         = negotiate E cb file filePath destPath destFileName fileSize destDirFid
             (mimeTypeOf E destFileName) (getUploadStatePath E filePath destPath) None w1 st"
  using assms
  by (simp add: UploadFile_def uploadTo_def Let_def resumeSession_def loadUploadState_def)

lemma trusted_UploadFile:
  assumes "os_Open E filePath = Inr file"
    and "file_Stat file = Inr (fileSize, localFileName)"
    and "destNames destPath0 localFileName = (destPath, destFileName, destDirPath)"
    and "ensureDestDir E destDirPath w = Some (Inr destDirFid, w1)"
    and "loadUploadState st (getUploadStatePath E filePath destPath) = Inr state"
    and "FilePath state = filePath \<and> DestPath state = destPath \<and> FileSize state = fileSize"
  shows "UploadFile E cb filePath destPath0 w st
         = negotiate E cb file filePath destPath destFileName fileSize destDirFid
             (mimeTypeOf E destFileName) (getUploadStatePath E filePath destPath) (Some state) w1 st"
  using assms
  by (simp add: UploadFile_def uploadTo_def Let_def resumeSession_def)


subsection \<open>Concrete services and stores\<close>

text \<open>
  A service on which an upload goes through: parts of two bytes, the content not yet
  known, a key for every signature, an ETag for every part, a commit and a finish that
  succeed.
\<close>

definition preGood :: "int \<Rightarrow> (string \<times> json) list" where
  "preGood partSize = [(''status'', JNum 200), (''code'', JNum 0),
     (''data'', JObj [(''task_id'', JStr ''task''), (''bucket'', JStr ''bucket''),
                      (''obj_key'', JStr ''obj''), (''upload_id'', JStr ''upload''),
                      (''upload_url'', JStr ''https://oss.example''),
                      (''auth_info'', JStr ''auth''), (''callback'', JObj [])]),
     (''metadata'', JObj [(''part_size'', JNum partSize)])]"

definition hashOpen :: "(string \<times> json) list" where
  "hashOpen = [(''status'', JNum 200), (''code'', JNum 0),
               (''data'', JObj [(''finish'', JBool False)])]"

definition finishOK :: "(string \<times> json) list" where
  "finishOK = [(''status'', JNum 200), (''code'', JNum 0),
               (''data'', JObj [(''fid'', JStr ''X1''), (''preview_url'', JStr ''u'')])]"

definition envGood :: "int \<Rightarrow> env" where
  "envGood partSize = env409\<lparr>api_reply :=
       (\<lambda>log rq. if api_endpoint rq = FILE_UPLOAD_PRE then Inr (preGood partSize)
                  else if api_endpoint rq = FILE_UPDATE_HASH then Inr hashOpen
                  else if api_endpoint rq = FILE_UPLOAD_FINISH then Inr finishOK
                  else Inr authOK),
     http_reply := (\<lambda>log rq. Inr resp200),
     os_Open := (\<lambda>p. Inr fileBin)\<rparr>"

text \<open>The record of a session for \<open>/local/file.bin\<close> and \<open>/file.bin\<close>, with a file size and
  the parts on record.\<close>

definition sessionRecord :: "int \<Rightarrow> json \<Rightarrow> json" where
  "sessionRecord size' parts =
     JObj [(''file_path'', JStr ''/local/file.bin''), (''dest_path'', JStr ''/file.bin''),
       (''file_size'', JNum size'), (''upload_id'', JStr ''upload''), (''task_id'', JStr ''task''),
       (''bucket'', JStr ''bucket''), (''obj_key'', JStr ''obj''),
       (''upload_url'', JStr ''https://oss.example''), (''part_size'', JNum 2),
       (''uploaded_parts'', parts), (''mime_type'', JStr ''application/octet-stream''),
       (''auth_info'', JRaw (quoted ''auth'')), (''callback'', JRaw ''{}''),
       (''created_at'', JStr ''2026-10-31T00:00:00Z'')]"

definition sessionState :: "int \<Rightarrow> (int \<times> string) list option \<Rightarrow> UploadState" where
  "sessionState size' parts =
     \<lparr>FilePath = ''/local/file.bin'', DestPath = ''/file.bin'', FileSize = size',
      UploadID = ''upload'', TaskID = ''task'', Bucket = ''bucket'', ObjKey = ''obj'',
      UploadURL = ''https://oss.example'', PartSize = 2, UploadedParts = parts,
      MimeType = ''application/octet-stream'', AuthInfo = Some (quoted ''auth''),
      Callback = Some ''{}'', HashCtx = None, CreatedAt = ''2026-10-31T00:00:00Z''\<rparr>"

definition statePath0 :: string where
  "statePath0 = ''/tmp/kuake_upload_state/md5.json''"

definition storeOf :: "json \<Rightarrow> store" where
  "storeOf record = [statePath0 \<mapsto> record]"


subsection \<open>The session check\<close>

lemma good_run_after_stale_record:
  "map_option (\<lambda>(out, log, st). (out, posts log, st statePath0))
     (UploadFile (envGood 2) True ''/local/file.bin'' ''/file.bin'' []
        (storeOf (sessionRecord 99 (JObj []))))
   = Some (Returned \<lparr>Success = True, Code = ''OK'', Message = uploadCompleteMessage,
                      Data = Some [(''fid'', GJson (JStr ''X1''))]\<rparr> None,
           [(FILE_UPLOAD_PRE, ''file.bin'', ''0''), (FILE_UPDATE_HASH, [], []),
            (FILE_UPLOAD_AUTH, [], []), (FILE_UPLOAD_AUTH, [], []), (FILE_UPLOAD_AUTH, [], []),
            (FILE_UPLOAD_FINISH, [], [])],
           None)"
  by code_simp

lemma good_run_resumed:
  "map_option (\<lambda>(out, log, st). (out, posts log, st statePath0))
     (UploadFile (envGood 2) True ''/local/file.bin'' ''/file.bin'' []
        (storeOf (sessionRecord 3 (JObj [(''1'', JStr ''5D41'')]))))
   = Some (Returned \<lparr>Success = True, Code = ''OK'', Message = uploadCompleteMessage,
                      Data = Some [(''fid'', GJson (JStr ''X1''))]\<rparr> None,
           [(FILE_UPDATE_HASH, [], []), (FILE_UPLOAD_AUTH, [], []), (FILE_UPLOAD_AUTH, [], []),
            (FILE_UPLOAD_FINISH, [], [])],
           None)"
  by code_simp

text \<open>
  C4.  When the upload reaches the session check and a record is loaded: if the recorded
  local path, destination path and file size equal those of this attempt, the session is
  the one resumed (the upload goes on with the negotiation it records); otherwise the record
  is removed, and the upload is the upload from the store without the record, which is the
  upload with no session: same outcome, same requests, same final store.
\<close>

theorem stale_session_discarded:
  assumes "os_Open E filePath = Inr file"
    and "file_Stat file = Inr (fileSize, localFileName)"
    and "destNames destPath0 localFileName = (destPath, destFileName, destDirPath)"
    and "ensureDestDir E destDirPath w = Some (Inr destDirFid, w1)"
    and "statePath = getUploadStatePath E filePath destPath"
    and "loadUploadState st statePath = Inr state"
  shows "if FilePath state = filePath \<and> DestPath state = destPath \<and> FileSize state = fileSize
         then resumeSession filePath destPath fileSize statePath st = (Some state, st)
            \<and> UploadFile E callback filePath destPath0 w st
              = negotiate E callback file filePath destPath destFileName fileSize destDirFid
                  (mimeTypeOf E destFileName) statePath (Some state) w1 st
         else resumeSession filePath destPath fileSize statePath st
              = (None, st(statePath := None))
            \<and> UploadFile E callback filePath destPath0 w st
              = UploadFile E callback filePath destPath0 w (st(statePath := None))
            \<and> UploadFile E callback filePath destPath0 w (st(statePath := None))
              = negotiate E callback file filePath destPath destFileName fileSize destDirFid
                  (mimeTypeOf E destFileName) statePath None w1 (st(statePath := None))"
proof (cases "FilePath state = filePath \<and> DestPath state = destPath \<and> FileSize state = fileSize")
  case True
  have "resumeSession filePath destPath fileSize statePath st = (Some state, st)"
    using True assms(6) by (simp add: resumeSession_def)
  moreover have "UploadFile E callback filePath destPath0 w st
      = negotiate E callback file filePath destPath destFileName fileSize destDirFid
          (mimeTypeOf E destFileName) statePath (Some state) w1 st"
    using trusted_UploadFile [OF assms(1-4) assms(6) [unfolded assms(5)] True] assms(5)
    by simp
  ultimately show ?thesis using True by simp
next
  case False
  have "resumeSession filePath destPath fileSize statePath st = (None, st(statePath := None))"
    using False assms(6) by (auto simp add: resumeSession_def deleteUploadState_def)
  moreover have "UploadFile E callback filePath destPath0 w st
      = UploadFile E callback filePath destPath0 w (st(statePath := None))"
    using stale_UploadFile [OF assms(1-4) assms(6) [unfolded assms(5)] False] assms(5)
    by simp
  moreover have "UploadFile E callback filePath destPath0 w (st(statePath := None))
      = negotiate E callback file filePath destPath destFileName fileSize destDirFid
          (mimeTypeOf E destFileName) statePath None w1 (st(statePath := None))"
    using fresh_UploadFile [OF assms(1-4), of "st(statePath := None)"] assms(5)
    by simp
  ultimately show ?thesis using False by simp
qed

text \<open>
  A record of another file size (99 for a file of 3 bytes) is discarded and the upload goes
  through after a new negotiation; a record of this attempt with part 1 on record is
  resumed.
\<close>

theorem stale_session_discarded_witness:
  "loadUploadState (storeOf (sessionRecord 99 (JObj []))) statePath0
     = Inr (sessionState 99 (Some []))
   \<and> resumeSession ''/local/file.bin'' ''/file.bin'' 3 statePath0
       (storeOf (sessionRecord 99 (JObj [])))
     = (None, (storeOf (sessionRecord 99 (JObj [])))(statePath0 := None))
   \<and> UploadFile (envGood 2) True ''/local/file.bin'' ''/file.bin'' []
       (storeOf (sessionRecord 99 (JObj [])))
     = UploadFile (envGood 2) True ''/local/file.bin'' ''/file.bin'' []
         ((storeOf (sessionRecord 99 (JObj [])))(statePath0 := None))
   \<and> loadUploadState (storeOf (sessionRecord 3 (JObj [(''1'', JStr ''5D41'')]))) statePath0
     = Inr (sessionState 3 (Some [(1, ''5D41'')]))
   \<and> resumeSession ''/local/file.bin'' ''/file.bin'' 3 statePath0
       (storeOf (sessionRecord 3 (JObj [(''1'', JStr ''5D41'')])))
     = (Some (sessionState 3 (Some [(1, ''5D41'')])),
        storeOf (sessionRecord 3 (JObj [(''1'', JStr ''5D41'')])))"
proof -
  have a: "os_Open (envGood 2) ''/local/file.bin'' = Inr fileBin"
    by (simp add: envGood_def)
  have b: "file_Stat fileBin = Inr (3, ''file.bin'')"
    by (simp add: fileBin_def)
  have c: "destNames ''/file.bin'' ''file.bin'' = (''/file.bin'', ''file.bin'', ''/'')"
    by code_simp
  have d: "ensureDestDir (envGood 2) ''/'' [] = Some (Inr ''0'', [])"
    by (simp add: ensureDestDir_def)
  have e: "statePath0 = getUploadStatePath (envGood 2) ''/local/file.bin'' ''/file.bin''"
    by code_simp
  have f: "loadUploadState (storeOf (sessionRecord 99 (JObj []))) statePath0
           = Inr (sessionState 99 (Some []))"
    by code_simp
  have g: "loadUploadState (storeOf (sessionRecord 3 (JObj [(''1'', JStr ''5D41'')]))) statePath0
           = Inr (sessionState 3 (Some [(1, ''5D41'')]))"
    by code_simp
  show ?thesis
    using stale_session_discarded [OF a b c d e f, of True]
      stale_session_discarded [OF a b c d e g, of True] f g
    by (simp add: sessionState_def)
qed

subsection \<open>Returns and panics\<close>

lemma panic_negative_part_size:
  "map_option (\<lambda>(out, log, st). (out, posts log))
     (UploadFile (envGood (- 1)) False ''/local/file.bin'' ''/file.bin'' [] Map.empty)
   = Some (Panicked ''makeslice: len out of range'',
           [(FILE_UPLOAD_PRE, ''file.bin'', ''0''), (FILE_UPDATE_HASH, [], [])])"
  by code_simp

lemma panic_nil_parts:
  "map_option (\<lambda>(out, log, st). (out, posts log))
     (UploadFile (envGood 2) False ''/local/file.bin'' ''/file.bin'' []
        (storeOf (sessionRecord 3 JNull)))
   = Some (Panicked ''assignment to entry in nil map'',
           [(FILE_UPDATE_HASH, [], []), (FILE_UPLOAD_AUTH, [], [])])"
  by code_simp

text \<open>
  C10.  Every return of \<open>UploadFile\<close> has a nil error, whatever the service, the file system
  and the store do.  But the function does not always return: when the service negotiates
  a negative part size, \<open>make([]byte, partSize)\<close> panics after the hash check; and when the
  record of the resumed session has no map of parts (\<open>"uploaded_parts": null\<close>), the
  assignment of the first ETag panics after the first part is sent.
\<close>

theorem upload_returns_nil_error_but_can_panic:
  "(\<forall>E callback filePath destPath w st r.
      UploadFile E callback filePath destPath w st = Some r \<longrightarrow> nilError (fst r))
   \<and> map_option (\<lambda>(out, log, st). (out, posts log))
       (UploadFile (envGood (- 1)) False ''/local/file.bin'' ''/file.bin'' [] Map.empty)
     = Some (Panicked ''makeslice: len out of range'',
             [(FILE_UPLOAD_PRE, ''file.bin'', ''0''), (FILE_UPDATE_HASH, [], [])])
   \<and> map_option (\<lambda>(out, log, st). (out, posts log))
       (UploadFile (envGood 2) False ''/local/file.bin'' ''/file.bin'' []
          (storeOf (sessionRecord 3 JNull)))
     = Some (Panicked ''assignment to entry in nil map'',
             [(FILE_UPDATE_HASH, [], []), (FILE_UPLOAD_AUTH, [], [])])"
  using UploadFile_nil panic_negative_part_size panic_nil_parts by blast

text \<open>A file that cannot be opened: the failure is a response, the error is nil.\<close>

theorem upload_returns_nil_error_but_can_panic_witness:
  "UploadFile env409 True ''/local/file.bin'' ''/file.bin'' [] Map.empty
     = Some (Returned (failure ''FILE_OPEN_ERROR'' ''failed to open file: no such file'') None,
             [], Map.empty)
   \<and> nilError (fst (the (UploadFile env409 True ''/local/file.bin'' ''/file.bin'' [] Map.empty)))"
proof -
  have a: "UploadFile env409 True ''/local/file.bin'' ''/file.bin'' [] Map.empty
     = Some (Returned (failure ''FILE_OPEN_ERROR'' ''failed to open file: no such file'') None,
             [], Map.empty)"
    by (simp add: UploadFile_def env409_def)
  from upload_returns_nil_error_but_can_panic
  have "nilError (fst (the (UploadFile env409 True ''/local/file.bin'' ''/file.bin'' []
                        Map.empty)))"
    using a by (metis option.sel)
  with a show ?thesis by simp
qed

section \<open>Hash context codec\<close>

text \<open>
  The functions that capture and restore the state of the SHA-1 accumulator are described by
  the specification; the sources at hand hold the type \<open>HashCtx\<close> (types.go) and the tests of
  the functions, not the functions.  The accumulator, its snapshot and the two functions are
  modelled from the specification, with SHA-1 as the standard defines it.
\<close>

text \<open>Modelled from the spec: a byte of the hashed data.\<close>

type_synonym byte = "8 word"
text \<open>Modelled from the spec: the five 32-bit chaining words of the accumulator.\<close>

type_synonym chain = "32 word \<times> 32 word \<times> 32 word \<times> 32 word \<times> 32 word"

text \<open>Modelled from the spec: the 32-bit word of four bytes, most significant first.\<close>

definition be32 :: "byte list \<Rightarrow> 32 word" where
  "be32 bs = foldl (\<lambda>acc b. push_bit 8 acc OR ucast b) 0 bs"

text \<open>Modelled from the spec: the four bytes of a 32-bit word, most significant first.\<close>

definition bytes32 :: "32 word \<Rightarrow> byte list" where
  "bytes32 v = [ucast (drop_bit 24 v), ucast (drop_bit 16 v), ucast (drop_bit 8 v), ucast v]"

text \<open>Modelled from the spec: the eight bytes of a 64-bit word, most significant first.\<close>

definition bytes64 :: "64 word \<Rightarrow> byte list" where
  "bytes64 v = map (\<lambda>i. ucast (drop_bit (8 * (7 - i)) v)) [0..<8]"

text \<open>Modelled from the spec: the message schedule of SHA-1, extended by \<open>n\<close> words.\<close>

fun expand :: "nat \<Rightarrow> 32 word list \<Rightarrow> 32 word list" where
  "expand 0 ws = ws"
| "expand (Suc n) ws =
     expand n (ws @ [word_rotl 1 (ws ! (length ws - 3) XOR ws ! (length ws - 8)
                                  XOR ws ! (length ws - 14) XOR ws ! (length ws - 16))])"

text \<open>Modelled from the spec: the 80 words of the schedule of a block of 64 bytes.\<close>

definition schedule :: "byte list \<Rightarrow> 32 word list" where
  "schedule p = expand 64 (map (\<lambda>i. be32 (take 4 (drop (4 * i) p))) [0..<16])"

text \<open>Modelled from the spec: round \<open>i\<close> of the compression function of SHA-1.\<close>

definition sha1_round :: "32 word list \<Rightarrow> chain \<Rightarrow> nat \<Rightarrow> chain" where
  "sha1_round ws s i =
     (case s of (a, b, c, d, e) \<Rightarrow>
        (let (f, k) =
               (if i < 20 then ((b AND c) OR (NOT b AND d), 0x5A827999)
                else if i < 40 then (b XOR c XOR d, 0x6ED9EBA1)
                else if i < 60 then (((b OR c) AND d) OR (b AND c), 0x8F1BBCDC)
                else (b XOR c XOR d, 0xCA62C1D6));
             t = word_rotl 5 a + f + e + ws ! i + k
         in (t, a, word_rotl 30 b, c, d)))"

text \<open>Modelled from the spec: the compression of one block of 64 bytes into the chaining words.\<close>

definition block :: "chain \<Rightarrow> byte list \<Rightarrow> chain" where
  "block h p =
     (case (h, foldl (sha1_round (schedule p)) h [0..<80]) of
        ((h0, h1, h2, h3, h4), (a, b, c, d, e)) \<Rightarrow> (h0 + a, h1 + b, h2 + c, h3 + d, h4 + e))"

text \<open>Modelled from the spec: the consumption of the full blocks of the pending bytes; what is left
  (fewer than 64 bytes) is the partial block.\<close>

function blocks :: "chain \<Rightarrow> byte list \<Rightarrow> chain \<times> byte list" where
  "blocks h p = (if length p \<ge> 64 then blocks (block h (take 64 p)) (drop 64 p) else (h, p))"
  by pat_completeness auto
termination
  by (relation "measure (\<lambda>(h, p). length p)") auto

declare blocks.simps [simp del]

text \<open>Modelled from the spec: the streaming hash accumulator: chaining words, unconsumed partial
  block, and count of the bytes processed.\<close>

record digest =
  d_h :: chain
  d_x :: "byte list"
  d_len :: "64 word"

text \<open>Modelled from the spec: the accumulator before any byte is hashed.\<close>

definition sha1_New :: digest where
  "sha1_New = \<lparr>d_h = (0x67452301, 0xEFCDAB89, 0x98BADCFE, 0x10325476, 0xC3D2E1F0),
               d_x = [], d_len = 0\<rparr>"

text \<open>Modelled from the spec: feeding bytes into the accumulator.\<close>

definition sha1_Write :: "digest \<Rightarrow> byte list \<Rightarrow> digest" where
  "sha1_Write d p =
     (case blocks (d_h d) (d_x d @ p) of
        (h, rest) \<Rightarrow> \<lparr>d_h = h, d_x = rest, d_len = d_len d + word_of_nat (length p)\<rparr>)"

text \<open>Modelled from the spec: the padding of SHA-1 for a message of \<open>len\<close> bytes.\<close>

definition padding :: "64 word \<Rightarrow> byte list" where
  "padding len =
     (let t = unat len mod 64;
          padlen = (if t < 56 then 56 - t else 64 + 56 - t)
      in 0x80 # replicate (padlen - 1) 0 @ bytes64 (push_bit 3 len))"

text \<open>Modelled from the spec: the digest of the bytes fed so far.\<close>

definition sha1_Sum :: "digest \<Rightarrow> byte list" where
  "sha1_Sum d =
     (case d_h (sha1_Write d (padding (d_len d))) of
        (h0, h1, h2, h3, h4) \<Rightarrow> bytes32 h0 @ bytes32 h1 @ bytes32 h2 @ bytes32 h3 @ bytes32 h4)"

text \<open>Modelled from the spec: the snapshot of the accumulator: five 32-bit chaining words, the
  64-bit count of processed bytes in a low and a high half, and the unconsumed partial block
  with its length.\<close>

record HashState =
  hs_h0 :: "32 word"
  hs_h1 :: "32 word"
  hs_h2 :: "32 word"
  hs_h3 :: "32 word"
  hs_h4 :: "32 word"
  hs_Nl :: "32 word"
  hs_Nh :: "32 word"
  hs_data :: "byte list"
  hs_num :: nat

text \<open>Modelled from the spec: \<open>capture(accumulator, bytesHashedSoFar) -> HashState\<close>.\<close>

definition capture :: "digest \<Rightarrow> nat \<Rightarrow> HashState" where
  "capture acc bytesHashedSoFar =
     (case d_h acc of
        (h0, h1, h2, h3, h4) \<Rightarrow>
          \<lparr>hs_h0 = h0, hs_h1 = h1, hs_h2 = h2, hs_h3 = h3, hs_h4 = h4,
           hs_Nl = ucast (word_of_nat bytesHashedSoFar :: 64 word),
           hs_Nh = ucast (drop_bit 32 (word_of_nat bytesHashedSoFar :: 64 word)),
           hs_data = d_x acc, hs_num = length (d_x acc)\<rparr>)"

text \<open>Modelled from the spec: \<open>restore(HashState) -> accumulator\<close>.\<close>

definition restore :: "HashState \<Rightarrow> digest" where
  "restore s =
     \<lparr>d_h = (hs_h0 s, hs_h1 s, hs_h2 s, hs_h3 s, hs_h4 s),
      d_x = take (hs_num s) (hs_data s),
      d_len = push_bit 32 (ucast (hs_Nh s)) OR ucast (hs_Nl s)\<rparr>"

subsection \<open>Resuming a hash\<close>

lemma blocks_append:
  "blocks h (a @ q) = (case blocks h a of (h', r) \<Rightarrow> blocks h' (r @ q))"
proof (induction h a rule: blocks.induct)
  case (1 h p)
  show ?case
  proof (cases "length p \<ge> 64")
    case True
    have "blocks h (p @ q) = blocks (block h (take 64 (p @ q))) (drop 64 (p @ q))"
      using True by (subst blocks.simps) simp
    also have "\<dots> = blocks (block h (take 64 p)) (drop 64 p @ q)"
      using True by simp
    also have "\<dots> = (case blocks (block h (take 64 p)) (drop 64 p) of (h', r) \<Rightarrow> blocks h' (r @ q))"
      using 1 True by simp
    also have "blocks (block h (take 64 p)) (drop 64 p) = blocks h p"
      using True by (subst (2) blocks.simps) simp
    finally show ?thesis .
  next
    case False
    then have "blocks h p = (h, p)" by (subst blocks.simps) simp
    then show ?thesis by simp
  qed
qed

lemma Write_append: "sha1_Write (sha1_Write d p) q = sha1_Write d (p @ q)"
  using blocks_append [of "d_h d" "d_x d @ p" q]
  by (simp add: sha1_Write_def split: prod.splits)

lemma halves: "push_bit 32 (ucast (ucast (drop_bit 32 n) :: 32 word)) OR ucast (ucast n :: 32 word) = (n :: 64 word)"
  by (rule bit_word_eqI) (auto simp add: bit_simps)

lemma restore_capture:
  "restore (capture d n) = d\<lparr>d_len := word_of_nat n\<rparr>"
  by (cases "d_h d") (simp add: restore_def capture_def halves)

lemma len_Write: "d_len (sha1_Write d p) = d_len d + word_of_nat (length p)"
  by (simp add: sha1_Write_def split: prod.splits)

text \<open>
  C1.  For all byte strings \<open>P\<close> and \<open>Q\<close> (of any length: none, one byte, one block of 64 bytes,
  several blocks and a partial block): the accumulator restored from the state captured
  after hashing \<open>P\<close>, fed \<open>Q\<close>, gives the digest of \<open>P\<close> followed by \<open>Q\<close> hashed in one pass.
\<close>

theorem hash_resume:
  "sha1_Sum (sha1_Write (restore (capture (sha1_Write sha1_New P) (length P))) Q)
   = sha1_Sum (sha1_Write sha1_New (P @ Q))"
proof -
  have "d_len (sha1_Write sha1_New P) = word_of_nat (length P)"
    by (simp add: len_Write sha1_New_def)
  then have "restore (capture (sha1_Write sha1_New P) (length P)) = sha1_Write sha1_New P"
    by (simp add: restore_capture)
  then show ?thesis by (simp add: Write_append)
qed

end
